theory Spec2Isabelle
  imports Main "HOL-Library.AList" "HOL-Library.Sublist"
begin

section \<open>Strings\<close>

text \<open>
  A string of the program is kept as the bytes of its UTF-8 form, the form it has in a
  file and in a file name: \<open>''abc''\<close> is the string \<open>'abc'\<close>, and the no-break space
  U+00A0 is the two bytes \<open>C2 A0\<close>. Concatenation, comparison for equality, splitting at
  \<open>/\<close> and tests for an ASCII suffix are the same on both forms.
\<close>

primrec join_with :: "string \<Rightarrow> string list \<Rightarrow> string" where
  "join_with sep [] = []"
| "join_with sep (x # xs) = (case xs of [] \<Rightarrow> x | _ \<Rightarrow> x @ sep @ join_with sep xs)"

definition endsWith :: "string \<Rightarrow> string \<Rightarrow> bool" where
  "endsWith s suf = suffix suf s"

definition strip_suffix :: "string \<Rightarrow> string \<Rightarrow> string" where
  \<comment> \<open>\<open>s.replace(/suf$/, '')\<close> for a literal suffix\<close>
  "strip_suffix suf s = (if suffix suf s then take (length s - length suf) s else s)"

text \<open>
  \<open>String.prototype.trim\<close> removes, at both ends, the white space and the line
  terminators of ECMAScript: TAB, LF, VT, FF, CR and the space, which are one byte each;
  U+00A0, which is two bytes; and U+1680, U+2000 to U+200A, U+2028, U+2029, U+202F,
  U+205F, U+3000 and U+FEFF, which are three bytes each.
\<close>

definition is_space1 :: "char \<Rightarrow> bool" where
  "is_space1 c = (c = CHR 0x09 \<or> c = CHR 0x0A \<or> c = CHR 0x0B \<or> c = CHR 0x0C
                  \<or> c = CHR 0x0D \<or> c = CHR 0x20)"

definition is_space2 :: "char \<Rightarrow> char \<Rightarrow> bool" where
  "is_space2 a b = (a = CHR 0xC2 \<and> b = CHR 0xA0)"

definition is_space3 :: "char \<Rightarrow> char \<Rightarrow> char \<Rightarrow> bool" where
  "is_space3 a b c =
     ((a = CHR 0xE1 \<and> b = CHR 0x9A \<and> c = CHR 0x80)
    \<or> (a = CHR 0xE2 \<and> b = CHR 0x80
        \<and> ((0x80 \<le> (of_char c :: nat) \<and> (of_char c :: nat) \<le> 0x8A)
           \<or> c = CHR 0xA8 \<or> c = CHR 0xA9 \<or> c = CHR 0xAF))
    \<or> (a = CHR 0xE2 \<and> b = CHR 0x81 \<and> c = CHR 0x9F)
    \<or> (a = CHR 0xE3 \<and> b = CHR 0x80 \<and> c = CHR 0x80)
    \<or> (a = CHR 0xEF \<and> b = CHR 0xBB \<and> c = CHR 0xBF))"

fun trim_start :: "string \<Rightarrow> string" where
  "trim_start (a # b # c # s) =
     (if is_space1 a then trim_start (b # c # s)
      else if is_space2 a b then trim_start (c # s)
      else if is_space3 a b c then trim_start s
      else a # b # c # s)"
| "trim_start [a, b] =
     (if is_space1 a then trim_start [b] else if is_space2 a b then [] else [a, b])"
| "trim_start [a] = (if is_space1 a then [] else [a])"
| "trim_start [] = []"

text \<open>The same from the other end, on the reversed string.\<close>

fun trim_end_rev :: "string \<Rightarrow> string" where
  "trim_end_rev (c # b # a # s) =
     (if is_space1 c then trim_end_rev (b # a # s)
      else if is_space2 b c then trim_end_rev (a # s)
      else if is_space3 a b c then trim_end_rev s
      else c # b # a # s)"
| "trim_end_rev [c, b] =
     (if is_space1 c then trim_end_rev [b] else if is_space2 b c then [] else [c, b])"
| "trim_end_rev [c] = (if is_space1 c then [] else [c])"
| "trim_end_rev [] = []"

definition trim :: "string \<Rightarrow> string" where
  "trim s = rev (trim_end_rev (rev (trim_start s)))"

section \<open>Paths (Node's \<open>path\<close> module)\<close>

text \<open>
  A path is the list of its segments below the filesystem root; the strings the source
  passes to \<open>path.join\<close> (\<open>'.nanoclaw/base'\<close>, a manifest's \<open>src/config.ts\<close>) are split
  at \<open>/\<close> and normalised as \<open>path.join\<close> does: empty and \<open>.\<close> segments vanish and
  \<open>..\<close> removes the segment before it. The segments do not record a slash at the end
  of the joined string: \<open>path.join\<close> keeps it, and Node then accepts the path for a
  directory only.
\<close>

type_synonym path = "string list"

primrec split_slash :: "string \<Rightarrow> string \<Rightarrow> string list" where
  "split_slash cur [] = [rev cur]"
| "split_slash cur (c # cs) =
     (if c = CHR ''/'' then rev cur # split_slash [] cs else split_slash (c # cur) cs)"

definition push_segment :: "path \<Rightarrow> string \<Rightarrow> path" where
  "push_segment p seg =
     (if seg = [] \<or> seg = ''.'' then p
      else if seg = ''..'' then butlast p
      else p @ [seg])"

definition path_join :: "path \<Rightarrow> string \<Rightarrow> path" where
  "path_join p s = foldl push_segment p (split_slash [] s)"

definition dirname :: "path \<Rightarrow> path" where
  "dirname p = butlast p"

section \<open>The filesystem (Node's \<open>fs\<close> module)\<close>

text \<open>
  The filesystem is a tree: a file holds its content, a directory holds its entries in
  the order \<open>readdirSync\<close> lists them. Every \<open>fs\<close> call that Node lets fail on a path of
  the wrong kind is a function into a sum, \<open>Inl\<close> carrying the error code.
\<close>

datatype node = File string | Dir "(string \<times> node) list"

primrec lookup :: "path \<Rightarrow> node \<Rightarrow> node option" where
  "lookup [] n = Some n"
| "lookup (s # p) n =
     (case n of
        File _ \<Rightarrow> None
      | Dir es \<Rightarrow> (case map_of es s of None \<Rightarrow> None | Some c \<Rightarrow> lookup p c))"

definition existsSync :: "node \<Rightarrow> path \<Rightarrow> bool" where
  "existsSync t p = (lookup p t \<noteq> None)"

definition fileAt :: "node \<Rightarrow> path \<Rightarrow> string option" where
  "fileAt t p = (case lookup p t of Some (File c) \<Rightarrow> Some c | _ \<Rightarrow> None)"

definition readFileSync :: "node \<Rightarrow> path \<Rightarrow> string + string" where
  "readFileSync t p =
     (case lookup p t of
        Some (File c) \<Rightarrow> Inr c
      | Some (Dir _) \<Rightarrow> Inl ''EISDIR''
      | None \<Rightarrow> Inl ''ENOENT'')"

definition readdirSync :: "node \<Rightarrow> path \<Rightarrow> string + (string \<times> node) list" where
  "readdirSync t p =
     (case lookup p t of
        Some (Dir es) \<Rightarrow> Inr es
      | Some (File _) \<Rightarrow> Inl ''ENOTDIR''
      | None \<Rightarrow> Inl ''ENOENT'')"

primrec isDirectory :: "node \<Rightarrow> bool" where
  "isDirectory (File _) = False"
| "isDirectory (Dir _) = True"

text \<open>
  \<open>set_entry p v t\<close> replaces (\<open>Some\<close>) or removes (\<open>None\<close>) the entry at \<open>p\<close>; the parent
  of \<open>p\<close> has to be a directory of \<open>t\<close>.
\<close>

primrec set_entry :: "path \<Rightarrow> node option \<Rightarrow> node \<Rightarrow> node option" where
  "set_entry [] v n = None"
| "set_entry (s # p) v n =
     (case n of
        File _ \<Rightarrow> None
      | Dir es \<Rightarrow>
          (if p = [] then
             Some (Dir (case v of None \<Rightarrow> AList.delete s es | Some c \<Rightarrow> AList.update s c es))
           else
             (case map_of es s of
                None \<Rightarrow> None
              | Some ch \<Rightarrow>
                  (case set_entry p v ch of
                     None \<Rightarrow> None
                   | Some ch' \<Rightarrow> Some (Dir (AList.update s ch' es))))))"

definition writeFileSync :: "path \<Rightarrow> string \<Rightarrow> node \<Rightarrow> string + node" where
  "writeFileSync p c t =
     (case lookup p t of
        Some (Dir _) \<Rightarrow> Inl ''EISDIR''
      | _ \<Rightarrow> (case set_entry p (Some (File c)) t of
                None \<Rightarrow> Inl ''ENOENT''
              | Some t' \<Rightarrow> Inr t'))"

definition copyFileSync :: "path \<Rightarrow> path \<Rightarrow> node \<Rightarrow> string + node" where
  "copyFileSync src dst t =
     (case readFileSync t src of
        Inl e \<Rightarrow> Inl e
      | Inr c \<Rightarrow> writeFileSync dst c t)"

definition unlinkSync :: "path \<Rightarrow> node \<Rightarrow> string + node" where
  "unlinkSync p t =
     (case lookup p t of
        None \<Rightarrow> Inl ''ENOENT''
      | Some (Dir _) \<Rightarrow> Inl ''EISDIR''
      | Some (File _) \<Rightarrow>
          (case set_entry p None t of None \<Rightarrow> Inl ''ENOENT'' | Some t' \<Rightarrow> Inr t'))"

text \<open>\<open>fs.mkdirSync(p, { recursive: true })\<close>: fails only where a segment is a file.\<close>

primrec mkdirp :: "path \<Rightarrow> node \<Rightarrow> node option" where
  "mkdirp [] n = (case n of File _ \<Rightarrow> None | Dir _ \<Rightarrow> Some n)"
| "mkdirp (s # p) n =
     (case n of
        File _ \<Rightarrow> None
      | Dir es \<Rightarrow>
          (case mkdirp p (case map_of es s of None \<Rightarrow> Dir [] | Some ch \<Rightarrow> ch) of
             None \<Rightarrow> None
           | Some ch' \<Rightarrow> Some (Dir (AList.update s ch' es))))"

definition mkdirSync :: "path \<Rightarrow> node \<Rightarrow> string + node" where
  "mkdirSync p t = (case mkdirp p t of None \<Rightarrow> Inl ''ENOTDIR'' | Some t' \<Rightarrow> Inr t')"


section \<open>Effects: state passing with exceptions\<close>

text \<open>
  An effectful step takes the state and returns the state after it together with either
  the exception thrown (\<open>Inl\<close>, its message) or the value returned (\<open>Inr\<close>).
\<close>

type_synonym ('a, 's) io = "'s \<Rightarrow> (string + 'a) \<times> 's"

definition io_return :: "'a \<Rightarrow> ('a, 's) io" where
  "io_return a s = (Inr a, s)"

definition io_throw :: "string \<Rightarrow> ('a, 's) io" where
  "io_throw e s = (Inl e, s)"

definition io_bind :: "('a, 's) io \<Rightarrow> ('a \<Rightarrow> ('b, 's) io) \<Rightarrow> ('b, 's) io" where
  "io_bind m f s = (case m s of (Inl e, s') \<Rightarrow> (Inl e, s') | (Inr a, s') \<Rightarrow> f a s')"

definition io_then :: "(unit, 's) io \<Rightarrow> ('b, 's) io \<Rightarrow> ('b, 's) io" where
  "io_then m k = io_bind m (\<lambda>_. k)"

text \<open>An \<open>fs\<close> call that fails leaves the tree as it was.\<close>

definition fs_call :: "(node \<Rightarrow> string + node) \<Rightarrow> (unit, node) io" where
  "fs_call f t = (case f t of Inl e \<Rightarrow> (Inl e, t) | Inr t' \<Rightarrow> (Inr (), t'))"

section \<open>constants.ts\<close>

definition NANOCLAW_DIR :: string where "NANOCLAW_DIR = ''.nanoclaw''"
definition BASE_DIR :: string where "BASE_DIR = ''.nanoclaw/base''"
definition RESOLUTIONS_DIR :: string where "RESOLUTIONS_DIR = ''.nanoclaw/resolutions''"
definition SHIPPED_RESOLUTIONS_DIR :: string where
  "SHIPPED_RESOLUTIONS_DIR = ''.gemini/resolutions''"

section \<open>resolution-cache.ts\<close>

text \<open>
  Of a \<open>file_hashes\<close> entry of the meta document, the three hashes \<open>loadResolutions\<close>
  compares: \<open>None\<close> where the property is absent or holds no string, since the hash of a
  file, a string, differs from it.
\<close>

record FileInputHashes =
  base :: "string option"
  current :: "string option"
  skill :: "string option"

text \<open>
  Of the meta document, what \<open>loadResolutions\<close> reads. \<open>input_hashes\<close> is \<open>None\<close> where
  \<open>meta.input_hashes\<close> is falsy: the property is absent, or holds \<open>null\<close>, \<open>false\<close>, \<open>0\<close>
  or \<open>''\<close>. \<open>meta_file_hashes\<close> is \<open>None\<close> where \<open>meta.file_hashes\<close> is \<open>null\<close> or
  \<open>undefined\<close>, and maps a relative path to \<open>None\<close> where \<open>meta.file_hashes[relPath]\<close>
  is falsy.
\<close>

record ResolutionMeta =
  input_hashes :: "(string \<times> string) list option"
  meta_file_hashes :: "(string \<rightharpoonup> FileInputHashes) option"

text \<open>
  What \<open>loadResolutions\<close> calls outside this file. \<open>toStringUtf8\<close> is the
  \<open>buffer.toString('utf-8')\<close> that \<open>readFileSync(p, 'utf-8')\<close> applies to the bytes of a
  file (Node replaces what is not UTF-8 in them). \<open>parseYaml\<close> is the \<open>yaml\<close> package's
  \<open>parse\<close>: \<open>Inl\<close> when it throws, \<open>Inr None\<close> when it returns \<open>null\<close>, as it does for an
  empty document, and else what the properties of the value it returns hold.
  \<open>gitRevParseGitDir\<close> is \<open>git rev-parse --git-dir\<close> run in a directory: \<open>None\<close> when the
  command fails, else its output. \<open>sha256\<close> is the digest behind \<open>computeFileHash\<close>.
\<close>

record cache_env =
  toStringUtf8 :: "string \<Rightarrow> string"
  parseYaml :: "string \<Rightarrow> string + ResolutionMeta option"
  gitRevParseGitDir :: "node \<Rightarrow> path \<Rightarrow> string option"
  sha256 :: "string \<Rightarrow> string"

text \<open>\<open>fs.readFileSync(p, 'utf-8')\<close>\<close>

definition readTextSync :: "('x cache_env_scheme) \<Rightarrow> node \<Rightarrow> path \<Rightarrow> string + string" where
  "readTextSync env t p =
     (case readFileSync t p of Inl e \<Rightarrow> Inl e | Inr c \<Rightarrow> Inr (toStringUtf8 env c))"

text \<open>
  Modelled from the spec: \<open>computeFileHash\<close> of \<open>state.ts\<close>, which is not among the
  sources; the spec has it return the SHA-256 of the content of the file at the path.
\<close>

definition computeFileHash :: "('x cache_env_scheme) \<Rightarrow> node \<Rightarrow> path \<Rightarrow> string + string" where
  "computeFileHash env t p =
     (case readFileSync t p of Inl e \<Rightarrow> Inl e | Inr c \<Rightarrow> Inr (sha256 env c))"

text \<open>
  \<open>[...skills].sort()\<close> compares strings by UTF-16 code unit. On the UTF-8 form that is
  the order of the bytes, but for the characters from U+E000 to U+FFFF (lead bytes \<open>EE\<close>
  and \<open>EF\<close>): they come after the characters beyond U+FFFF (lead bytes \<open>F0\<close> to \<open>F4\<close>),
  which UTF-16 writes as surrogate pairs.
\<close>

definition unit_rank :: "char \<Rightarrow> nat" where
  "unit_rank c = (if c = CHR 0xEE \<or> c = CHR 0xEF then of_char c + 0x10 else of_char c)"

fun str_le :: "string \<Rightarrow> string \<Rightarrow> bool" where
  "str_le [] _ = True"
| "str_le (a # as) [] = False"
| "str_le (a # as) (b # bs) =
     (if a = b then str_le as bs else unit_rank a < unit_rank b)"

primrec insert_sorted :: "string \<Rightarrow> string list \<Rightarrow> string list" where
  "insert_sorted x [] = [x]"
| "insert_sorted x (y # ys) = (if str_le x y then x # y # ys else y # insert_sorted x ys)"

definition sort_strings :: "string list \<Rightarrow> string list" where
  "sort_strings xs = foldr insert_sorted xs []"

definition resolutionKey :: "string list \<Rightarrow> string" where
  "resolutionKey skills = join_with ''+'' (sort_strings skills)"

definition findResolutionDir :: "node \<Rightarrow> string list \<Rightarrow> path \<Rightarrow> path option" where
  "findResolutionDir t skills projectRoot =
     (let key = resolutionKey skills in
      find (existsSync t)
        (map (\<lambda>baseDir. path_join (path_join projectRoot baseDir) key)
           [SHIPPED_RESOLUTIONS_DIR, RESOLUTIONS_DIR]))"

record preimage_pair =
  pairRelPath :: string
  preimage :: path
  resolution :: path

text \<open>
  \<open>findPreimagePairs(dir, baseDir)\<close>, over the entries \<open>readdirSync(dir)\<close> has listed.
\<close>

function findPreimagePairs ::
  "node \<Rightarrow> path \<Rightarrow> path \<Rightarrow> (string \<times> node) list \<Rightarrow> preimage_pair list" where
  "findPreimagePairs t dir baseDir [] = []"
| "findPreimagePairs t dir baseDir ((name, File c) # es) =
     (let fullPath = dir @ [name] in
      if endsWith name ''.preimage'' \<and> \<not> endsWith name ''.preimage.hash'' then
        (let resolutionPath = dir @ [strip_suffix ''.preimage'' name @ ''.resolution''] in
         if existsSync t resolutionPath then
           [\<lparr> pairRelPath = strip_suffix ''.preimage''
                          (join_with ''/'' (drop (length baseDir) fullPath)),
              preimage = fullPath, resolution = resolutionPath \<rparr>]
         else [])
      else [])
     @ findPreimagePairs t dir baseDir es"
| "findPreimagePairs t dir baseDir ((name, Dir sub) # es) =
     findPreimagePairs t (dir @ [name]) baseDir sub @ findPreimagePairs t dir baseDir es"
  by pat_completeness auto
termination
  by (relation "measure (\<lambda>(t, dir, baseDir, es). size (Dir es))") auto

definition gitDirOf :: "('x cache_env_scheme) \<Rightarrow> node \<Rightarrow> path \<Rightarrow> path option" where
  "gitDirOf env t projectRoot =
     (case gitRevParseGitDir env t projectRoot of
        None \<Rightarrow> None
      | Some out \<Rightarrow>
          (let gitDir = trim out in
           Some (if gitDir \<noteq> [] \<and> hd gitDir = CHR ''/'' then path_join [] gitDir
                 else path_join projectRoot gitDir)))"

text \<open>
  The checks of one loop iteration: \<open>Inr None\<close> where the source says \<open>continue\<close>,
  \<open>Inr (Some (hash, preimageContent, resolutionContent))\<close> where it goes on to create
  the rr-cache entry. \<open>skillDir\<close> is \<open>None\<close> where the caller passes \<open>undefined\<close>, on which
  \<open>path.join\<close> throws.
\<close>

definition path_type_error :: string where
  "path_type_error =
     ''The '' @ [CHR 0x22] @ ''path'' @ [CHR 0x22]
     @ '' argument must be of type string. Received undefined''"

definition check_pair ::
  "('x cache_env_scheme) \<Rightarrow> path \<Rightarrow> path option \<Rightarrow> ResolutionMeta \<Rightarrow> node \<Rightarrow> preimage_pair
     \<Rightarrow> string + (string \<times> string \<times> string) option" where
  "check_pair env projectRoot skillDir meta t pair =
     (case (case meta_file_hashes meta of None \<Rightarrow> None | Some fh \<Rightarrow> fh (pairRelPath pair)) of
        None \<Rightarrow> Inr None
      | Some expected \<Rightarrow>
     (case skillDir of
        None \<Rightarrow> Inl path_type_error
      | Some sd \<Rightarrow>
     (let basePath = path_join (path_join (path_join projectRoot NANOCLAW_DIR) ''base'')
                       (pairRelPath pair);
          currentPath = path_join projectRoot (pairRelPath pair);
          skillModifyPath = path_join (path_join sd ''modify'') (pairRelPath pair)
      in
      if \<not> existsSync t basePath \<or> \<not> existsSync t currentPath
           \<or> \<not> existsSync t skillModifyPath then Inr None
      else
     (case computeFileHash env t basePath of
        Inl e \<Rightarrow> Inl e
      | Inr baseHash \<Rightarrow>
      if Some baseHash \<noteq> base expected then Inr None
      else
     (case computeFileHash env t currentPath of
        Inl e \<Rightarrow> Inl e
      | Inr currentHash \<Rightarrow>
      if Some currentHash \<noteq> current expected then Inr None
      else
     (case computeFileHash env t skillModifyPath of
        Inl e \<Rightarrow> Inl e
      | Inr skillHash \<Rightarrow>
      if Some skillHash \<noteq> skill expected then Inr None
      else
     (case readTextSync env t (preimage pair) of
        Inl e \<Rightarrow> Inl e
      | Inr preimageContent \<Rightarrow>
     (case readTextSync env t (resolution pair) of
        Inl e \<Rightarrow> Inl e
      | Inr resolutionContent \<Rightarrow>
     (let hashSidecar = butlast (preimage pair) @ [last (preimage pair) @ ''.hash''] in
      if \<not> existsSync t hashSidecar then Inr None
      else
     (case readTextSync env t hashSidecar of
        Inl e \<Rightarrow> Inl e
      | Inr raw \<Rightarrow>
     (let hash = trim raw in
      if hash = [] then Inr None
      else Inr (Some (hash, preimageContent, resolutionContent)))))))))))))"

definition create_rr_cache_entry ::
  "path \<Rightarrow> string \<times> string \<times> string \<Rightarrow> (unit, node) io" where
  "create_rr_cache_entry rrCacheDir entry =
     (case entry of (hash, preimageContent, resolutionContent) \<Rightarrow>
        (let cacheDir = path_join rrCacheDir hash in
         io_then (fs_call (mkdirSync cacheDir))
        (io_then (fs_call (writeFileSync (path_join cacheDir ''preimage'') preimageContent))
                 (fs_call (writeFileSync (path_join cacheDir ''postimage'') resolutionContent)))))"

text \<open>One iteration: the value is whether the pair was loaded.\<close>

definition load_pair ::
  "('x cache_env_scheme) \<Rightarrow> path \<Rightarrow> path option \<Rightarrow> ResolutionMeta \<Rightarrow> path \<Rightarrow> preimage_pair
     \<Rightarrow> (bool, node) io" where
  "load_pair env projectRoot skillDir meta rrCacheDir pair t =
     (case check_pair env projectRoot skillDir meta t pair of
        Inl e \<Rightarrow> (Inl e, t)
      | Inr None \<Rightarrow> (Inr False, t)
      | Inr (Some entry) \<Rightarrow>
          io_bind (create_rr_cache_entry rrCacheDir entry) (\<lambda>_. io_return True) t)"

fun load_loop ::
  "('x cache_env_scheme) \<Rightarrow> path \<Rightarrow> path option \<Rightarrow> ResolutionMeta \<Rightarrow> path
     \<Rightarrow> preimage_pair list \<Rightarrow> bool \<Rightarrow> (bool, node) io" where
  "load_loop env projectRoot skillDir meta rrCacheDir [] loadedAny t = (Inr loadedAny, t)"
| "load_loop env projectRoot skillDir meta rrCacheDir (pair # rest) loadedAny t =
     (case load_pair env projectRoot skillDir meta rrCacheDir pair t of
        (Inl e, t') \<Rightarrow> (Inl e, t')
      | (Inr loaded, t') \<Rightarrow>
          load_loop env projectRoot skillDir meta rrCacheDir rest (loadedAny \<or> loaded) t')"

text \<open>
  \<open>loadResolutions\<close>. The \<open>try\<close> around the read and the parse of the meta document
  turns their exceptions into \<open>false\<close>; \<open>meta.input_hashes\<close> is read after it, and
  throws a \<open>TypeError\<close> where \<open>meta\<close> is \<open>null\<close>.
\<close>

definition null_meta_error :: string where
  "null_meta_error =
     ''Cannot read properties of null (reading '' @ [CHR 0x27] @ ''input_hashes''
     @ [CHR 0x27] @ '')''"

definition loadResolutions ::
  "('x cache_env_scheme) \<Rightarrow> string list \<Rightarrow> path \<Rightarrow> path option \<Rightarrow> (bool, node) io" where
  "loadResolutions env skills projectRoot skillDir t =
     (case findResolutionDir t skills projectRoot of
        None \<Rightarrow> (Inr False, t)
      | Some resDir \<Rightarrow>
     (let metaPath = path_join resDir ''meta.yaml'' in
      if \<not> existsSync t metaPath then (Inr False, t)
      else
     (case (case readTextSync env t metaPath of Inl e \<Rightarrow> Inl e | Inr txt \<Rightarrow> parseYaml env txt) of
        Inl e \<Rightarrow> (Inr False, t)
      | Inr None \<Rightarrow> (Inl null_meta_error, t)
      | Inr (Some meta) \<Rightarrow>
      if input_hashes meta = None then (Inr False, t)
      else
     (case readdirSync t resDir of
        Inl e \<Rightarrow> (Inl e, t)
      | Inr es \<Rightarrow>
     (let pairs = findPreimagePairs t resDir resDir es in
      if pairs = [] then (Inr False, t)
      else
     (case gitDirOf env t projectRoot of
        None \<Rightarrow> (Inr False, t)
      | Some gitDir \<Rightarrow>
          load_loop env projectRoot skillDir meta (path_join gitDir ''rr-cache'')
            pairs False t))))))"


subsection \<open>What the spec asks of a pair before it is loaded\<close>

text \<open>
  In the spec's words: the three input files (base snapshot file, current working
  file, the skill directory's modify file) exist, the hashes the meta document records
  for the pair equal the SHA-256 of those files, and the sidecar holds a token that is
  not empty (once trimmed).
\<close>

definition hash_matches ::
  "('x cache_env_scheme) \<Rightarrow> node \<Rightarrow> path \<Rightarrow> string option \<Rightarrow> bool" where
  "hash_matches env t p recorded =
     (case fileAt t p of None \<Rightarrow> False | Some c \<Rightarrow> recorded = Some (sha256 env c))"

definition sidecar_token :: "('x cache_env_scheme) \<Rightarrow> node \<Rightarrow> preimage_pair \<Rightarrow> string" where
  "sidecar_token env t pair =
     (case fileAt t (butlast (preimage pair) @ [last (preimage pair) @ ''.hash'']) of
        None \<Rightarrow> []
      | Some raw \<Rightarrow> trim (toStringUtf8 env raw))"

definition resolution_trusted ::
  "('x cache_env_scheme) \<Rightarrow> path \<Rightarrow> path \<Rightarrow> ResolutionMeta \<Rightarrow> node \<Rightarrow> preimage_pair \<Rightarrow> bool" where
  "resolution_trusted env projectRoot skillDir meta t pair =
     (case (case meta_file_hashes meta of None \<Rightarrow> None | Some fh \<Rightarrow> fh (pairRelPath pair)) of
        None \<Rightarrow> False
      | Some expected \<Rightarrow>
          hash_matches env t
            (path_join (path_join (path_join projectRoot NANOCLAW_DIR) ''base'')
               (pairRelPath pair)) (base expected)
        \<and> hash_matches env t (path_join projectRoot (pairRelPath pair)) (current expected)
        \<and> hash_matches env t (path_join (path_join skillDir ''modify'') (pairRelPath pair))
            (skill expected)
        \<and> sidecar_token env t pair \<noteq> [])"

text \<open>
  The rr-cache entry of a pair, created from the tree \<open>t\<close> and present in \<open>t'\<close>: under the
  sidecar's token, \<open>preimage\<close> and \<open>postimage\<close> hold the text of the pair's two files.
  A pair is seeded between \<open>t\<close> and \<open>t'\<close> when \<open>t'\<close> has that entry and every other file
  is as in \<open>t\<close>.
\<close>

definition rr_entry_holds ::
  "('x cache_env_scheme) \<Rightarrow> path \<Rightarrow> node \<Rightarrow> node \<Rightarrow> preimage_pair \<Rightarrow> bool" where
  "rr_entry_holds env rrCacheDir t t' pair =
     (let cacheDir = path_join rrCacheDir (sidecar_token env t pair) in
      (case fileAt t (preimage pair) of
         None \<Rightarrow> False
       | Some c \<Rightarrow> fileAt t' (path_join cacheDir ''preimage'') = Some (toStringUtf8 env c))
    \<and> (case fileAt t (resolution pair) of
         None \<Rightarrow> False
       | Some c \<Rightarrow> fileAt t' (path_join cacheDir ''postimage'') = Some (toStringUtf8 env c)))"

definition seeded ::
  "('x cache_env_scheme) \<Rightarrow> path \<Rightarrow> node \<Rightarrow> node \<Rightarrow> preimage_pair \<Rightarrow> bool" where
  "seeded env rrCacheDir t t' pair =
     (let cacheDir = path_join rrCacheDir (sidecar_token env t pair) in
      rr_entry_holds env rrCacheDir t t' pair
    \<and> (\<forall>q. q \<noteq> path_join cacheDir ''preimage'' \<and> q \<noteq> path_join cacheDir ''postimage''
            \<longrightarrow> fileAt t' q = fileAt t q))"

text \<open>
  The pairs are looked at one after the other. \<open>ts\<close> lists the tree before the first
  pair, the tree after each pair and so, last, the tree the call leaves: a pair that is
  trusted on the tree of its turn is seeded, any other pair leaves the tree as it is.
\<close>

definition load_turns ::
  "('x cache_env_scheme) \<Rightarrow> path \<Rightarrow> path \<Rightarrow> ResolutionMeta \<Rightarrow> path
     \<Rightarrow> preimage_pair list \<Rightarrow> node list \<Rightarrow> bool" where
  "load_turns env projectRoot skillDir meta rrCacheDir pairs ts =
     (length ts = Suc (length pairs)
    \<and> (\<forall>i<length pairs.
          if resolution_trusted env projectRoot skillDir meta (ts ! i) (pairs ! i)
          then seeded env rrCacheDir (ts ! i) (ts ! Suc i) (pairs ! i)
          else ts ! Suc i = ts ! i))"

text \<open>
  The case the \<open>try\<close> of \<open>loadResolutions\<close> does not cover: a resolution directory is
  found and its meta document is read and parsed, to \<open>null\<close>.
\<close>

definition meta_is_null ::
  "('x cache_env_scheme) \<Rightarrow> node \<Rightarrow> string list \<Rightarrow> path \<Rightarrow> bool" where
  "meta_is_null env t skills projectRoot =
     (case findResolutionDir t skills projectRoot of
        None \<Rightarrow> False
      | Some resDir \<Rightarrow>
          (case readTextSync env t (path_join resDir ''meta.yaml'') of
             Inl e \<Rightarrow> False
           | Inr txt \<Rightarrow> (case parseYaml env txt of Inr None \<Rightarrow> True | _ \<Rightarrow> False)))"

section \<open>The data model (types.ts)\<close>

text \<open>
  \<open>types.ts\<close> is not among the sources. The records below have the fields the three
  modules read and write, typed as the spec's State and Manifest documents type them.
  A file operation is kept as the manifest spells it: \<open>replaySkills\<close> only hands the
  list to \<open>executeFileOps\<close>.
\<close>

datatype file_op = FileOp string

record SkillManifest =
  manifest_skill :: string
  adds :: "string list"
  modifies :: "string list"
  file_ops :: "file_op list"
  npm_dependencies :: "(string \<times> string) list option"
  env_additions :: "string list option"
  docker_compose_services :: "(string \<times> string) list option"

record AppliedSkill =
  name :: string
  version :: string
  applied_at :: string
  file_hashes :: "(string \<times> string) list"
  custom_patch :: "string option"
  custom_patch_description :: "string option"
  outcomes_test :: "string option"

record CustomModification =
  patch_file :: string
  files_modified :: "string list"

record State =
  skills_system_version :: string
  core_version :: string
  applied_skills :: "AppliedSkill list"
  rebased_at :: "string option"
  custom_modifications :: "CustomModification list option"

text \<open>JavaScript's truthiness of an optional string: absent and \<open>''\<close> are falsy.\<close>

definition truthy :: "string option \<Rightarrow> bool" where
  "truthy v = (case v of None \<Rightarrow> False | Some s \<Rightarrow> s \<noteq> [])"

subsection \<open>The keys of an object\<close>

text \<open>
  An object (\<open>Record<string, T>\<close>) is the list of its properties in the order they were
  created, each key once. \<open>Object.keys\<close> and \<open>Object.entries\<close> do not enumerate in that
  order: the keys that are array indices (a decimal numeral without a leading zero,
  below \<open>2\<^sup>3\<^sup>2 - 1\<close>) come first, in ascending numeric order, and the other keys follow
  in the order of creation.
\<close>

definition is_digit :: "char \<Rightarrow> bool" where
  "is_digit c = (48 \<le> (of_char c :: nat) \<and> (of_char c :: nat) \<le> 57)"

definition decimal_value :: "string \<Rightarrow> nat" where
  "decimal_value s = foldl (\<lambda>n c. 10 * n + (of_char c - 48)) 0 s"

definition is_array_index :: "string \<Rightarrow> bool" where
  "is_array_index s =
     (s \<noteq> [] \<and> list_all is_digit s \<and> (hd s \<noteq> CHR ''0'' \<or> s = ''0'')
      \<and> decimal_value s < 4294967295)"

primrec insert_index :: "string \<times> 'a \<Rightarrow> (string \<times> 'a) list \<Rightarrow> (string \<times> 'a) list" where
  "insert_index kv [] = [kv]"
| "insert_index kv (x # xs) =
     (if decimal_value (fst kv) \<le> decimal_value (fst x) then kv # x # xs
      else x # insert_index kv xs)"

definition object_entries :: "(string \<times> 'a) list \<Rightarrow> (string \<times> 'a) list" where
  "object_entries obj =
     foldr insert_index (filter (\<lambda>kv. is_array_index (fst kv)) obj) []
     @ filter (\<lambda>kv. \<not> is_array_index (fst kv)) obj"

definition object_keys :: "(string \<times> 'a) list \<Rightarrow> string list" where
  "object_keys obj = map fst (object_entries obj)"

section \<open>The world an operation runs in\<close>

text \<open>
  The calls that leave the three modules for the lock, the backup, the State document,
  the structured merges and the package manager are recorded, in order, in a trace.
\<close>

datatype event =
    AcquireLock
  | ReleaseLock
  | CreateBackup "path list"
  | RestoreBackup
  | ClearBackup
  | WriteState State
  | MergeNpmDependencies path "(string \<times> string) list"
  | MergeEnvAdditions path "string list"
  | MergeDockerComposeServices path "(string \<times> string) list"
  | RunNpmInstall

record world =
  tree :: node
  state_doc :: State
  trace :: "event list"

definition on_tree :: "('a, node) io \<Rightarrow> ('a, world) io" where
  "on_tree m w = (case m (tree w) of (r, t') \<Rightarrow> (r, w\<lparr>tree := t'\<rparr>))"

definition emit :: "event \<Rightarrow> (unit, world) io" where
  "emit ev w = (Inr (), w\<lparr>trace := trace w @ [ev]\<rparr>)"

section \<open>replay.ts\<close>

text \<open>
  What \<open>replaySkills\<close> calls in modules that are not among the sources, each taken as
  it is called: \<open>resolvePathRemap\<close> with the table \<open>loadPathRemap()\<close> returned,
  \<open>readManifest\<close> (\<open>Inl\<close> when it throws), \<open>executeFileOps\<close>, \<open>mergeFile\<close> (its value is
  \<open>result.clean\<close>), \<open>isGitRepo\<close>, the rerere adapter, the two \<open>git\<close> commands, the three
  structured merges and \<open>runNpmInstall\<close>. \<open>tmpFile\<close> is the fresh path
  \<open>os.tmpdir()/nanoclaw-replay-<uuid>-<basename>\<close>.
\<close>

record replay_env = cache_env +
  resolvePathRemap :: "string \<Rightarrow> string"
  readManifest :: "node \<Rightarrow> path \<Rightarrow> string + SkillManifest"
  executeFileOps :: "file_op list \<Rightarrow> path \<Rightarrow> (bool \<times> string list, node) io"
  tmpFile :: "string \<Rightarrow> path"
  mergeFile :: "path \<Rightarrow> path \<Rightarrow> path \<Rightarrow> (bool, node) io"
  isGitRepo :: "node \<Rightarrow> bool"
  setupRerereAdapter :: "string \<Rightarrow> string \<Rightarrow> string \<Rightarrow> string \<Rightarrow> (unit, node) io"
  runRerere :: "path \<Rightarrow> (bool, node) io"
  gitAdd :: "string \<Rightarrow> (unit, node) io"
  gitRerere :: "(unit, node) io"
  cleanupMergeState :: "string \<Rightarrow> (unit, node) io"
  mergeNpmDependencies :: "path \<Rightarrow> (string \<times> string) list \<Rightarrow> (unit, node) io"
  mergeEnvAdditions :: "path \<Rightarrow> string list \<Rightarrow> (unit, node) io"
  mergeDockerComposeServices :: "path \<Rightarrow> (string \<times> string) list \<Rightarrow> (unit, node) io"
  runNpmInstall :: "(unit, node) io"

record skill_status =
  ok :: bool
  err :: "string option"

record ReplayResult =
  success :: bool
  perSkill :: "string \<rightharpoonup> skill_status"
  mergeConflicts :: "string list option"
  error :: "string option"

definition basename :: "string \<Rightarrow> string" where
  "basename s = (case path_join [] s of [] \<Rightarrow> [] | p \<Rightarrow> last p)"

subsection \<open>findSkillDir\<close>

fun scan_skill_dirs ::
  "('x replay_env_scheme) \<Rightarrow> node \<Rightarrow> string \<Rightarrow> path \<Rightarrow> (string \<times> node) list \<Rightarrow> path option" where
  "scan_skill_dirs env t skillName skillsRoot [] = None"
| "scan_skill_dirs env t skillName skillsRoot ((entry, n) # es) =
     (if \<not> isDirectory n then scan_skill_dirs env t skillName skillsRoot es
      else
        (let dir = skillsRoot @ [entry];
             manifestPath = path_join dir ''manifest.yaml''
         in if \<not> existsSync t manifestPath
            then scan_skill_dirs env t skillName skillsRoot es
            else (case readManifest env t dir of
                    Inl e \<Rightarrow> scan_skill_dirs env t skillName skillsRoot es
                  | Inr manifest \<Rightarrow>
                      if manifest_skill manifest = skillName then Some dir
                      else scan_skill_dirs env t skillName skillsRoot es)))"

definition findSkillDir ::
  "('x replay_env_scheme) \<Rightarrow> node \<Rightarrow> string \<Rightarrow> path \<Rightarrow> string + path option" where
  "findSkillDir env t skillName root =
     (let skillsRoot = path_join (path_join root ''.gemini'') ''skills'' in
      if \<not> existsSync t skillsRoot then Inr None
      else (case readdirSync t skillsRoot of
              Inl e \<Rightarrow> Inl e
            | Inr es \<Rightarrow> Inr (scan_skill_dirs env t skillName skillsRoot es)))"

subsection \<open>replaySkills, step 1: the files any skill touches\<close>

text \<open>A JavaScript \<open>Set\<close> keeps its members in insertion order.\<close>

definition set_add :: "string list \<Rightarrow> string \<Rightarrow> string list" where
  "set_add acc f = (if f \<in> set acc then acc else acc @ [f])"

datatype collected = Touched "string list" | MissingDir string | ManifestThrew string

fun collectTouched ::
  "('x replay_env_scheme) \<Rightarrow> node \<Rightarrow> (string \<rightharpoonup> path) \<Rightarrow> string list \<Rightarrow> string list
     \<Rightarrow> collected" where
  "collectTouched env t skillDirs [] allTouchedFiles = Touched allTouchedFiles"
| "collectTouched env t skillDirs (skillName # rest) allTouchedFiles =
     (case skillDirs skillName of
        None \<Rightarrow> MissingDir skillName
      | Some skillDir \<Rightarrow>
          (case readManifest env t skillDir of
             Inl e \<Rightarrow> ManifestThrew e
           | Inr manifest \<Rightarrow>
               collectTouched env t skillDirs rest
                 (foldl set_add (foldl set_add allTouchedFiles (adds manifest))
                    (modifies manifest))))"

subsection \<open>replaySkills, step 2: reset to the base\<close>

definition currentPathOf :: "('x replay_env_scheme) \<Rightarrow> path \<Rightarrow> string \<Rightarrow> path" where
  "currentPathOf env projectRoot relPath = path_join projectRoot (resolvePathRemap env relPath)"

definition basePathOf :: "('x replay_env_scheme) \<Rightarrow> path \<Rightarrow> string \<Rightarrow> path" where
  "basePathOf env projectRoot relPath =
     path_join (path_join projectRoot BASE_DIR) (resolvePathRemap env relPath)"

definition reset_file :: "('x replay_env_scheme) \<Rightarrow> path \<Rightarrow> string \<Rightarrow> (unit, node) io" where
  "reset_file env projectRoot relPath t =
     (let currentPath = currentPathOf env projectRoot relPath;
          basePath = basePathOf env projectRoot relPath
      in if existsSync t basePath then
           io_then (fs_call (mkdirSync (dirname currentPath)))
                   (fs_call (copyFileSync basePath currentPath)) t
         else if existsSync t currentPath then fs_call (unlinkSync currentPath) t
         else (Inr (), t))"

fun resetTouched :: "('x replay_env_scheme) \<Rightarrow> path \<Rightarrow> string list \<Rightarrow> (unit, node) io" where
  "resetTouched env projectRoot [] t = (Inr (), t)"
| "resetTouched env projectRoot (relPath # rest) t =
     io_then (reset_file env projectRoot relPath) (resetTouched env projectRoot rest) t"

subsection \<open>replaySkills, step 4: one skill\<close>

definition io_read :: "('s \<Rightarrow> string + 'a) \<Rightarrow> ('a, 's) io" where
  "io_read f s = (case f s of Inl e \<Rightarrow> (Inl e, s) | Inr a \<Rightarrow> (Inr a, s))"

fun copy_adds ::
  "('x replay_env_scheme) \<Rightarrow> path \<Rightarrow> path \<Rightarrow> string list \<Rightarrow> (unit, node) io" where
  "copy_adds env projectRoot addDir [] t = (Inr (), t)"
| "copy_adds env projectRoot addDir (relPath # rest) t =
     (let resolvedDest = resolvePathRemap env relPath;
          destPath = path_join projectRoot resolvedDest;
          srcPath = path_join addDir relPath
      in if existsSync t srcPath then
           io_then (fs_call (mkdirSync (dirname destPath)))
          (io_then (fs_call (copyFileSync srcPath destPath))
                   (copy_adds env projectRoot addDir rest)) t
         else copy_adds env projectRoot addDir rest t)"

text \<open>
  The conflict branch inside \<open>if (isGitRepo())\<close>: the value is whether rerere resolved
  the file, in which case the source says \<open>continue\<close>.
\<close>

definition rerere_resolve ::
  "('x replay_env_scheme) \<Rightarrow> string \<Rightarrow> path \<Rightarrow> path \<Rightarrow> path \<Rightarrow> string \<Rightarrow> (bool, node) io" where
  "rerere_resolve env resolvedPath currentPath basePath skillPath oursContent =
     io_bind (io_read (\<lambda>t. readTextSync env t basePath)) (\<lambda>baseContent.
     io_bind (io_read (\<lambda>t. readTextSync env t skillPath)) (\<lambda>theirsContent.
     io_then (setupRerereAdapter env resolvedPath baseContent oursContent theirsContent)
    (io_bind (runRerere env currentPath) (\<lambda>autoResolved.
       if autoResolved then
         io_then (gitAdd env resolvedPath)
        (io_then (gitRerere env)
        (io_then (cleanupMergeState env resolvedPath) (io_return True)))
       else io_then (cleanupMergeState env resolvedPath) (io_return False)))))"

text \<open>
  One iteration of the loop over \<open>manifest.modifies\<close>; the value lists what the
  iteration pushes onto \<open>skillConflicts\<close>.
\<close>

definition merge_modify ::
  "('x replay_env_scheme) \<Rightarrow> path \<Rightarrow> path \<Rightarrow> string \<Rightarrow> (string list, node) io" where
  "merge_modify env projectRoot skillDir relPath t =
     (let resolvedPath = resolvePathRemap env relPath;
          currentPath = currentPathOf env projectRoot relPath;
          basePath = basePathOf env projectRoot relPath;
          skillPath = path_join (path_join skillDir ''modify'') relPath
      in
      if \<not> existsSync t skillPath then (Inr [relPath], t)
      else if \<not> existsSync t currentPath then
        io_then (fs_call (mkdirSync (dirname currentPath)))
       (io_then (fs_call (copyFileSync skillPath currentPath)) (io_return [])) t
      else
        io_then (\<lambda>t. if \<not> existsSync t basePath then
                        io_then (fs_call (mkdirSync (dirname basePath)))
                                (fs_call (copyFileSync currentPath basePath)) t
                      else (Inr (), t))
       (io_bind (io_read (\<lambda>t. readTextSync env t currentPath)) (\<lambda>oursContent.
        let tmpCurrent = tmpFile env (basename relPath) in
        io_then (fs_call (copyFileSync currentPath tmpCurrent))
       (io_bind (mergeFile env tmpCurrent basePath skillPath) (\<lambda>clean.
        io_then (fs_call (copyFileSync tmpCurrent currentPath))
       (io_then (fs_call (unlinkSync tmpCurrent))
       (if clean then io_return []
        else
          io_bind (\<lambda>t. if isGitRepo env t then
                          rerere_resolve env resolvedPath currentPath basePath skillPath
                            oursContent t
                        else (Inr False, t))
            (\<lambda>resolved. io_return (if resolved then [] else [resolvedPath])))))))) t)"

fun merge_modifies ::
  "('x replay_env_scheme) \<Rightarrow> path \<Rightarrow> path \<Rightarrow> string list \<Rightarrow> string list
     \<Rightarrow> (string list, node) io" where
  "merge_modifies env projectRoot skillDir [] skillConflicts t = (Inr skillConflicts, t)"
| "merge_modifies env projectRoot skillDir (relPath # rest) skillConflicts t =
     io_bind (merge_modify env projectRoot skillDir relPath)
       (\<lambda>pushed. merge_modifies env projectRoot skillDir rest (skillConflicts @ pushed)) t"

datatype skill_outcome =
    SkillApplied SkillManifest
  | SkillConflicts "string list"
  | FileOpsFailed "string list"

text \<open>
  The body of the \<open>try\<close> for one skill, up to the test of \<open>skillConflicts.length\<close>. An
  exception (\<open>Inl\<close>) is what the \<open>catch\<close> receives.
\<close>

definition apply_skill ::
  "('x replay_env_scheme) \<Rightarrow> path \<Rightarrow> path option \<Rightarrow> (skill_outcome, node) io" where
  "apply_skill env projectRoot skillDirOpt =
     (case skillDirOpt of
        None \<Rightarrow> io_throw ''TypeError''
      | Some skillDir \<Rightarrow>
     io_bind (io_read (\<lambda>t. readManifest env t skillDir)) (\<lambda>manifest.
     io_bind (if file_ops manifest \<noteq> []
              then executeFileOps env (file_ops manifest) projectRoot
              else io_return (True, [])) (\<lambda>fileOpsResult.
     if \<not> fst fileOpsResult then io_return (FileOpsFailed (snd fileOpsResult))
     else
     io_then (\<lambda>t. let addDir = path_join skillDir ''add'' in
                   if existsSync t addDir
                   then copy_adds env projectRoot addDir (adds manifest) t
                   else (Inr (), t))
    (io_bind (merge_modifies env projectRoot skillDir (modifies manifest) [])
       (\<lambda>skillConflicts.
          io_return (if skillConflicts \<noteq> [] then SkillConflicts skillConflicts
                     else SkillApplied manifest))))))"

subsection \<open>replaySkills, step 4: the loop over the skills\<close>

record structured_ops =
  allNpmDeps :: "(string \<times> string) list"
  allEnvAdditions :: "string list"
  allDockerServices :: "(string \<times> string) list"
  hasNpmDeps :: bool

definition object_assign ::
  "(string \<times> string) list \<Rightarrow> (string \<times> string) list \<Rightarrow> (string \<times> string) list" where
  "object_assign target src = foldl (\<lambda>acc kv. AList.update (fst kv) (snd kv) acc) target src"

definition collect_structured :: "SkillManifest \<Rightarrow> structured_ops \<Rightarrow> structured_ops" where
  "collect_structured manifest ops =
     (let ops1 = (case npm_dependencies manifest of
                    None \<Rightarrow> ops
                  | Some deps \<Rightarrow> ops\<lparr>allNpmDeps := object_assign (allNpmDeps ops) deps,
                                      hasNpmDeps := True\<rparr>);
          ops2 = (case env_additions manifest of
                    None \<Rightarrow> ops1
                  | Some xs \<Rightarrow> ops1\<lparr>allEnvAdditions := allEnvAdditions ops1 @ xs\<rparr>)
      in (case docker_compose_services manifest of
            None \<Rightarrow> ops2
          | Some svcs \<Rightarrow>
              ops2\<lparr>allDockerServices := object_assign (allDockerServices ops2) svcs\<rparr>))"

text \<open>
  How the loop ends: by one of its two \<open>return\<close> statements, or by running out of
  skills or reaching \<open>break\<close>, with \<open>perSkill\<close>, \<open>allMergeConflicts\<close> and the structured
  operations collected so far.
\<close>

datatype loop_end =
    LoopReturned ReplayResult
  | LoopEnded "string \<rightharpoonup> skill_status" "string list" structured_ops

fun replay_loop ::
  "('x replay_env_scheme) \<Rightarrow> path \<Rightarrow> (string \<rightharpoonup> path) \<Rightarrow> string list
     \<Rightarrow> (string \<rightharpoonup> skill_status) \<Rightarrow> string list \<Rightarrow> structured_ops
     \<Rightarrow> node \<Rightarrow> loop_end \<times> node" where
  "replay_loop env projectRoot skillDirs [] perSkill\<^sub>0 allMergeConflicts ops t =
     (LoopEnded perSkill\<^sub>0 allMergeConflicts ops, t)"
| "replay_loop env projectRoot skillDirs (skillName # rest) perSkill\<^sub>0 allMergeConflicts ops t =
     (case apply_skill env projectRoot (skillDirs skillName) t of
        (Inl msg, t') \<Rightarrow>
          (LoopReturned
             \<lparr> success = False,
               perSkill = perSkill\<^sub>0(skillName \<mapsto> \<lparr> ok = False, err = Some msg \<rparr>),
               mergeConflicts = None,
               error = Some (''Replay failed for '' @ skillName @ '': '' @ msg) \<rparr>, t')
      | (Inr (FileOpsFailed errors), t') \<Rightarrow>
          (LoopReturned
             \<lparr> success = False,
               perSkill = perSkill\<^sub>0(skillName \<mapsto>
                 \<lparr> ok = False,
                   err = Some (''File operations failed: '' @ join_with ''; '' errors) \<rparr>),
               mergeConflicts = None,
               error = Some (''File ops failed for '' @ skillName) \<rparr>, t')
      | (Inr (SkillConflicts skillConflicts), t') \<Rightarrow>
          (LoopEnded
             (perSkill\<^sub>0(skillName \<mapsto>
                \<lparr> ok = False,
                  err = Some (''Merge conflicts: '' @ join_with '', '' skillConflicts) \<rparr>))
             (allMergeConflicts @ skillConflicts) ops, t')
      | (Inr (SkillApplied manifest), t') \<Rightarrow>
          replay_loop env projectRoot skillDirs rest
            (perSkill\<^sub>0(skillName \<mapsto> \<lparr> ok = True, err = None \<rparr>))
            allMergeConflicts (collect_structured manifest ops) t')"

subsection \<open>replaySkills, steps 4 and 5 after the loop: the structured operations\<close>

definition swallow :: "(unit, 's) io \<Rightarrow> (unit, 's) io" where
  \<comment> \<open>\<open>try { ... } catch { }\<close>\<close>
  "swallow m s = (case m s of (_, s') \<Rightarrow> (Inr (), s'))"

definition apply_structured ::
  "('x replay_env_scheme) \<Rightarrow> path \<Rightarrow> structured_ops \<Rightarrow> (unit, world) io" where
  "apply_structured env projectRoot ops =
     io_then (if hasNpmDeps ops then
                (let pkgPath = path_join projectRoot ''package.json'' in
                 io_then (emit (MergeNpmDependencies pkgPath (allNpmDeps ops)))
                         (on_tree (mergeNpmDependencies env pkgPath (allNpmDeps ops))))
              else io_return ())
    (io_then (if allEnvAdditions ops \<noteq> [] then
                (let envPath = path_join projectRoot ''.env.example'' in
                 io_then (emit (MergeEnvAdditions envPath (allEnvAdditions ops)))
                         (on_tree (mergeEnvAdditions env envPath (allEnvAdditions ops))))
              else io_return ())
    (io_then (if allDockerServices ops \<noteq> [] then
                (let composePath = path_join projectRoot ''docker-compose.yml'' in
                 io_then (emit (MergeDockerComposeServices composePath (allDockerServices ops)))
                         (on_tree (mergeDockerComposeServices env composePath
                                     (allDockerServices ops))))
              else io_return ())
             (if hasNpmDeps ops then
                swallow (io_then (emit RunNpmInstall) (on_tree (runNpmInstall env)))
              else io_return ())))"

subsection \<open>replaySkills\<close>

text \<open>
  The promise \<open>replaySkills\<close> returns: \<open>Inr\<close> the result it resolves to, \<open>Inl\<close> the
  exception it rejects with. \<open>finish_replay\<close> is the code after the loop;
  \<open>replay_from_base\<close> is step 3 (the resolutions) and what follows it.
  \<open>skillDirs name\<close> is the directory \<open>options.skillDirs[name]\<close> holds, \<open>None\<close> where
  that is falsy; the record maps skill names to directories, and a name that would find
  a property of \<open>Object.prototype\<close> in it is not among the names of the model.
\<close>

definition finish_replay ::
  "('x replay_env_scheme) \<Rightarrow> path \<Rightarrow> loop_end \<Rightarrow> (ReplayResult, world) io" where
  "finish_replay env projectRoot ended =
     (case ended of
        LoopReturned r \<Rightarrow> io_return r
      | LoopEnded perSkill' allMergeConflicts ops \<Rightarrow>
          if allMergeConflicts \<noteq> [] then
            io_return
              \<lparr> success = False, perSkill = perSkill',
                mergeConflicts = Some allMergeConflicts,
                error = Some (''Unresolved merge conflicts: ''
                              @ join_with '', '' allMergeConflicts) \<rparr>
          else
            io_then (apply_structured env projectRoot ops)
              (io_return \<lparr> success = True, perSkill = perSkill',
                           mergeConflicts = None, error = None \<rparr>))"

definition no_structured_ops :: structured_ops where
  "no_structured_ops =
     \<lparr> allNpmDeps = [], allEnvAdditions = [], allDockerServices = [], hasNpmDeps = False \<rparr>"

definition replay_from_base ::
  "('x replay_env_scheme) \<Rightarrow> string list \<Rightarrow> (string \<rightharpoonup> path) \<Rightarrow> path
     \<Rightarrow> (ReplayResult, world) io" where
  "replay_from_base env skills skillDirs projectRoot =
     io_then (on_tree
                (io_bind (loadResolutions env skills projectRoot
                            (if skills \<noteq> [] then skillDirs (last skills) else None))
                   (\<lambda>_. io_return ())))
    (io_bind (on_tree (\<lambda>t. case replay_loop env projectRoot skillDirs skills
                                   Map.empty [] no_structured_ops t of
                              (ended, t') \<Rightarrow> (Inr ended, t')))
       (finish_replay env projectRoot))"

definition replaySkills ::
  "('x replay_env_scheme) \<Rightarrow> string list \<Rightarrow> (string \<rightharpoonup> path) \<Rightarrow> path
     \<Rightarrow> (ReplayResult, world) io" where
  "replaySkills env skills skillDirs projectRoot w =
     (case collectTouched env (tree w) skillDirs skills [] of
        MissingDir skillName \<Rightarrow>
          (Inr \<lparr> success = False,
                 perSkill = [skillName \<mapsto>
                   \<lparr> ok = False,
                     err = Some (''Skill directory not found for: '' @ skillName) \<rparr>],
                 mergeConflicts = None,
                 error = Some (''Missing skill directory for: '' @ skillName) \<rparr>, w)
      | ManifestThrew e \<Rightarrow> (Inl e, w)
      | Touched allTouchedFiles \<Rightarrow>
          io_then (on_tree (resetTouched env projectRoot allTouchedFiles))
            (replay_from_base env skills skillDirs projectRoot) w)"

subsection \<open>What the claims about replaySkills speak of\<close>

text \<open>The paths a skill of the list declares: its manifest's \<open>adds\<close> and \<open>modifies\<close>.\<close>

definition skill_paths ::
  "('x replay_env_scheme) \<Rightarrow> node \<Rightarrow> (string \<rightharpoonup> path) \<Rightarrow> string \<Rightarrow> string list" where
  "skill_paths env t skillDirs skillName =
     (case skillDirs skillName of
        None \<Rightarrow> []
      | Some skillDir \<Rightarrow>
          (case readManifest env t skillDir of
             Inl e \<Rightarrow> []
           | Inr manifest \<Rightarrow> adds manifest @ modifies manifest))"

text \<open>
  The base snapshot lies apart from the files to reset: no file to reset is itself the
  base copy of one, and two entries that name the same working file name the same base
  copy (entries differ only where one of them goes through \<open>..\<close>).
\<close>

definition base_apart :: "('x replay_env_scheme) \<Rightarrow> path \<Rightarrow> string list \<Rightarrow> bool" where
  "base_apart env projectRoot files =
     (\<forall>p\<in>set files. \<forall>q\<in>set files.
        basePathOf env projectRoot q \<noteq> currentPathOf env projectRoot p
      \<and> (currentPathOf env projectRoot p = currentPathOf env projectRoot q
           \<longrightarrow> basePathOf env projectRoot p = basePathOf env projectRoot q))"

text \<open>
  The calls the code after the loop makes for the structured operations \<open>ops\<close>, in
  order: the three merges that have something to merge, then the install.
\<close>

definition structured_calls :: "path \<Rightarrow> structured_ops \<Rightarrow> event list" where
  "structured_calls projectRoot ops =
     (if hasNpmDeps ops
      then [MergeNpmDependencies (path_join projectRoot ''package.json'') (allNpmDeps ops)]
      else [])
     @ (if allEnvAdditions ops \<noteq> []
        then [MergeEnvAdditions (path_join projectRoot ''.env.example'') (allEnvAdditions ops)]
        else [])
     @ (if allDockerServices ops \<noteq> []
        then [MergeDockerComposeServices (path_join projectRoot ''docker-compose.yml'')
                (allDockerServices ops)]
        else [])
     @ (if hasNpmDeps ops then [RunNpmInstall] else [])"

text \<open>
  A step that always completes, leaves the State document alone and makes the calls
  \<open>evs\<close>.
\<close>

definition quiet_step :: "(unit, world) io \<Rightarrow> event list \<Rightarrow> bool" where
  "quiet_step m evs =
     (\<forall>w. \<exists>w'. m w = (Inr (), w') \<and> state_doc w' = state_doc w \<and> trace w' = trace w @ evs)"

section \<open>uninstall.ts\<close>

text \<open>
  Modelled from the spec: \<open>backup.ts\<close>, \<open>lock.ts\<close> and \<open>state.ts\<close> are not among the
  sources. The spec has a backup and restore mechanism that snapshots the files given
  and puts them back, a lock, and a State document read at the start of an operation
  and written atomically at its end. \<open>createBackup\<close>, \<open>restoreBackup\<close> and
  \<open>clearBackup\<close> are steps on the tree that complete; \<open>acquireLock\<close> and the release
  function it returns are recorded in the trace; \<open>readState\<close> is \<open>state_doc\<close> and
  \<open>writeState\<close> replaces it. The two subprocesses, \<open>git apply --3way\<close> and a skill's
  test command, throw when they fail.
\<close>

record uninstall_env = replay_env +
  createBackup :: "path list \<Rightarrow> node \<Rightarrow> node"
  restoreBackup :: "node \<Rightarrow> node"
  clearBackup :: "node \<Rightarrow> node"
  gitApply3way :: "path \<Rightarrow> path \<Rightarrow> (unit, node) io"
  execTest :: "string \<Rightarrow> path \<Rightarrow> (unit, node) io"

record UninstallResult =
  u_success :: bool
  u_skill :: string
  u_error :: "string option"
  customPatchWarning :: "string option"
  replayResults :: "(string \<times> bool) list option"

definition failed :: "string \<Rightarrow> string \<Rightarrow> UninstallResult" where
  "failed skillName msg =
     \<lparr> u_success = False, u_skill = skillName, u_error = Some msg,
       customPatchWarning = None, replayResults = None \<rparr>"

definition acquireLock :: "(unit, world) io" where
  "acquireLock = emit AcquireLock"

definition releaseLock :: "world \<Rightarrow> world" where
  "releaseLock w = w\<lparr>trace := trace w @ [ReleaseLock]\<rparr>"

definition do_createBackup :: "('x uninstall_env_scheme) \<Rightarrow> path list \<Rightarrow> (unit, world) io" where
  "do_createBackup env files w =
     (Inr (), w\<lparr>tree := createBackup env files (tree w),
                trace := trace w @ [CreateBackup files]\<rparr>)"

definition do_restoreBackup :: "('x uninstall_env_scheme) \<Rightarrow> (unit, world) io" where
  "do_restoreBackup env w =
     (Inr (), w\<lparr>tree := restoreBackup env (tree w), trace := trace w @ [RestoreBackup]\<rparr>)"

definition do_clearBackup :: "('x uninstall_env_scheme) \<Rightarrow> (unit, world) io" where
  "do_clearBackup env w =
     (Inr (), w\<lparr>tree := clearBackup env (tree w), trace := trace w @ [ClearBackup]\<rparr>)"

definition writeState :: "State \<Rightarrow> (unit, world) io" where
  "writeState st w = (Inr (), w\<lparr>state_doc := st, trace := trace w @ [WriteState st]\<rparr>)"

text \<open>\<open>restoreBackup(); clearBackup();\<close>\<close>

definition rollback :: "('x uninstall_env_scheme) \<Rightarrow> (unit, world) io" where
  "rollback env = io_then (do_restoreBackup env) (do_clearBackup env)"

subsection \<open>The steps inside the \<open>try\<close>\<close>

definition touched_by_state :: "State \<Rightarrow> string list" where
  "touched_by_state st =
     (let fromSkills = foldl (\<lambda>acc s. foldl set_add acc (object_keys (file_hashes s))) []
                         (applied_skills st)
      in case custom_modifications st of
           None \<Rightarrow> fromSkills
         | Some mods \<Rightarrow> foldl (\<lambda>acc m. foldl set_add acc (files_modified m)) fromSkills mods)"

datatype located = AllLocated "string \<rightharpoonup> path" | NotFound string

fun locate_skill_dirs ::
  "('x uninstall_env_scheme) \<Rightarrow> path \<Rightarrow> string list \<Rightarrow> (string \<rightharpoonup> path) \<Rightarrow> node
     \<Rightarrow> string + located" where
  "locate_skill_dirs env projectRoot [] skillDirs t = Inr (AllLocated skillDirs)"
| "locate_skill_dirs env projectRoot (nm # rest) skillDirs t =
     (case findSkillDir env t nm projectRoot of
        Inl e \<Rightarrow> Inl e
      | Inr None \<Rightarrow> Inr (NotFound nm)
      | Inr (Some dir) \<Rightarrow> locate_skill_dirs env projectRoot rest (skillDirs(nm \<mapsto> dir)) t)"

fun reset_exclusive ::
  "('x uninstall_env_scheme) \<Rightarrow> path \<Rightarrow> string list \<Rightarrow> string list \<Rightarrow> (unit, node) io" where
  "reset_exclusive env projectRoot remainingSkillFiles [] t = (Inr (), t)"
| "reset_exclusive env projectRoot remainingSkillFiles (filePath # rest) t =
     (if filePath \<in> set remainingSkillFiles
      then reset_exclusive env projectRoot remainingSkillFiles rest t
      else io_then (reset_file env projectRoot filePath)
             (reset_exclusive env projectRoot remainingSkillFiles rest) t)"

fun reapply_custom ::
  "('x uninstall_env_scheme) \<Rightarrow> path \<Rightarrow> CustomModification list \<Rightarrow> (unit, node) io" where
  "reapply_custom env projectRoot [] t = (Inr (), t)"
| "reapply_custom env projectRoot (m # rest) t =
     (let patchPath = path_join projectRoot (patch_file m) in
      io_then (if existsSync t patchPath
               then swallow (gitApply3way env patchPath projectRoot)
               else io_return ())
              (reapply_custom env projectRoot rest) t)"

fun run_skill_tests ::
  "('x uninstall_env_scheme) \<Rightarrow> path \<Rightarrow> string \<Rightarrow> AppliedSkill list \<Rightarrow> (string \<times> bool) list
     \<Rightarrow> node \<Rightarrow> (string \<times> bool) list \<times> node" where
  "run_skill_tests env projectRoot skillName [] results t = (results, t)"
| "run_skill_tests env projectRoot skillName (s # rest) results t =
     (if name s = skillName then run_skill_tests env projectRoot skillName rest results t
      else if \<not> truthy (outcomes_test s)
      then run_skill_tests env projectRoot skillName rest results t
      else (case execTest env (the (outcomes_test s)) projectRoot t of
              (Inr _, t') \<Rightarrow>
                run_skill_tests env projectRoot skillName rest
                  (AList.update (name s) True results) t'
            | (Inl _, t') \<Rightarrow>
                run_skill_tests env projectRoot skillName rest
                  (AList.update (name s) False results) t'))"

fun refresh_hashes ::
  "('x uninstall_env_scheme) \<Rightarrow> path \<Rightarrow> node \<Rightarrow> string list \<Rightarrow> (string \<times> string) list
     \<Rightarrow> string + (string \<times> string) list" where
  "refresh_hashes env projectRoot t [] newHashes = Inr newHashes"
| "refresh_hashes env projectRoot t (filePath # rest) newHashes =
     (let absPath = path_join projectRoot filePath in
      if existsSync t absPath then
        (case computeFileHash env t absPath of
           Inl e \<Rightarrow> Inl e
         | Inr h \<Rightarrow> refresh_hashes env projectRoot t rest (AList.update filePath h newHashes))
      else refresh_hashes env projectRoot t rest newHashes)"

fun refresh_skills ::
  "('x uninstall_env_scheme) \<Rightarrow> path \<Rightarrow> node \<Rightarrow> AppliedSkill list
     \<Rightarrow> string + AppliedSkill list" where
  "refresh_skills env projectRoot t [] = Inr []"
| "refresh_skills env projectRoot t (s # rest) =
     (case refresh_hashes env projectRoot t (object_keys (file_hashes s)) [] of
        Inl e \<Rightarrow> Inl e
      | Inr newHashes \<Rightarrow>
          (case refresh_skills env projectRoot t rest of
             Inl e \<Rightarrow> Inl e
           | Inr rest' \<Rightarrow> Inr (s\<lparr>file_hashes := newHashes\<rparr> # rest')))"

text \<open>
  The body of the \<open>try\<close>, last part first: \<open>Inr\<close> is the result of one of its
  \<open>return\<close> statements, \<open>Inl\<close> the exception that reaches the \<open>catch\<close>.
  \<open>commit_uninstall\<close> is the update of the State and the cleanup (the code after the
  test failures are checked).
\<close>

definition commit_uninstall ::
  "('x uninstall_env_scheme) \<Rightarrow> string \<Rightarrow> path \<Rightarrow> State \<Rightarrow> (string \<times> bool) list
     \<Rightarrow> (UninstallResult, world) io" where
  "commit_uninstall env skillName projectRoot st results =
     io_bind (io_read (\<lambda>w. refresh_skills env projectRoot (tree w)
                              (filter (\<lambda>s. name s \<noteq> skillName) (applied_skills st))))
       (\<lambda>refreshed.
          io_then (writeState (st\<lparr>applied_skills := refreshed\<rparr>))
         (io_then (do_clearBackup env)
            (io_return
               \<lparr> u_success = True, u_skill = skillName, u_error = None,
                 customPatchWarning = None,
                 replayResults =
                   (if object_keys results \<noteq> [] then Some results
                    else None) \<rparr>)))"

text \<open>The custom modifications, the skill tests and the check for test failures.\<close>

definition verify_uninstall ::
  "('x uninstall_env_scheme) \<Rightarrow> string \<Rightarrow> path \<Rightarrow> State \<Rightarrow> (UninstallResult, world) io" where
  "verify_uninstall env skillName projectRoot st =
     io_then (on_tree (case custom_modifications st of
                         None \<Rightarrow> io_return ()
                       | Some mods \<Rightarrow> reapply_custom env projectRoot mods))
    (io_bind (on_tree (\<lambda>t. case run_skill_tests env projectRoot skillName
                                   (applied_skills st) [] t of
                              (results, t') \<Rightarrow> (Inr results, t')))
       (\<lambda>results.
          let testFailures = filter (\<lambda>r. \<not> snd r) (object_entries results) in
          if testFailures \<noteq> [] then
            io_then (rollback env)
              (io_return
                 \<lparr> u_success = False, u_skill = skillName,
                   u_error = Some (''Tests failed after uninstall: ''
                                   @ join_with '', '' (map fst testFailures)),
                   customPatchWarning = None,
                   replayResults = Some results \<rparr>)
          else commit_uninstall env skillName projectRoot st results))"

text \<open>The reset of the removed skill's own files, the replay and the check of its result.\<close>

definition replay_remaining ::
  "('x uninstall_env_scheme) \<Rightarrow> string \<Rightarrow> path \<Rightarrow> State \<Rightarrow> AppliedSkill
     \<Rightarrow> (string \<rightharpoonup> path) \<Rightarrow> (UninstallResult, world) io" where
  "replay_remaining env skillName projectRoot st skillEntry skillDirs =
     (let remaining = filter (\<lambda>s. name s \<noteq> skillName) (applied_skills st);
          remainingSkillFiles = concat (map (\<lambda>s. object_keys (file_hashes s)) remaining);
          removedSkillFiles = object_keys (file_hashes skillEntry)
      in
      io_then (on_tree (reset_exclusive env projectRoot remainingSkillFiles removedSkillFiles))
     (io_bind (replaySkills env (map name remaining) skillDirs projectRoot)
        (\<lambda>replayResult.
           if \<not> success replayResult then
             io_then (rollback env)
               (io_return (failed skillName
                  (''Replay failed: ''
                   @ (case error replayResult of None \<Rightarrow> ''undefined'' | Some e \<Rightarrow> e))))
           else verify_uninstall env skillName projectRoot st)))"

text \<open>The backup and the search for the remaining skills' packages.\<close>

definition uninstall_try ::
  "('x uninstall_env_scheme) \<Rightarrow> string \<Rightarrow> path \<Rightarrow> State \<Rightarrow> AppliedSkill
     \<Rightarrow> (UninstallResult, world) io" where
  "uninstall_try env skillName projectRoot st skillEntry =
     (let filesToBackup = map (path_join projectRoot) (touched_by_state st);
          remainingSkills =
            map name (filter (\<lambda>s. name s \<noteq> skillName) (applied_skills st))
      in
      io_then (do_createBackup env filesToBackup)
     (io_bind (io_read (\<lambda>w. locate_skill_dirs env projectRoot remainingSkills Map.empty
                               (tree w)))
        (\<lambda>loc. case loc of
           NotFound nm \<Rightarrow>
             io_then (rollback env)
               (io_return (failed skillName
                  (''Cannot find skill package for '' @ [CHR 0x22] @ nm @ [CHR 0x22]
                   @ '' in .gemini/skills/. All remaining skills must be available for replay.'')))
         | AllLocated skillDirs \<Rightarrow>
             replay_remaining env skillName projectRoot st skillEntry skillDirs)))"

subsection \<open>uninstallSkill\<close>

definition rebase_message :: string where
  "rebase_message =
     ''Cannot uninstall individual skills after rebase. The base includes all skill modifications. To remove a skill, start from a clean core and re-apply the skills you want.''"

definition custom_patch_message :: "string \<Rightarrow> string option \<Rightarrow> string" where
  "custom_patch_message skillName description =
     ''Skill '' @ [CHR 0x22] @ skillName @ [CHR 0x22] @ '' has a custom patch (''
     @ (case description of None \<Rightarrow> ''no description'' | Some d \<Rightarrow> d)
     @ ''). Uninstalling will lose these customizations. Re-run with confirmation to proceed.''"

text \<open>
  \<open>uninstallSkill(skillName)\<close> run in the directory \<open>projectRoot\<close>
  (\<open>process.cwd()\<close>). Every exception of the \<open>try\<close> is caught, so the promise always
  resolves: the value is the result and the world it leaves.
\<close>

definition uninstallSkill ::
  "('x uninstall_env_scheme) \<Rightarrow> string \<Rightarrow> path \<Rightarrow> world \<Rightarrow> UninstallResult \<times> world" where
  "uninstallSkill env skillName projectRoot w =
     (let st = state_doc w in
      if truthy (rebased_at st) then (failed skillName rebase_message, w)
      else
        (case find (\<lambda>s. name s = skillName) (applied_skills st) of
           None \<Rightarrow>
             (failed skillName
                (''Skill '' @ [CHR 0x22] @ skillName @ [CHR 0x22] @ '' is not applied.''), w)
         | Some skillEntry \<Rightarrow>
             if truthy (custom_patch skillEntry) then
               (\<lparr> u_success = False, u_skill = skillName, u_error = None,
                  customPatchWarning =
                    Some (custom_patch_message skillName
                            (custom_patch_description skillEntry)),
                  replayResults = None \<rparr>, w)
             else
               (case io_then acquireLock
                       (uninstall_try env skillName projectRoot st skillEntry) w of
                  (Inr result, w') \<Rightarrow> (result, releaseLock w')
                | (Inl e, w') \<Rightarrow>
                    (case rollback env w' of
                       (_, w'') \<Rightarrow> (failed skillName e, releaseLock w'')))))"

subsection \<open>What the claims about uninstallSkill speak of\<close>

text \<open>
  The calls an uninstall makes outside the tree are read off the trace. The structured
  merges and the dependency install are the only calls \<open>replaySkills\<close> records;
  \<open>structured_only\<close> is a step that records nothing else and leaves the State
  document alone. \<open>try_shape\<close> is what the body of the \<open>try\<close> does after the
  backup was created: an exception comes with structured calls only; a failure result
  comes after \<open>restoreBackup(); clearBackup();\<close>, the State document as it was; a
  success comes after \<open>writeState(state); clearBackup();\<close>.
\<close>

primrec is_structured :: "event \<Rightarrow> bool" where
  "is_structured AcquireLock = False"
| "is_structured ReleaseLock = False"
| "is_structured (CreateBackup files) = False"
| "is_structured RestoreBackup = False"
| "is_structured ClearBackup = False"
| "is_structured (WriteState st) = False"
| "is_structured (MergeNpmDependencies p deps) = True"
| "is_structured (MergeEnvAdditions p xs) = True"
| "is_structured (MergeDockerComposeServices p svcs) = True"
| "is_structured RunNpmInstall = True"

definition structured_only :: "('a, world) io \<Rightarrow> bool" where
  "structured_only m =
     (\<forall>w r w'. m w = (r, w') \<longrightarrow>
        state_doc w' = state_doc w
      \<and> (\<exists>evs. trace w' = trace w @ evs \<and> list_all is_structured evs))"

definition try_shape :: "(UninstallResult, world) io \<Rightarrow> bool" where
  "try_shape m =
     (\<forall>w res w'. m w = (res, w') \<longrightarrow>
        (\<exists>mid. list_all is_structured mid
           \<and> (case res of
                Inl e \<Rightarrow> trace w' = trace w @ mid \<and> state_doc w' = state_doc w
              | Inr r \<Rightarrow>
                  if u_success r
                  then trace w' = trace w @ mid @ [WriteState (state_doc w'), ClearBackup]
                  else trace w' = trace w @ mid @ [RestoreBackup, ClearBackup]
                     \<and> state_doc w' = state_doc w)))"

text \<open>
  The world a failed uninstall leaves: \<open>restoreBackup(); clearBackup();\<close> and, in the
  \<open>finally\<close>, the release of the lock.
\<close>

definition restored :: "('x uninstall_env_scheme) \<Rightarrow> world \<Rightarrow> world" where
  "restored env v =
     v\<lparr>tree := clearBackup env (restoreBackup env (tree v)),
       trace := trace v @ [RestoreBackup, ClearBackup, ReleaseLock]\<rparr>"

section \<open>Example installations\<close>

definition t_both :: node where
  "t_both =
     Dir [(''proj'',
       Dir [(''.gemini'', Dir [(''resolutions'', Dir [(''a+b'', Dir [])])]),
            (''.nanoclaw'', Dir [(''resolutions'', Dir [(''a+b'', Dir [])])])])]"

text \<open>
  Meta documents: \<open>meta_ok\<close> records the hashes of \<open>f\<close> and \<open>g\<close>; \<open>meta_alias\<close> records,
  for a file called \<open>preimage\<close>, the hash of the preimage of \<open>f\<close> as the hash of the
  working file.
\<close>

definition meta_ok :: ResolutionMeta where
  "meta_ok = \<lparr> input_hashes = Some [],
               meta_file_hashes =
                 Some [''f'' \<mapsto> \<lparr> base = Some ''#B'', current = Some ''#C'',
                                   skill = Some ''#S'' \<rparr>,
                       ''g'' \<mapsto> \<lparr> base = Some ''#GB'', current = Some ''#GC'',
                                   skill = Some ''#GS'' \<rparr>] \<rparr>"

definition meta_alias :: ResolutionMeta where
  "meta_alias = \<lparr> input_hashes = Some [],
               meta_file_hashes =
                 Some [''f'' \<mapsto> \<lparr> base = Some ''#B'', current = Some ''#C'',
                                   skill = Some ''#S'' \<rparr>,
                       ''preimage'' \<mapsto> \<lparr> base = Some ''#B2'', current = Some ''#PRE'',
                                          skill = Some ''#S2'' \<rparr>] \<rparr>"

definition manifests0 :: "string \<Rightarrow> string + SkillManifest" where
  "manifests0 txt =
     (if txt = ''A'' then
        Inr \<lparr> manifest_skill = ''a'', adds = [''a.ts''], modifies = [''f''], file_ops = [],
              npm_dependencies = Some [(''lodash'', ''4'')], env_additions = None,
              docker_compose_services = None \<rparr>
      else if txt = ''B'' then
        Inr \<lparr> manifest_skill = ''b'', adds = [], modifies = [''f''], file_ops = [],
              npm_dependencies = None, env_additions = None,
              docker_compose_services = None \<rparr>
      else if txt = ''C'' then
        Inr \<lparr> manifest_skill = ''c'', adds = [''c.ts''], modifies = [], file_ops = [],
              npm_dependencies = None, env_additions = None,
              docker_compose_services = None \<rparr>
      else Inl ''Invalid manifest'')"

definition mergeFile0 :: "path \<Rightarrow> path \<Rightarrow> path \<Rightarrow> (bool, node) io" where
  "mergeFile0 cur bas skl t =
     (case (fileAt t cur, fileAt t bas, fileAt t skl) of
        (Some c, Some b, Some s) \<Rightarrow>
          if c = b then (case writeFileSync cur s t of Inl e \<Rightarrow> (Inl e, t) | Inr t' \<Rightarrow> (Inr True, t'))
          else if s = b \<or> s = c then (Inr True, t)
          else (case writeFileSync cur (''<<<<<<< '' @ c @ '' ======= '' @ s @ '' >>>>>>>'') t of
                  Inl e \<Rightarrow> (Inl e, t) | Inr t' \<Rightarrow> (Inr False, t'))
      | _ \<Rightarrow> (Inl ''merge-file failed'', t))"

definition env0 :: uninstall_env where
  "env0 =
     \<lparr> toStringUtf8 = (\<lambda>c. c),
       parseYaml = (\<lambda>txt. if txt = [] then Inr None
                          else if txt = ''meta+'' then Inr (Some meta_ok)
                          else if txt = ''meta'' then Inr (Some (meta_ok\<lparr>input_hashes := None\<rparr>))
                          else if txt = ''meta2'' then Inr (Some meta_alias)
                          else Inl ''YAMLParseError''),
       gitRevParseGitDir = (\<lambda>t root. if existsSync t (root @ [''.git''])
                                      then Some (''.git'' @ [CHR 0x0A]) else None),
       sha256 = (\<lambda>c. CHR ''#'' # c),
       resolvePathRemap = (\<lambda>p. p),
       readManifest = (\<lambda>t dir. case fileAt t (dir @ [''manifest.yaml'']) of
                                   None \<Rightarrow> Inl ''ENOENT'' | Some txt \<Rightarrow> manifests0 txt),
       executeFileOps = (\<lambda>ops root. io_return (True, [])),
       tmpFile = (\<lambda>b. [''tmp'', b]),
       mergeFile = mergeFile0,
       isGitRepo = (\<lambda>t. False),
       setupRerereAdapter = (\<lambda>p b ours theirs. io_return ()),
       runRerere = (\<lambda>p. io_return False),
       gitAdd = (\<lambda>p. io_return ()),
       gitRerere = io_return (),
       cleanupMergeState = (\<lambda>p. io_return ()),
       mergeNpmDependencies = (\<lambda>p deps. io_return ()),
       mergeEnvAdditions = (\<lambda>p xs. io_return ()),
       mergeDockerComposeServices = (\<lambda>p svcs. io_return ()),
       runNpmInstall = io_throw ''npm ERR!'',
       createBackup = (\<lambda>files t. t),
       restoreBackup = (\<lambda>t. t),
       clearBackup = (\<lambda>t. t),
       gitApply3way = (\<lambda>patch root. io_return ()),
       execTest = (\<lambda>cmd root. if cmd = ''false'' then io_throw ''exit 1'' else io_return ()) \<rparr>"

definition cache_tree :: "string \<Rightarrow> bool \<Rightarrow> node" where
  "cache_tree metaTxt withGit =
     Dir [(''proj'',
       Dir ([(''.gemini'', Dir [(''resolutions'', Dir [(''a+b'',
               Dir [(''meta.yaml'', File metaTxt),
                    (''f.preimage'', File ''PRE''),
                    (''f.preimage.hash'', File (''h1'' @ [CHR 0x0A])),
                    (''f.resolution'', File ''POST'')])])]),
             (''.nanoclaw'', Dir [(''base'', Dir [(''f'', File ''B'')])]),
             (''f'', File ''C''),
             (''pkg-b'', Dir [(''modify'', Dir [(''f'', File ''S'')])])]
            @ (if withGit then [(''.git'', Dir [])] else [])))]"

definition pair0 :: preimage_pair where
  "pair0 = \<lparr> pairRelPath = ''f'',
             preimage = [''proj'', ''.gemini'', ''resolutions'', ''a+b'', ''f.preimage''],
             resolution = [''proj'', ''.gemini'', ''resolutions'', ''a+b'', ''f.resolution''] \<rparr>"

text \<open>
  An installation with two pairs, \<open>g\<close> listed before \<open>f\<close>. The working file \<open>g\<close> was
  edited since the resolution was recorded. The sidecar of \<open>f\<close> holds its token between
  a byte order mark and a no-break space with a line feed. \<open>git_entries\<close> is what
  \<open>.git\<close> holds.
\<close>

definition two_pairs :: "(string \<times> node) list \<Rightarrow> node" where
  "two_pairs git_entries =
     Dir [(''proj'',
       Dir [(''.gemini'', Dir [(''resolutions'', Dir [(''a+b'',
               Dir [(''meta.yaml'', File ''meta+''),
                    (''g.preimage'', File ''GPRE''),
                    (''g.preimage.hash'', File ''h0''),
                    (''g.resolution'', File ''GPOST''),
                    (''f.preimage'', File ''PRE''),
                    (''f.preimage.hash'',
                       File ([CHR 0xEF, CHR 0xBB, CHR 0xBF] @ ''h1''
                             @ [CHR 0xC2, CHR 0xA0, CHR 0x0A])),
                    (''f.resolution'', File ''POST'')])])]),
            (''.nanoclaw'', Dir [(''base'', Dir [(''f'', File ''B''), (''g'', File ''GB'')])]),
            (''f'', File ''C''),
            (''g'', File ''edited''),
            (''pkg-b'', Dir [(''modify'', Dir [(''f'', File ''S''), (''g'', File ''GS'')])]),
            (''.git'', Dir git_entries)])]"

definition pair_g :: preimage_pair where
  "pair_g = \<lparr> pairRelPath = ''g'',
              preimage = [''proj'', ''.gemini'', ''resolutions'', ''a+b'', ''g.preimage''],
              resolution = [''proj'', ''.gemini'', ''resolutions'', ''a+b'', ''g.resolution''] \<rparr>"

text \<open>
  An installation whose first sidecar holds the token \<open>../..\<close>, which takes the entry
  of \<open>f\<close> from \<open>.git/rr-cache\<close> to the project root: the \<open>preimage\<close> written there is
  the working file of the second pair. \<open>files\<close> is what the project root holds besides.
\<close>

definition alias_tree :: "(string \<times> node) list \<Rightarrow> (string \<times> node) list \<Rightarrow> node" where
  "alias_tree files git_entries =
     Dir [(''proj'',
       Dir ([(''.gemini'', Dir [(''resolutions'', Dir [(''a+b'',
               Dir [(''meta.yaml'', File ''meta2''),
                    (''f.preimage'', File ''PRE''),
                    (''f.preimage.hash'', File ''../..''),
                    (''f.resolution'', File ''POST''),
                    (''preimage.preimage'', File ''PRE2''),
                    (''preimage.preimage.hash'', File ''h2''),
                    (''preimage.resolution'', File ''POST2'')])])]),
            (''.nanoclaw'', Dir [(''base'', Dir [(''f'', File ''B''),
                                                (''preimage'', File ''B2'')])]),
            (''f'', File ''C''),
            (''pkg-b'', Dir [(''modify'', Dir [(''f'', File ''S''),
                                              (''preimage'', File ''S2'')])]),
            (''.git'', Dir git_entries)]
            @ files))]"

definition pair_alias :: preimage_pair where
  "pair_alias =
     \<lparr> pairRelPath = ''preimage'',
       preimage = [''proj'', ''.gemini'', ''resolutions'', ''a+b'', ''preimage.preimage''],
       resolution = [''proj'', ''.gemini'', ''resolutions'', ''a+b'', ''preimage.resolution''] \<rparr>"

definition replay_tree :: node where
  "replay_tree =
     Dir [(''proj'',
       Dir [(''.nanoclaw'', Dir [(''base'', Dir [(''f'', File ''line1'')])]),
            (''f'', File ''drifted''),
            (''a.ts'', File ''stale addition''),
            (''pkg-a'', Dir [(''manifest.yaml'', File ''A''),
                            (''add'', Dir [(''a.ts'', File ''code of a'')]),
                            (''modify'', Dir [(''f'', File ''line1-from-A'')])]),
            (''pkg-b'', Dir [(''manifest.yaml'', File ''B''),
                            (''modify'', Dir [(''f'', File ''line1-from-B'')])]),
            (''pkg-c'', Dir [(''manifest.yaml'', File ''C''),
                            (''add'', Dir [(''c.ts'', File ''code of c'')])]),
            (''pkg-bad'', Dir [(''manifest.yaml'', File ''???'')])]),
          (''tmp'', Dir [])]"

definition state0 :: State where
  "state0 = \<lparr> skills_system_version = ''0.1.0'', core_version = ''1.0.0'',
               applied_skills = [], rebased_at = None, custom_modifications = None \<rparr>"

definition w0 :: world where
  "w0 = \<lparr> tree = replay_tree, state_doc = state0, trace = [] \<rparr>"

definition dirs_abc :: "string \<rightharpoonup> path" where
  "dirs_abc = [''a'' \<mapsto> [''proj'', ''pkg-a''], ''b'' \<mapsto> [''proj'', ''pkg-b''],
               ''c'' \<mapsto> [''proj'', ''pkg-c'']]"

definition proj_tree :: "(string \<times> node) list \<Rightarrow> (string \<times> node) list \<Rightarrow> node" where
  "proj_tree before after =
     Dir [(''proj'',
       Dir ([(''.nanoclaw'', Dir [(''base'', Dir [(''f'', File ''line1'')])])]
            @ before
            @ [(''pkg-a'', Dir [(''manifest.yaml'', File ''A''),
                               (''add'', Dir [(''a.ts'', File ''code of a'')]),
                               (''modify'', Dir [(''f'', File ''line1-from-A'')])]),
               (''pkg-b'', Dir [(''manifest.yaml'', File ''B''),
                               (''modify'', Dir [(''f'', File ''line1-from-B'')])]),
               (''pkg-c'', Dir [(''manifest.yaml'', File ''C''),
                               (''add'', Dir [(''c.ts'', File ''code of c'')])]),
               (''pkg-bad'', Dir [(''manifest.yaml'', File ''???'')])]
            @ after)),
          (''tmp'', Dir [])]"

definition reset_tree :: node where
  "reset_tree = proj_tree [(''f'', File ''line1'')] []"

definition tree_a :: node where
  "tree_a = proj_tree [(''f'', File ''line1-from-A'')] [(''a.ts'', File ''code of a'')]"

definition tree_ab :: node where
  "tree_ab = proj_tree [(''f'', File ''<<<<<<< line1-from-A ======= line1-from-B >>>>>>>'')]
               [(''a.ts'', File ''code of a'')]"

definition manifest_a :: SkillManifest where
  "manifest_a = \<lparr> manifest_skill = ''a'', adds = [''a.ts''], modifies = [''f''], file_ops = [],
                   npm_dependencies = Some [(''lodash'', ''4'')], env_additions = None,
                   docker_compose_services = None \<rparr>"

definition dirs_c :: "string \<rightharpoonup> path" where
  "dirs_c = [''c'' \<mapsto> [''proj'', ''pkg-c'']]"

definition dirs_bad :: "string \<rightharpoonup> path" where
  "dirs_bad = [''bad'' \<mapsto> [''proj'', ''pkg-bad'']]"

definition tree_ac :: node where
  "tree_ac = proj_tree [(''f'', File ''line1-from-A'')]
               [(''a.ts'', File ''code of a''), (''c.ts'', File ''code of c'')]"

definition manifest_c :: SkillManifest where
  "manifest_c = \<lparr> manifest_skill = ''c'', adds = [''c.ts''], modifies = [], file_ops = [],
                   npm_dependencies = None, env_additions = None,
                   docker_compose_services = None \<rparr>"

text \<open>
  States for \<open>uninstallSkill\<close>: one that was rebased, one whose skill carries a custom
  patch (the State of the test \<open>returns custom patch warning\<close>), and one with the
  skills \<open>a\<close> and \<open>b\<close> applied.
\<close>

definition state_rebased :: State where
  "state_rebased = state0\<lparr> rebased_at := Some ''2026-01-01T00:00:00.000Z'',
       applied_skills := [\<lparr> name = ''telegram'', version = ''1.0.0'',
         applied_at = ''2025-12-01T00:00:00.000Z'', file_hashes = [(''src/config.ts'', ''abc'')],
         custom_patch = None, custom_patch_description = None, outcomes_test = None \<rparr>] \<rparr>"

definition state_patched :: State where
  "state_patched = state0\<lparr> applied_skills := [\<lparr> name = ''telegram'', version = ''1.0.0'',
         applied_at = ''2025-12-01T00:00:00.000Z'', file_hashes = [],
         custom_patch = Some ''.nanoclaw/custom/001.patch'',
         custom_patch_description = Some ''My tweak'', outcomes_test = None \<rparr>] \<rparr>"

definition state_ab :: State where
  "state_ab = state0\<lparr> applied_skills :=
       [\<lparr> name = ''a'', version = ''1.0.0'', applied_at = ''2025-12-01T00:00:00.000Z'',
          file_hashes = [(''f'', ''h1''), (''a.ts'', ''h2'')],
          custom_patch = None, custom_patch_description = None, outcomes_test = None \<rparr>,
        \<lparr> name = ''b'', version = ''1.0.0'', applied_at = ''2025-12-02T00:00:00.000Z'',
          file_hashes = [(''f'', ''h3'')],
          custom_patch = None, custom_patch_description = None, outcomes_test = None \<rparr>] \<rparr>"

text \<open>
  An installation with the packages of \<open>a\<close>, \<open>b\<close> and \<open>c\<close> under \<open>.gemini/skills\<close>,
  States that have some of them applied, and a backup mechanism whose restore puts the
  tree back as it was.
\<close>

definition skills_proj :: "(string \<times> node) list \<Rightarrow> (string \<times> node) list \<Rightarrow> node" where
  "skills_proj files\<^sub>1 files\<^sub>2 =
     Dir [(''proj'',
       Dir ([(''.nanoclaw'', Dir [(''base'', Dir [(''f'', File ''line1'')])])]
            @ files\<^sub>1
            @ [(''.gemini'', Dir [(''skills'',
               Dir [(''a'', Dir [(''manifest.yaml'', File ''A''),
                                (''add'', Dir [(''a.ts'', File ''code of a'')]),
                                (''modify'', Dir [(''f'', File ''line1-from-A'')])]),
                    (''b'', Dir [(''manifest.yaml'', File ''B''),
                                (''modify'', Dir [(''f'', File ''line1-from-B'')])]),
                    (''c'', Dir [(''manifest.yaml'', File ''C''),
                                (''add'', Dir [(''c.ts'', File ''code of c'')])])])])]
            @ files\<^sub>2)),
          (''tmp'', Dir [])]"

definition skills_tree :: node where
  "skills_tree = skills_proj [(''f'', File ''drifted''), (''a.ts'', File ''code of a'')] []"

definition applied0 :: "string \<Rightarrow> (string \<times> string) list \<Rightarrow> string option \<Rightarrow> AppliedSkill" where
  "applied0 nm hashes test =
     \<lparr> name = nm, version = ''1.0.0'', applied_at = ''2025-12-01T00:00:00.000Z'',
       file_hashes = hashes, custom_patch = None, custom_patch_description = None,
       outcomes_test = test \<rparr>"

definition state_abc :: State where
  "state_abc = state0\<lparr> applied_skills :=
       [applied0 ''a'' [(''f'', ''h1''), (''a.ts'', ''h2'')] None,
        applied0 ''b'' [(''f'', ''h3'')] None,
        applied0 ''c'' [(''c.ts'', ''h4'')] None] \<rparr>"

definition state_ac :: "string \<Rightarrow> State" where
  "state_ac cmd = state0\<lparr> applied_skills :=
       [applied0 ''a'' [(''f'', ''h1''), (''a.ts'', ''h2'')] None,
        applied0 ''c'' [(''c.ts'', ''h4'')] (Some cmd)] \<rparr>"

definition w_skills :: "State \<Rightarrow> world" where
  "w_skills st = \<lparr> tree = skills_tree, state_doc = st, trace = [] \<rparr>"

definition restoring :: "node \<Rightarrow> uninstall_env" where
  "restoring t0 = env0\<lparr> restoreBackup := (\<lambda>_. t0) \<rparr>"

definition dirs_ab :: "string \<rightharpoonup> path" where
  "dirs_ab = [''a'' \<mapsto> [''proj'', ''.gemini'', ''skills'', ''a''],
              ''b'' \<mapsto> [''proj'', ''.gemini'', ''skills'', ''b'']]"

definition dirs_only_c :: "string \<rightharpoonup> path" where
  "dirs_only_c = [''c'' \<mapsto> [''proj'', ''.gemini'', ''skills'', ''c'']]"

section \<open>Facts about the filesystem\<close>

lemma lookup_append:
  "lookup (p @ q) t = (case lookup p t of None \<Rightarrow> None | Some n \<Rightarrow> lookup q n)"
  by (induction p arbitrary: t) (auto split: node.splits option.splits)

lemma path_join_meta: "path_join p ''meta.yaml'' = p @ [''meta.yaml'']"
  by (simp add: path_join_def push_segment_def)

lemma path_join_preimage: "path_join p ''preimage'' = p @ [''preimage'']"
  by (simp add: path_join_def push_segment_def)

lemma path_join_postimage: "path_join p ''postimage'' = p @ [''postimage'']"
  by (simp add: path_join_def push_segment_def)

lemma exists_child_readdir:
  assumes "existsSync t (p @ [s])"
  shows "\<exists>es. readdirSync t p = Inr es"
  using assms
  by (auto simp: existsSync_def readdirSync_def lookup_append split: option.splits node.splits)

lemma lookup_set_entry_same:
  "set_entry p v t = Some t' \<Longrightarrow> lookup p t' = v"
proof (induction p arbitrary: t t')
  case Nil
  then show ?case by simp
next
  case (Cons s p)
  then show ?case
    by (cases t; cases v)
       (auto simp: AList.update_conv' AList.delete_conv' split: if_splits option.splits)
qed

lemma fileAt_set_entry_other:
  assumes "set_entry p v t = Some t'" and "q \<noteq> p"
    and "v = None \<or> (\<exists>c. v = Some (File c))"
    and "\<forall>es. lookup p t \<noteq> Some (Dir es)"
  shows "fileAt t' q = fileAt t q"
  using assms
proof (induction p arbitrary: t t' q)
  case Nil
  then show ?case by simp
next
  case (Cons s p)
  from Cons.prems(1) obtain es where t: "t = Dir es" by (cases t) auto
  show ?case
  proof (cases q)
    case Nil
    with Cons.prems(1) t show ?thesis
      by (auto simp: fileAt_def split: if_splits option.splits)
  next
    case (Cons s' q')
    note q = this
    show ?thesis
    proof (cases "s' = s")
      case False
      with Cons.prems(1) t q show ?thesis
        by (auto simp: fileAt_def AList.update_conv' AList.delete_conv'
            split: if_splits option.splits)
    next
      case True
      show ?thesis
      proof (cases "p = []")
        case True
        with \<open>s' = s\<close> q Cons.prems t have q': "q' \<noteq> []" by auto
        then obtain a b where "q' = a # b" by (cases q') auto
        with True \<open>s' = s\<close> q Cons.prems t show ?thesis
          by (auto simp: fileAt_def AList.update_conv' AList.delete_conv'
              split: if_splits option.splits node.splits)
      next
        case False
        with Cons.prems(1) t obtain ch ch' where
          ch: "map_of es s = Some ch" "set_entry p v ch = Some ch'"
          "t' = Dir (AList.update s ch' es)"
          by (auto split: option.splits)
        from Cons.prems(4) t ch have nd: "\<forall>es. lookup p ch \<noteq> Some (Dir es)" by simp
        from Cons.prems(2) q \<open>s' = s\<close> have "q' \<noteq> p" by simp
        from Cons.IH[OF ch(2) this Cons.prems(3) nd]
        have "fileAt ch' q' = fileAt ch q'" .
        with ch t q \<open>s' = s\<close> show ?thesis
          by (simp add: fileAt_def AList.update_conv')
      qed
    qed
  qed
qed

lemma fileAt_mkdirp:
  "mkdirp p t = Some t' \<Longrightarrow> fileAt t' q = fileAt t q"
proof (induction p arbitrary: t t' q)
  case Nil
  then show ?case by (auto split: node.splits)
next
  case (Cons s p)
  from Cons.prems obtain es where t: "t = Dir es" by (cases t) auto
  define ch0 where "ch0 = (case map_of es s of None \<Rightarrow> Dir [] | Some ch \<Rightarrow> ch)"
  from Cons.prems t obtain ch' where
    ch: "mkdirp p ch0 = Some ch'" "t' = Dir (AList.update s ch' es)"
    by (auto simp: ch0_def split: option.splits)
  show ?case
  proof (cases q)
    case Nil
    with t ch show ?thesis by (simp add: fileAt_def)
  next
    case (Cons s' q')
    show ?thesis
    proof (cases "s' = s")
      case False
      with t ch Cons show ?thesis by (simp add: fileAt_def AList.update_conv')
    next
      case True
      from Cons.IH[OF ch(1)] have ih: "fileAt ch' q' = fileAt ch0 q'" .
      have "fileAt ch0 q' = fileAt t (s # q')"
        by (cases q') (auto simp: fileAt_def ch0_def t split: option.splits)
      with ih True t ch Cons show ?thesis
        by (simp add: fileAt_def AList.update_conv')
    qed
  qed
qed

lemma fileAt_writeFileSync:
  assumes "writeFileSync p c t = Inr t'"
  shows "fileAt t' q = (if q = p then Some c else fileAt t q)"
proof (cases "q = p")
  case True
  with assms show ?thesis
    by (auto simp: writeFileSync_def fileAt_def lookup_set_entry_same
        split: option.splits node.splits)
next
  case False
  from assms have se: "set_entry p (Some (File c)) t = Some t'"
    and nd: "\<forall>es. lookup p t \<noteq> Some (Dir es)"
    by (auto simp: writeFileSync_def split: option.splits node.splits)
  from fileAt_set_entry_other[OF se False _ nd] False show ?thesis by simp
qed

lemma fileAt_unlinkSync:
  assumes "unlinkSync p t = Inr t'"
  shows "fileAt t' q = (if q = p then None else fileAt t q)"
proof (cases "q = p")
  case True
  with assms show ?thesis
    by (auto simp: unlinkSync_def fileAt_def lookup_set_entry_same
        split: option.splits node.splits)
next
  case False
  from assms have se: "set_entry p None t = Some t'"
    and nd: "\<forall>es. lookup p t \<noteq> Some (Dir es)"
    by (auto simp: unlinkSync_def split: option.splits node.splits)
  from fileAt_set_entry_other[OF se False _ nd] False show ?thesis by simp
qed

lemma fileAt_mkdirSync:
  "mkdirSync p t = Inr t' \<Longrightarrow> fileAt t' q = fileAt t q"
  by (auto simp: mkdirSync_def fileAt_mkdirp split: option.splits)

lemma fileAt_copyFileSync:
  assumes "copyFileSync src dst t = Inr t'"
  shows "fileAt t' q = (if q = dst then fileAt t src else fileAt t q)"
    and "fileAt t src \<noteq> None"
  using assms
  by (auto simp: copyFileSync_def readFileSync_def fileAt_def[of t src]
      fileAt_writeFileSync split: option.splits node.splits sum.splits)

lemma exists_of_fileAt: "fileAt t p = Some c \<Longrightarrow> existsSync t p"
  by (auto simp: fileAt_def existsSync_def split: option.splits)

lemma readFileSync_fileAt: "readFileSync t p = Inr c \<longleftrightarrow> fileAt t p = Some c"
  by (auto simp: fileAt_def readFileSync_def split: option.splits node.splits)

lemma computeFileHash_Inr:
  "computeFileHash env t p = Inr h \<longleftrightarrow> map_option (sha256 env) (fileAt t p) = Some h"
  by (auto simp: computeFileHash_def fileAt_def readFileSync_def split: option.splits node.splits sum.splits)

lemma readTextSync_Inr:
  "readTextSync env t p = Inr c \<longleftrightarrow> map_option (toStringUtf8 env) (fileAt t p) = Some c"
  by (auto simp: readTextSync_def fileAt_def readFileSync_def split: option.splits node.splits sum.splits)

lemma hash_matches_Inr:
  "computeFileHash env t p = Inr h \<Longrightarrow> hash_matches env t p recorded \<longleftrightarrow> Some h = recorded"
  by (auto simp: computeFileHash_Inr hash_matches_def split: option.splits)

lemma readTextSync_exists: "readTextSync env t p = Inr c \<Longrightarrow> existsSync t p"
  by (auto simp: readTextSync_Inr exists_of_fileAt)

lemma hash_matches_Inl:
  "computeFileHash env t p = Inl e \<Longrightarrow> \<not> hash_matches env t p recorded"
  by (auto simp: computeFileHash_def hash_matches_def fileAt_def readFileSync_def
      split: option.splits node.splits)

lemma computeFileHash_exists: "computeFileHash env t p = Inr h \<Longrightarrow> existsSync t p"
  by (auto simp: computeFileHash_Inr exists_of_fileAt)

lemma hash_matches_exists: "\<not> existsSync t p \<Longrightarrow> \<not> hash_matches env t p recorded"
  by (auto simp: hash_matches_def existsSync_def fileAt_def split: option.splits)

lemma sidecar_token_read:
  "readTextSync env t (butlast (preimage pair) @ [last (preimage pair) @ ''.hash'']) = Inr raw
     \<Longrightarrow> sidecar_token env t pair = trim raw"
  by (auto simp: readTextSync_Inr sidecar_token_def)

lemma sidecar_token_missing:
  "\<not> existsSync t (butlast (preimage pair) @ [last (preimage pair) @ ''.hash''])
     \<Longrightarrow> sidecar_token env t pair = []"
  by (auto simp: sidecar_token_def existsSync_def fileAt_def split: option.splits)

lemma check_pair_trusted:
  assumes "check_pair env projectRoot (Some skillDir) meta t pair = Inr r"
  shows "(r \<noteq> None) = resolution_trusted env projectRoot skillDir meta t pair"
  using assms
  unfolding check_pair_def resolution_trusted_def Let_def
  by (auto split: option.splits sum.splits if_splits
      simp: hash_matches_Inr hash_matches_Inl hash_matches_exists computeFileHash_exists
        sidecar_token_read sidecar_token_missing readTextSync_exists)

section \<open>Properties of resolution-cache.ts\<close>

lemma check_pair_entry:
  assumes "check_pair env projectRoot sd meta t pair = Inr (Some (h, pre, post))"
  shows "h = sidecar_token env t pair
       \<and> map_option (toStringUtf8 env) (fileAt t (preimage pair)) = Some pre
       \<and> map_option (toStringUtf8 env) (fileAt t (resolution pair)) = Some post"
  using assms
  unfolding check_pair_def Let_def
  by (auto split: option.splits sum.splits if_splits
      simp: readTextSync_Inr sidecar_token_def)

lemma create_rr_cache_entry_files:
  assumes "create_rr_cache_entry rr (h, pre, post) t = (Inr u, t')"
  shows "fileAt t' q =
           (if q = path_join (path_join rr h) ''postimage'' then Some post
            else if q = path_join (path_join rr h) ''preimage'' then Some pre
            else fileAt t q)"
proof -
  from assms obtain t1 t2 where
    m: "mkdirSync (path_join rr h) t = Inr t1"
    and w1: "writeFileSync (path_join (path_join rr h) ''preimage'') pre t1 = Inr t2"
    and w2: "writeFileSync (path_join (path_join rr h) ''postimage'') post t2 = Inr t'"
    by (auto simp: create_rr_cache_entry_def io_then_def io_bind_def fs_call_def Let_def
        split: sum.splits prod.splits)
  from fileAt_writeFileSync[OF w2] fileAt_writeFileSync[OF w1] fileAt_mkdirSync[OF m]
  show ?thesis by simp
qed

lemma load_pair_verdict:
  assumes "load_pair env projectRoot (Some skillDir) meta rr pair t = (Inr b, t')"
  shows "(b \<longleftrightarrow> resolution_trusted env projectRoot skillDir meta t pair)
       \<and> (if b then seeded env rr t t' pair else t' = t)"
proof (cases "check_pair env projectRoot (Some skillDir) meta t pair")
  case (Inl e)
  with assms show ?thesis by (simp add: load_pair_def)
next
  case (Inr r)
  note tr = check_pair_trusted[OF Inr]
  show ?thesis
  proof (cases r)
    case None
    with Inr assms tr show ?thesis by (auto simp: load_pair_def)
  next
    case (Some entry)
    obtain h pre post where entry: "entry = (h, pre, post)" by (cases entry) auto
    from assms Inr Some entry obtain u where
      cr: "create_rr_cache_entry rr (h, pre, post) t = (Inr u, t')" and b: "b"
      by (auto simp: load_pair_def io_bind_def io_return_def split: sum.splits prod.splits)
    from check_pair_entry[of env projectRoot "Some skillDir" meta t pair h pre post]
      Inr Some entry
    have ce: "h = sidecar_token env t pair"
      "map_option (toStringUtf8 env) (fileAt t (preimage pair)) = Some pre"
      "map_option (toStringUtf8 env) (fileAt t (resolution pair)) = Some post" by auto
    note files = create_rr_cache_entry_files[OF cr]
    have ne: "path_join (path_join rr h) ''preimage'' \<noteq> path_join (path_join rr h) ''postimage''"
      by (simp add: path_join_preimage path_join_postimage)
    from ce(2,3) files[of "path_join (path_join rr h) ''preimage''"]
      files[of "path_join (path_join rr h) ''postimage''"] ne
    have "rr_entry_holds env rr t t' pair"
      by (auto simp: rr_entry_holds_def Let_def ce(1)[symmetric] split: option.splits)
    moreover have "fileAt t' q = fileAt t q"
      if "q \<noteq> path_join (path_join rr h) ''preimage''"
        and "q \<noteq> path_join (path_join rr h) ''postimage''" for q
      using that files[of q] by simp
    ultimately have "seeded env rr t t' pair"
      by (simp add: seeded_def Let_def ce(1)[symmetric])
    with b tr Some show ?thesis by simp
  qed
qed

lemma load_loop_turns:
  assumes "load_loop env projectRoot (Some skillDir) meta rr ps a t = (Inr r, t')"
  shows "\<exists>ts. load_turns env projectRoot skillDir meta rr ps ts \<and> hd ts = t \<and> last ts = t'
           \<and> (r \<longleftrightarrow> a \<or> (\<exists>i<length ps.
                 resolution_trusted env projectRoot skillDir meta (ts ! i) (ps ! i)))"
  using assms
proof (induction ps arbitrary: a t)
  case Nil
  then have "load_turns env projectRoot skillDir meta rr [] [t] \<and> hd [t] = t \<and> last [t] = t'
           \<and> (r \<longleftrightarrow> a)"
    by (simp add: load_turns_def)
  then show ?case by (intro exI[of _ "[t]"]) auto
next
  case (Cons p ps)
  from Cons.prems obtain b t1 where
    lp: "load_pair env projectRoot (Some skillDir) meta rr p t = (Inr b, t1)"
    and rest: "load_loop env projectRoot (Some skillDir) meta rr ps (a \<or> b) t1 = (Inr r, t')"
    by (auto split: prod.splits sum.splits)
  from Cons.IH[OF rest] obtain ts where
    ts: "load_turns env projectRoot skillDir meta rr ps ts" "hd ts = t1" "last ts = t'"
    and flag: "r \<longleftrightarrow> (a \<or> b) \<or> (\<exists>i<length ps.
                 resolution_trusted env projectRoot skillDir meta (ts ! i) (ps ! i))"
    by blast
  from ts(1) have len: "length ts = Suc (length ps)" by (simp add: load_turns_def)
  then have ne: "ts \<noteq> []" by auto
  with ts(2) have ts0: "ts ! 0 = t1" by (simp add: hd_conv_nth)
  note v = load_pair_verdict[OF lp]
  have step: "if resolution_trusted env projectRoot skillDir meta ((t # ts) ! i) ((p # ps) ! i)
          then seeded env rr ((t # ts) ! i) ((t # ts) ! Suc i) ((p # ps) ! i)
          else (t # ts) ! Suc i = (t # ts) ! i" if "i < length (p # ps)" for i
  proof (cases i)
    case 0
    with v ts0 show ?thesis by (auto split: if_splits)
  next
    case (Suc j)
    with that have "j < length ps" by simp
    with ts(1) Suc show ?thesis by (simp add: load_turns_def)
  qed
  have turns: "load_turns env projectRoot skillDir meta rr (p # ps) (t # ts)"
    unfolding load_turns_def
  proof (intro conjI allI impI)
    show "length (t # ts) = Suc (length (p # ps))" using len by simp
  next
    fix i assume "i < length (p # ps)"
    then show "if resolution_trusted env projectRoot skillDir meta ((t # ts) ! i) ((p # ps) ! i)
          then seeded env rr ((t # ts) ! i) ((t # ts) ! Suc i) ((p # ps) ! i)
          else (t # ts) ! Suc i = (t # ts) ! i" by (rule step)
  qed
  have "(\<exists>i<length (p # ps).
           resolution_trusted env projectRoot skillDir meta ((t # ts) ! i) ((p # ps) ! i))
        \<longleftrightarrow> b \<or> (\<exists>i<length ps.
           resolution_trusted env projectRoot skillDir meta (ts ! i) (ps ! i))"
  proof
    assume "\<exists>i<length (p # ps).
           resolution_trusted env projectRoot skillDir meta ((t # ts) ! i) ((p # ps) ! i)"
    then obtain i where i: "i < length (p # ps)"
      "resolution_trusted env projectRoot skillDir meta ((t # ts) ! i) ((p # ps) ! i)" by blast
    show "b \<or> (\<exists>i<length ps.
           resolution_trusted env projectRoot skillDir meta (ts ! i) (ps ! i))"
    proof (cases i)
      case 0
      with i v show ?thesis by simp
    next
      case (Suc j)
      with i have "j < length ps"
        "resolution_trusted env projectRoot skillDir meta (ts ! j) (ps ! j)" by simp_all
      then show ?thesis by blast
    qed
  next
    assume "b \<or> (\<exists>i<length ps.
           resolution_trusted env projectRoot skillDir meta (ts ! i) (ps ! i))"
    then show "\<exists>i<length (p # ps).
           resolution_trusted env projectRoot skillDir meta ((t # ts) ! i) ((p # ps) ! i)"
    proof
      assume b
      with v have "0 < length (p # ps)
        \<and> resolution_trusted env projectRoot skillDir meta ((t # ts) ! 0) ((p # ps) ! 0)"
        by simp
      then show ?thesis by blast
    next
      assume "\<exists>i<length ps.
           resolution_trusted env projectRoot skillDir meta (ts ! i) (ps ! i)"
      then obtain j where "j < length ps"
        "resolution_trusted env projectRoot skillDir meta (ts ! j) (ps ! j)" by blast
      then have "Suc j < length (p # ps)
        \<and> resolution_trusted env projectRoot skillDir meta ((t # ts) ! Suc j) ((p # ps) ! Suc j)"
        by simp
      then show ?thesis by blast
    qed
  qed
  with flag have fl: "r \<longleftrightarrow> a \<or> (\<exists>i<length (p # ps).
           resolution_trusted env projectRoot skillDir meta ((t # ts) ! i) ((p # ps) ! i))"
    by blast
  from ne ts(3) have "last (t # ts) = t'" by simp
  with turns fl show ?case by (intro exI[of _ "t # ts"]) simp
qed


text \<open>
  C10. What \<open>loadResolutions\<close> does where \<open>git rev-parse --git-dir\<close> fails in
  \<open>projectRoot\<close>: it leaves the filesystem as it was, whatever the resolution
  directory holds, and it returns false, but for one case. Where a resolution directory
  is found whose meta document parses to \<open>null\<close> (an empty \<open>meta.yaml\<close>), the read of
  \<open>meta.input_hashes\<close>, which comes before the call of \<open>git\<close> and outside the \<open>try\<close>
  around the parse, throws a \<open>TypeError\<close>, and the call does not return false.
\<close>

theorem loadResolutions_requires_git:
  assumes "gitRevParseGitDir env t projectRoot = None"
  shows "loadResolutions env skills projectRoot skillDir t =
           (if meta_is_null env t skills projectRoot then Inl null_meta_error else Inr False, t)"
proof -
  from assms have g: "gitDirOf env t projectRoot = None" by (simp add: gitDirOf_def)
  show ?thesis
  proof (cases "findResolutionDir t skills projectRoot")
    case None
    then show ?thesis by (simp add: loadResolutions_def meta_is_null_def)
  next
    case (Some resDir)
    show ?thesis
    proof (cases "existsSync t (path_join resDir ''meta.yaml'')")
      case False
      then have "\<forall>c. readTextSync env t (path_join resDir ''meta.yaml'') \<noteq> Inr c"
        using readTextSync_exists by blast
      with Some False show ?thesis
        by (simp add: loadResolutions_def meta_is_null_def Let_def split: sum.splits)
    next
      case True
      then obtain es where "readdirSync t resDir = Inr es"
        using exists_child_readdir[of t resDir "''meta.yaml''"] by (auto simp: path_join_meta)
      with Some True g show ?thesis
        by (simp add: loadResolutions_def meta_is_null_def Let_def
            split: sum.splits option.splits)
    qed
  qed
qed

theorem loadResolutions_requires_git_witness:
  "gitRevParseGitDir env0 (cache_tree [] False) [''proj''] = None
   \<and> findResolutionDir (cache_tree [] False) [''b'', ''a''] [''proj'']
       = Some [''proj'', ''.gemini'', ''resolutions'', ''a+b'']
   \<and> readTextSync env0 (cache_tree [] False)
        [''proj'', ''.gemini'', ''resolutions'', ''a+b'', ''meta.yaml''] = Inr []
   \<and> loadResolutions env0 [''b'', ''a''] [''proj''] (Some [''proj'', ''pkg-b''])
        (cache_tree [] False) = (Inl null_meta_error, cache_tree [] False)
   \<and> gitRevParseGitDir env0 (cache_tree ''meta+'' False) [''proj''] = None
   \<and> resolution_trusted env0 [''proj''] [''proj'', ''pkg-b''] meta_ok
        (cache_tree ''meta+'' False) pair0
   \<and> loadResolutions env0 [''b'', ''a''] [''proj''] (Some [''proj'', ''pkg-b''])
        (cache_tree ''meta+'' False) = (Inr False, cache_tree ''meta+'' False)"
proof -
  have h: "gitRevParseGitDir env0 (cache_tree [] False) [''proj''] = None" by code_simp
  have f: "findResolutionDir (cache_tree [] False) [''b'', ''a''] [''proj'']
       = Some [''proj'', ''.gemini'', ''resolutions'', ''a+b'']" by code_simp
  have rd: "readTextSync env0 (cache_tree [] False)
        [''proj'', ''.gemini'', ''resolutions'', ''a+b'', ''meta.yaml''] = Inr []" by code_simp
  have n: "meta_is_null env0 (cache_tree [] False) [''b'', ''a''] [''proj'']" by code_simp
  have h': "gitRevParseGitDir env0 (cache_tree ''meta+'' False) [''proj''] = None" by code_simp
  have n': "\<not> meta_is_null env0 (cache_tree ''meta+'' False) [''b'', ''a''] [''proj'']"
    by code_simp
  have r: "resolution_trusted env0 [''proj''] [''proj'', ''pkg-b''] meta_ok
        (cache_tree ''meta+'' False) pair0" by code_simp
  from loadResolutions_requires_git[OF h, of "[''b'', ''a'']" "Some [''proj'', ''pkg-b'']"]
    loadResolutions_requires_git[OF h', of "[''b'', ''a'']" "Some [''proj'', ''pkg-b'']"]
    h f rd n h' n' r
  show ?thesis by simp
qed

text \<open>
  C2, the claim as it is stated, fails in four installations. In each the project has a
  resolution directory whose meta document parses, and a pair whose three hashes match
  the files present and whose sidecar token is not empty. In the first the meta
  document has no \<open>input_hashes\<close>: nothing is loaded and the result is false. In the
  second the project is not a git repository: again nothing is loaded. In the third
  \<open>.git/rr-cache\<close> is a regular file: creating the entry throws, so the pair is not
  loaded and the call returns nothing. In the fourth the pair called \<open>preimage\<close> has no
  working file when the call starts, so its checks fail on the files the call is given;
  the pair before it is loaded under the token \<open>../..\<close>, which writes the file
  \<open>preimage\<close> at the project root, and at its turn the second pair passes its checks
  and is loaded.
\<close>

theorem loadResolutions_gates_counterexample:
  "(findResolutionDir (cache_tree ''meta'' True) [''b'', ''a''] [''proj'']
      = Some [''proj'', ''.gemini'', ''resolutions'', ''a+b'']
    \<and> resolution_trusted env0 [''proj''] [''proj'', ''pkg-b'']
         (meta_ok\<lparr>input_hashes := None\<rparr>) (cache_tree ''meta'' True) pair0
    \<and> gitDirOf env0 (cache_tree ''meta'' True) [''proj''] = Some [''proj'', ''.git'']
    \<and> loadResolutions env0 [''b'', ''a''] [''proj''] (Some [''proj'', ''pkg-b''])
         (cache_tree ''meta'' True) = (Inr False, cache_tree ''meta'' True))
   \<and> (findResolutionDir (cache_tree ''meta+'' False) [''b'', ''a''] [''proj'']
      = Some [''proj'', ''.gemini'', ''resolutions'', ''a+b'']
    \<and> resolution_trusted env0 [''proj''] [''proj'', ''pkg-b''] meta_ok
         (cache_tree ''meta+'' False) pair0
    \<and> gitDirOf env0 (cache_tree ''meta+'' False) [''proj''] = None
    \<and> loadResolutions env0 [''b'', ''a''] [''proj''] (Some [''proj'', ''pkg-b''])
         (cache_tree ''meta+'' False) = (Inr False, cache_tree ''meta+'' False))
   \<and> (gitDirOf env0 (two_pairs [(''rr-cache'', File [])]) [''proj'']
      = Some [''proj'', ''.git'']
    \<and> resolution_trusted env0 [''proj''] [''proj'', ''pkg-b''] meta_ok
         (two_pairs [(''rr-cache'', File [])]) pair0
    \<and> loadResolutions env0 [''b'', ''a''] [''proj''] (Some [''proj'', ''pkg-b''])
         (two_pairs [(''rr-cache'', File [])])
       = (Inl ''ENOTDIR'', two_pairs [(''rr-cache'', File [])]))
   \<and> (gitDirOf env0 (alias_tree [] []) [''proj''] = Some [''proj'', ''.git'']
    \<and> \<not> resolution_trusted env0 [''proj''] [''proj'', ''pkg-b''] meta_alias
           (alias_tree [] []) pair_alias
    \<and> loadResolutions env0 [''b'', ''a''] [''proj''] (Some [''proj'', ''pkg-b''])
         (alias_tree [] [])
       = (Inr True,
          alias_tree [(''preimage'', File ''PRE''), (''postimage'', File ''POST'')]
            [(''rr-cache'', Dir [(''h2'', Dir [(''preimage'', File ''PRE2''),
                                               (''postimage'', File ''POST2'')])])])
    \<and> rr_entry_holds env0 [''proj'', ''.git'', ''rr-cache''] (alias_tree [] [])
         (alias_tree [(''preimage'', File ''PRE''), (''postimage'', File ''POST'')]
            [(''rr-cache'', Dir [(''h2'', Dir [(''preimage'', File ''PRE2''),
                                               (''postimage'', File ''POST2'')])])])
         pair_alias)"
  by code_simp

text \<open>
  C2, as amended. Take a call of \<open>loadResolutions\<close> that finds a resolution directory
  whose meta document parses and has a truthy \<open>input_hashes\<close>, in a project where
  \<open>git rev-parse --git-dir\<close> succeeds, and that returns (no exception ends it). The
  pairs of the directory are taken in order, from the tree the call is given to the tree
  it leaves. A pair is seeded at its turn, on the files as they are then, if and only if
  its three input files exist, the three hashes the meta document records for it equal
  the SHA-256 of those files, and its sidecar token is not empty once trimmed: then the
  rr-cache entry under its token holds the text of its preimage and of its resolution,
  and no other file changes. A pair that fails a check leaves the filesystem as it is,
  and the pairs after it still get their turn. The result is true exactly when at least
  one pair was seeded.
\<close>

theorem loadResolutions_loads_trusted_pairs:
  assumes found: "findResolutionDir t skills projectRoot = Some resDir"
    and rd: "readTextSync env t (path_join resDir ''meta.yaml'') = Inr txt"
    and parsed: "parseYaml env txt = Inr (Some meta)"
    and ih: "input_hashes meta \<noteq> None"
    and listed: "readdirSync t resDir = Inr es"
    and git: "gitDirOf env t projectRoot = Some gitDir"
    and ret: "loadResolutions env skills projectRoot (Some skillDir) t = (Inr loaded, t')"
  shows "\<exists>ts. load_turns env projectRoot skillDir meta (path_join gitDir ''rr-cache'')
                 (findPreimagePairs t resDir resDir es) ts
            \<and> hd ts = t \<and> last ts = t'
            \<and> (loaded \<longleftrightarrow>
                 (\<exists>i<length (findPreimagePairs t resDir resDir es).
                    resolution_trusted env projectRoot skillDir meta (ts ! i)
                      (findPreimagePairs t resDir resDir es ! i)))"
proof -
  let ?rr = "path_join gitDir ''rr-cache''"
  let ?pairs = "findPreimagePairs t resDir resDir es"
  from rd have ex: "existsSync t (path_join resDir ''meta.yaml'')"
    by (rule readTextSync_exists)
  have run: "load_loop env projectRoot (Some skillDir) meta ?rr ?pairs False t = (Inr loaded, t')"
  proof (cases "?pairs = []")
    case True
    with ret found ex rd parsed ih listed show ?thesis
      by (simp add: loadResolutions_def Let_def)
  next
    case False
    with ret found ex rd parsed ih listed git show ?thesis
      by (simp add: loadResolutions_def Let_def)
  qed
  from load_loop_turns[OF run] show ?thesis by simp
qed

theorem loadResolutions_loads_trusted_pairs_witness:
  "findResolutionDir (two_pairs []) [''b'', ''a''] [''proj'']
     = Some [''proj'', ''.gemini'', ''resolutions'', ''a+b'']
   \<and> parseYaml env0 ''meta+'' = Inr (Some meta_ok)
   \<and> gitDirOf env0 (two_pairs []) [''proj''] = Some [''proj'', ''.git'']
   \<and> loadResolutions env0 [''b'', ''a''] [''proj''] (Some [''proj'', ''pkg-b'']) (two_pairs [])
       = (Inr True,
          two_pairs [(''rr-cache'', Dir [(''h1'', Dir [(''preimage'', File ''PRE''),
                                                      (''postimage'', File ''POST'')])])])
   \<and> \<not> resolution_trusted env0 [''proj''] [''proj'', ''pkg-b''] meta_ok (two_pairs []) pair_g
   \<and> resolution_trusted env0 [''proj''] [''proj'', ''pkg-b''] meta_ok (two_pairs []) pair0
   \<and> sidecar_token env0 (two_pairs []) pair0 = ''h1''
   \<and> seeded env0 [''proj'', ''.git'', ''rr-cache''] (two_pairs [])
        (two_pairs [(''rr-cache'', Dir [(''h1'', Dir [(''preimage'', File ''PRE''),
                                                    (''postimage'', File ''POST'')])])])
        pair0"
proof -
  let ?t = "two_pairs []"
  let ?t' = "two_pairs [(''rr-cache'', Dir [(''h1'', Dir [(''preimage'', File ''PRE''),
                                                        (''postimage'', File ''POST'')])])]"
  let ?res = "[''proj'', ''.gemini'', ''resolutions'', ''a+b'']"
  let ?es = "[(''meta.yaml'', File ''meta+''),
              (''g.preimage'', File ''GPRE''),
              (''g.preimage.hash'', File ''h0''),
              (''g.resolution'', File ''GPOST''),
              (''f.preimage'', File ''PRE''),
              (''f.preimage.hash'',
                 File ([CHR 0xEF, CHR 0xBB, CHR 0xBF] @ ''h1'' @ [CHR 0xC2, CHR 0xA0, CHR 0x0A])),
              (''f.resolution'', File ''POST'')]"
  have h1: "findResolutionDir ?t [''b'', ''a''] [''proj''] = Some ?res" by code_simp
  have h2: "readTextSync env0 ?t (path_join ?res ''meta.yaml'') = Inr ''meta+''" by code_simp
  have h3: "parseYaml env0 ''meta+'' = Inr (Some meta_ok)" by (simp add: env0_def)
  have h4: "input_hashes meta_ok \<noteq> None" by (simp add: meta_ok_def)
  have h5: "readdirSync ?t ?res = Inr ?es" by code_simp
  have h6: "gitDirOf env0 ?t [''proj''] = Some [''proj'', ''.git'']" by code_simp
  have h7: "loadResolutions env0 [''b'', ''a''] [''proj''] (Some [''proj'', ''pkg-b'']) ?t
              = (Inr True, ?t')" by code_simp
  have ps: "findPreimagePairs ?t ?res ?res ?es = [pair_g, pair0]" by code_simp
  have rr: "path_join [''proj'', ''.git''] ''rr-cache'' = [''proj'', ''.git'', ''rr-cache'']"
    by code_simp
  have stale: "\<not> resolution_trusted env0 [''proj''] [''proj'', ''pkg-b''] meta_ok ?t pair_g"
    by code_simp
  have fresh: "resolution_trusted env0 [''proj''] [''proj'', ''pkg-b''] meta_ok ?t pair0"
    by code_simp
  have tok: "sidecar_token env0 ?t pair0 = ''h1''" by code_simp
  from loadResolutions_loads_trusted_pairs[OF h1 h2 h3 h4 h5 h6 h7]
  obtain ts where turns: "load_turns env0 [''proj''] [''proj'', ''pkg-b''] meta_ok
                     [''proj'', ''.git'', ''rr-cache''] [pair_g, pair0] ts"
    and ends: "hd ts = ?t" "last ts = ?t'"
    unfolding ps rr by blast
  from turns have len: "length ts = 3" by (simp add: load_turns_def)
  then obtain a b c where ts: "ts = [a, b, c]"
    by (cases ts; cases "tl ts"; cases "tl (tl ts)") auto
  with ends have ac: "a = ?t" "c = ?t'" by simp_all
  from turns ts have
    0: "if resolution_trusted env0 [''proj''] [''proj'', ''pkg-b''] meta_ok a pair_g
        then seeded env0 [''proj'', ''.git'', ''rr-cache''] a b pair_g else b = a"
    and 1: "if resolution_trusted env0 [''proj''] [''proj'', ''pkg-b''] meta_ok b pair0
        then seeded env0 [''proj'', ''.git'', ''rr-cache''] b c pair0 else c = b"
    unfolding load_turns_def by (auto dest: spec[of _ 0] spec[of _ 1])
  from 0 stale ac have "b = ?t" by simp
  with 1 fresh ac have "seeded env0 [''proj'', ''.git'', ''rr-cache''] ?t ?t' pair0" by simp
  with h1 h3 h6 h7 stale fresh tok show ?thesis by simp
qed

section \<open>Properties of replay.ts\<close>

lemma io_bind_Inr:
  "io_bind m f s = (Inr r, s') \<longleftrightarrow> (\<exists>a s1. m s = (Inr a, s1) \<and> f a s1 = (Inr r, s'))"
  by (cases "m s"; cases "fst (m s)") (auto simp: io_bind_def)

lemma io_then_Inr:
  "io_then m k s = (Inr r, s') \<longleftrightarrow> (\<exists>s1. m s = (Inr (), s1) \<and> k s1 = (Inr r, s'))"
  by (simp add: io_then_def io_bind_Inr)

lemma fs_call_Inr: "fs_call f t = (Inr u, t') \<longleftrightarrow> f t = Inr t'"
  by (cases "f t") (auto simp: fs_call_def)

lemma io_return_Inr: "io_return x s = (Inr r, s') \<longleftrightarrow> r = x \<and> s' = s"
  by (auto simp: io_return_def)

lemma io_read_Inr: "io_read f s = (Inr r, s') \<longleftrightarrow> f s = Inr r \<and> s' = s"
  by (cases "f s") (auto simp: io_read_def)

lemma set_foldl_set_add: "set (foldl set_add acc xs) = set acc \<union> set xs"
  by (induction xs arbitrary: acc) (auto simp: set_add_def)

lemma collectTouched_union:
  "collectTouched env t skillDirs skills acc = Touched files \<Longrightarrow>
     set files = set acc \<union> (\<Union>s\<in>set skills. set (skill_paths env t skillDirs s))"
proof (induction skills arbitrary: acc)
  case Nil
  then show ?case by simp
next
  case (Cons s skills)
  then show ?case
    by (auto simp: skill_paths_def set_foldl_set_add split: option.splits sum.splits)
qed

lemma collectTouched_missing:
  "\<exists>s\<in>set skills. skillDirs s = None \<Longrightarrow>
     collectTouched env t skillDirs skills acc \<noteq> Touched files"
  by (induction skills arbitrary: acc) (auto split: option.splits sum.splits)

lemma collectTouched_first_missing:
  assumes "skillDirs nm = None"
    and "\<forall>s\<in>set pre. \<exists>d m. skillDirs s = Some d \<and> readManifest env t d = Inr m"
  shows "collectTouched env t skillDirs (pre @ nm # post) acc = MissingDir nm"
  using assms
  by (induction pre arbitrary: acc) (auto split: option.splits sum.splits)

lemma collectTouched_names_missing:
  "collectTouched env t skillDirs skills acc = MissingDir nm \<Longrightarrow>
     nm \<in> set skills \<and> skillDirs nm = None"
  by (induction skills arbitrary: acc) (auto split: option.splits sum.splits)

lemma reset_file_fileAt:
  assumes "reset_file env projectRoot f t = (Inr u, t1)"
  shows "fileAt t1 x = (if x = currentPathOf env projectRoot f
                        then fileAt t (basePathOf env projectRoot f) else fileAt t x)"
proof (cases "existsSync t (basePathOf env projectRoot f)")
  case True
  with assms have "io_then (fs_call (mkdirSync (dirname (currentPathOf env projectRoot f))))
      (fs_call (copyFileSync (basePathOf env projectRoot f) (currentPathOf env projectRoot f))) t
      = (Inr u, t1)"
    by (simp add: reset_file_def Let_def)
  then obtain tm where
    mk: "mkdirSync (dirname (currentPathOf env projectRoot f)) t = Inr tm"
    and cp: "copyFileSync (basePathOf env projectRoot f) (currentPathOf env projectRoot f) tm = Inr t1"
    by (auto simp: io_then_Inr fs_call_Inr)
  from fileAt_copyFileSync(1)[OF cp] fileAt_mkdirSync[OF mk] show ?thesis by simp
next
  case False
  then have nb: "fileAt t (basePathOf env projectRoot f) = None"
    by (simp add: existsSync_def fileAt_def)
  show ?thesis
  proof (cases "existsSync t (currentPathOf env projectRoot f)")
    case True
    with False assms have "fs_call (unlinkSync (currentPathOf env projectRoot f)) t = (Inr u, t1)"
      by (simp add: reset_file_def Let_def)
    then have "unlinkSync (currentPathOf env projectRoot f) t = Inr t1"
      by (simp add: fs_call_Inr)
    from fileAt_unlinkSync[OF this] nb show ?thesis by simp
  next
    case nc: False
    then have "fileAt t (currentPathOf env projectRoot f) = None"
      by (simp add: existsSync_def fileAt_def)
    moreover from False nc assms have "t1 = t" by (simp add: reset_file_def Let_def)
    ultimately show ?thesis using nb by simp
  qed
qed


lemma base_apart_Cons: "base_apart env projectRoot (f # files) \<Longrightarrow> base_apart env projectRoot files"
  unfolding base_apart_def by (meson list.set_intros(2))

lemma base_apartD1:
  "base_apart env projectRoot files \<Longrightarrow> p \<in> set files \<Longrightarrow> q \<in> set files \<Longrightarrow>
     basePathOf env projectRoot q \<noteq> currentPathOf env projectRoot p"
  unfolding base_apart_def by blast

lemma base_apartD2:
  "base_apart env projectRoot files \<Longrightarrow> p \<in> set files \<Longrightarrow> q \<in> set files \<Longrightarrow>
     currentPathOf env projectRoot p = currentPathOf env projectRoot q \<Longrightarrow>
     basePathOf env projectRoot p = basePathOf env projectRoot q"
  unfolding base_apart_def by blast

lemma resetTouched_fileAt:
  assumes "resetTouched env projectRoot files t = (Inr u, t')"
    and "base_apart env projectRoot files"
  shows "(\<forall>p\<in>set files. fileAt t' (currentPathOf env projectRoot p)
                          = fileAt t (basePathOf env projectRoot p))
       \<and> (\<forall>x. x \<notin> currentPathOf env projectRoot ` set files \<longrightarrow> fileAt t' x = fileAt t x)"
  using assms
proof (induction files arbitrary: t)
  case Nil
  then show ?case by simp
next
  case (Cons f files)
  from Cons.prems(1) obtain t1 where
    one: "reset_file env projectRoot f t = (Inr (), t1)"
    and rest: "resetTouched env projectRoot files t1 = (Inr u, t')"
    unfolding resetTouched.simps io_then_Inr by blast
  note ap = Cons.prems(2)
  note ih = Cons.IH[OF rest base_apart_Cons[OF ap]]
  note ih1 = ih[THEN conjunct1, rule_format]
  note ih2 = ih[THEN conjunct2, rule_format]
  note step = reset_file_fileAt[OF one]
  have base_kept: "fileAt t1 (basePathOf env projectRoot q) = fileAt t (basePathOf env projectRoot q)"
    if "q \<in> set (f # files)" for q
  proof -
    from base_apartD1[OF ap _ that, where p = f]
    have "basePathOf env projectRoot q \<noteq> currentPathOf env projectRoot f" by simp
    with step show ?thesis by simp
  qed
  have part1: "fileAt t' (currentPathOf env projectRoot p) = fileAt t (basePathOf env projectRoot p)"
    if p: "p \<in> set (f # files)" for p
  proof (cases "currentPathOf env projectRoot p \<in> currentPathOf env projectRoot ` set files")
    case True
    then obtain q where q: "q \<in> set files"
      "currentPathOf env projectRoot q = currentPathOf env projectRoot p" by auto
    from q(1) have q': "q \<in> set (f # files)" by simp
    from base_apartD2[OF ap q' p q(2)]
    have eq: "basePathOf env projectRoot q = basePathOf env projectRoot p" .
    from ih1[OF q(1)] have "fileAt t' (currentPathOf env projectRoot q)
                        = fileAt t1 (basePathOf env projectRoot q)" .
    with q(2) eq base_kept[OF q'] show ?thesis by simp
  next
    case False
    with p have pf: "p = f" by auto
    from ih2[OF False] have "fileAt t' (currentPathOf env projectRoot p)
                         = fileAt t1 (currentPathOf env projectRoot p)" .
    with step pf show ?thesis by simp
  qed
  have part2: "fileAt t' x = fileAt t x"
    if x: "x \<notin> currentPathOf env projectRoot ` set (f # files)" for x
  proof -
    from x have a: "x \<notin> currentPathOf env projectRoot ` set files"
      and b: "x \<noteq> currentPathOf env projectRoot f" by auto
    from ih2[OF a] step b show ?thesis by simp
  qed
  show ?case
  proof (intro conjI ballI allI impI)
    fix p assume "p \<in> set (f # files)"
    then show "fileAt t' (currentPathOf env projectRoot p)
                 = fileAt t (basePathOf env projectRoot p)" by (rule part1)
  next
    fix x assume "x \<notin> currentPathOf env projectRoot ` set (f # files)"
    then show "fileAt t' x = fileAt t x" by (rule part2)
  qed
qed

lemma apply_skill_conflicts_nonempty:
  assumes "apply_skill env projectRoot d t = (Inr (SkillConflicts cs), t')"
  shows "cs \<noteq> []"
proof (cases d)
  case None
  with assms show ?thesis by (simp add: apply_skill_def io_throw_def)
next
  case (Some skillDir)
  with assms show ?thesis
    unfolding apply_skill_def
    by (auto simp: io_bind_Inr io_then_Inr io_return_Inr split: if_splits)
qed

lemma replay_loop_prefix:
  assumes "replay_loop env projectRoot skillDirs pre ps0 [] ops0 t = (LoopEnded ps [] ops, t3)"
  shows "replay_loop env projectRoot skillDirs (pre @ rest) ps0 [] ops0 t
           = replay_loop env projectRoot skillDirs rest ps [] ops t3
       \<and> ps = (\<lambda>s. if s \<in> set pre then Some \<lparr> ok = True, err = None \<rparr> else ps0 s)"
  using assms
proof (induction pre arbitrary: ps0 ops0 t)
  case Nil
  then show ?case by simp
next
  case (Cons x xs)
  obtain r t1 where ap: "apply_skill env projectRoot (skillDirs x) t = (r, t1)"
    by (cases "apply_skill env projectRoot (skillDirs x) t") auto
  show ?case
  proof (cases r)
    case (Inl e)
    with ap Cons.prems show ?thesis by simp
  next
    case (Inr outcome)
    show ?thesis
    proof (cases outcome)
      case (SkillApplied manifest)
      with ap Inr Cons.prems have
        rec: "replay_loop env projectRoot skillDirs xs
                (ps0(x \<mapsto> \<lparr> ok = True, err = None \<rparr>)) []
                (collect_structured manifest ops0) t1 = (LoopEnded ps [] ops, t3)"
        by simp
      from Cons.IH[OF rec] have
        ih1: "replay_loop env projectRoot skillDirs (xs @ rest)
                (ps0(x \<mapsto> \<lparr> ok = True, err = None \<rparr>)) []
                (collect_structured manifest ops0) t1
              = replay_loop env projectRoot skillDirs rest ps [] ops t3"
        and ih2: "ps = (\<lambda>s. if s \<in> set xs then Some \<lparr> ok = True, err = None \<rparr>
                            else (ps0(x \<mapsto> \<lparr> ok = True, err = None \<rparr>)) s)"
        by blast+
      from ih1 ap Inr SkillApplied have
        "replay_loop env projectRoot skillDirs ((x # xs) @ rest) ps0 [] ops0 t
           = replay_loop env projectRoot skillDirs rest ps [] ops t3" by simp
      moreover from ih2 have
        "ps = (\<lambda>s. if s \<in> set (x # xs) then Some \<lparr> ok = True, err = None \<rparr> else ps0 s)"
        by (auto simp: fun_eq_iff)
      ultimately show ?thesis by blast
    next
      case (SkillConflicts cs)
      with ap Inr apply_skill_conflicts_nonempty[of env projectRoot "skillDirs x" t cs t1]
      have "cs \<noteq> []" by simp
      with ap Inr SkillConflicts Cons.prems show ?thesis by simp
    next
      case (FileOpsFailed errors)
      with ap Inr Cons.prems show ?thesis by simp
    qed
  qed
qed

lemma replaySkills_after_reset:
  assumes "collectTouched env (tree w) skillDirs skills [] = Touched files"
    and "resetTouched env projectRoot files (tree w) = (Inr (), t1)"
  shows "replaySkills env skills skillDirs projectRoot w
           = replay_from_base env skills skillDirs projectRoot (w\<lparr>tree := t1\<rparr>)"
proof -
  have "on_tree (resetTouched env projectRoot files) w = (Inr (), w\<lparr>tree := t1\<rparr>)"
    using assms(2) by (simp add: on_tree_def)
  then show ?thesis
    using assms(1) by (simp add: replaySkills_def io_then_def io_bind_def)
qed

lemma replay_from_base_eq:
  assumes "loadResolutions env skills projectRoot
             (if skills \<noteq> [] then skillDirs (last skills) else None) (tree w1) = (Inr b, t2)"
    and "replay_loop env projectRoot skillDirs skills Map.empty [] no_structured_ops t2
           = (ended, t3)"
  shows "replay_from_base env skills skillDirs projectRoot w1
           = finish_replay env projectRoot ended (w1\<lparr>tree := t3\<rparr>)"
  using assms
  by (simp add: replay_from_base_def io_then_def io_bind_def on_tree_def io_return_def)

text \<open>
  C9, as amended. Where some skill of the list has no entry in \<open>skillDirs\<close>,
  \<open>replaySkills\<close> ends in the collection step, before the reset: the world it leaves is
  the world it was given, so no file is created, modified or deleted; and whenever it
  returns a result, the result is a failure without conflicts whose error names a
  skill of the list that has no entry. It does return, naming the first such skill,
  where the manifest of every skill listed before that one can be read.
\<close>

theorem replaySkills_missing_dir:
  "((\<exists>s\<in>set skills. skillDirs s = None) \<longrightarrow>
      snd (replaySkills env skills skillDirs projectRoot w) = w
    \<and> (\<forall>r. fst (replaySkills env skills skillDirs projectRoot w) = Inr r \<longrightarrow>
          \<not> success r \<and> mergeConflicts r = None
        \<and> (\<exists>nm\<in>set skills. skillDirs nm = None
              \<and> error r = Some (''Missing skill directory for: '' @ nm)
              \<and> perSkill r = [nm \<mapsto> \<lparr> ok = False,
                    err = Some (''Skill directory not found for: '' @ nm) \<rparr>])))
   \<and> (skills = pre @ nm # post \<and> skillDirs nm = None
      \<and> (\<forall>s\<in>set pre. \<exists>d m. skillDirs s = Some d \<and> readManifest env (tree w) d = Inr m)
      \<longrightarrow> replaySkills env skills skillDirs projectRoot w =
            (Inr \<lparr> success = False,
                   perSkill = [nm \<mapsto> \<lparr> ok = False,
                     err = Some (''Skill directory not found for: '' @ nm) \<rparr>],
                   mergeConflicts = None,
                   error = Some (''Missing skill directory for: '' @ nm) \<rparr>, w))"
proof (intro conjI impI)
  assume m: "\<exists>s\<in>set skills. skillDirs s = None"
  show "snd (replaySkills env skills skillDirs projectRoot w) = w"
    using collectTouched_missing[OF m, of env "tree w" "[]"]
    by (auto simp: replaySkills_def split: collected.splits)
  show "\<forall>r. fst (replaySkills env skills skillDirs projectRoot w) = Inr r \<longrightarrow>
          \<not> success r \<and> mergeConflicts r = None
        \<and> (\<exists>nm\<in>set skills. skillDirs nm = None
              \<and> error r = Some (''Missing skill directory for: '' @ nm)
              \<and> perSkill r = [nm \<mapsto> \<lparr> ok = False,
                    err = Some (''Skill directory not found for: '' @ nm) \<rparr>])"
    using collectTouched_missing[OF m, of env "tree w" "[]"]
      collectTouched_names_missing[of env "tree w" skillDirs skills "[]"]
    by (auto simp: replaySkills_def split: collected.splits)
next
  assume "skills = pre @ nm # post \<and> skillDirs nm = None
      \<and> (\<forall>s\<in>set pre. \<exists>d m. skillDirs s = Some d \<and> readManifest env (tree w) d = Inr m)"
  then show "replaySkills env skills skillDirs projectRoot w =
            (Inr \<lparr> success = False,
                   perSkill = [nm \<mapsto> \<lparr> ok = False,
                     err = Some (''Skill directory not found for: '' @ nm) \<rparr>],
                   mergeConflicts = None,
                   error = Some (''Missing skill directory for: '' @ nm) \<rparr>, w)"
    using collectTouched_first_missing[of skillDirs nm pre env "tree w" post "[]"]
    by (simp add: replaySkills_def)
qed

theorem replaySkills_missing_dir_witness:
  "dirs_c ''b'' = None
   \<and> dirs_c ''c'' = Some [''proj'', ''pkg-c'']
   \<and> (\<exists>m. readManifest env0 (tree w0) [''proj'', ''pkg-c''] = Inr m)
   \<and> replaySkills env0 [''c'', ''b''] dirs_c [''proj''] w0 =
        (Inr \<lparr> success = False,
               perSkill = [''b'' \<mapsto> \<lparr> ok = False,
                 err = Some ''Skill directory not found for: b'' \<rparr>],
               mergeConflicts = None,
               error = Some ''Missing skill directory for: b'' \<rparr>, w0)"
proof -
  have h1: "dirs_c ''b'' = None" by (simp add: dirs_c_def)
  have dc: "dirs_c ''c'' = Some [''proj'', ''pkg-c'']" by (simp add: dirs_c_def)
  have "readManifest env0 (tree w0) [''proj'', ''pkg-c''] = manifests0 ''C''"
    by (simp add: env0_def w0_def replay_tree_def fileAt_def)
  then have rm: "\<exists>m. readManifest env0 (tree w0) [''proj'', ''pkg-c''] = Inr m"
    by (simp add: manifests0_def)
  from dc rm
  have h2: "\<forall>s\<in>set [''c'']. \<exists>d m. dirs_c s = Some d \<and> readManifest env0 (tree w0) d = Inr m"
    by simp
  note t = replaySkills_missing_dir[of "[''c''] @ ''b'' # []" dirs_c env0 "[''proj'']" w0
      "[''c'']" "''b''" "[]", THEN conjunct2, rule_format]
  from t[OF conjI[OF refl conjI[OF h1 h2]]]
  have "replaySkills env0 [''c'', ''b''] dirs_c [''proj''] w0 =
        (Inr \<lparr> success = False,
               perSkill = [''b'' \<mapsto> \<lparr> ok = False,
                 err = Some ''Skill directory not found for: b'' \<rparr>],
               mergeConflicts = None,
               error = Some ''Missing skill directory for: b'' \<rparr>, w0)" by simp
  with h1 dc rm show ?thesis by blast
qed

text \<open>
  C9, the claim as it is stated, fails where the manifest of an earlier skill cannot be
  read: with \<open>bad\<close> before \<open>b\<close> in the list, \<open>b\<close> without an entry and the manifest of
  \<open>bad\<close> invalid, \<open>replaySkills\<close> returns no result; the promise rejects with the
  exception \<open>readManifest\<close> throws (the world is left as it was all the same).
\<close>

theorem replaySkills_missing_dir_counterexample:
  "dirs_bad ''b'' = None
   \<and> (case replaySkills env0 [''bad'', ''b''] dirs_bad [''proj''] w0 of
        (Inl e, w') \<Rightarrow> e = ''Invalid manifest'' \<and> w' = w0
      | (Inr r, w') \<Rightarrow> False)"
  by code_simp

text \<open>
  C6. Before any skill is applied, \<open>replaySkills\<close> resets the files collected in step 1,
  which are the paths that the manifests of the skills of the list declare as \<open>adds\<close> or
  \<open>modifies\<close>. Where the reset completes, with the base snapshot lying apart from the
  files to reset: the working file of every collected path holds what the base
  snapshot holds for it, and is no file where the base snapshot has none; every other
  file is as it was; and the remaining steps run on the tree the reset leaves.
\<close>

theorem replaySkills_resets_touched_files:
  assumes "collectTouched env (tree w) skillDirs skills [] = Touched files"
    and "resetTouched env projectRoot files (tree w) = (Inr (), t')"
    and "base_apart env projectRoot files"
  shows "set files = (\<Union>s\<in>set skills. set (skill_paths env (tree w) skillDirs s))
       \<and> (\<forall>p\<in>set files. fileAt t' (currentPathOf env projectRoot p)
                            = fileAt (tree w) (basePathOf env projectRoot p))
       \<and> (\<forall>x. x \<notin> currentPathOf env projectRoot ` set files
                \<longrightarrow> fileAt t' x = fileAt (tree w) x)
       \<and> replaySkills env skills skillDirs projectRoot w
           = replay_from_base env skills skillDirs projectRoot (w\<lparr>tree := t'\<rparr>)"
proof -
  from collectTouched_union[OF assms(1)]
  have 1: "set files = (\<Union>s\<in>set skills. set (skill_paths env (tree w) skillDirs s))"
    by simp
  note 2 = resetTouched_fileAt[OF assms(2,3)]
  have "on_tree (resetTouched env projectRoot files) w = (Inr (), w\<lparr>tree := t'\<rparr>)"
    using assms(2) by (simp add: on_tree_def)
  then have 3: "replaySkills env skills skillDirs projectRoot w
           = replay_from_base env skills skillDirs projectRoot (w\<lparr>tree := t'\<rparr>)"
    using assms(1) by (simp add: replaySkills_def io_then_def io_bind_def)
  from 1 2 3 show ?thesis by simp
qed

theorem replaySkills_resets_touched_files_witness:
  "collectTouched env0 (tree w0) dirs_abc [''a'', ''b'', ''c''] []
     = Touched [''a.ts'', ''f'', ''c.ts'']
   \<and> resetTouched env0 [''proj''] [''a.ts'', ''f'', ''c.ts''] (tree w0) = (Inr (), reset_tree)
   \<and> base_apart env0 [''proj''] [''a.ts'', ''f'', ''c.ts'']
   \<and> fileAt (tree w0) [''proj'', ''f''] = Some ''drifted''
   \<and> fileAt reset_tree [''proj'', ''f''] = Some ''line1''
   \<and> fileAt (tree w0) [''proj'', ''a.ts''] = Some ''stale addition''
   \<and> fileAt reset_tree [''proj'', ''a.ts''] = None
   \<and> replaySkills env0 [''a'', ''b'', ''c''] dirs_abc [''proj''] w0
       = replay_from_base env0 [''a'', ''b'', ''c''] dirs_abc [''proj''] (w0\<lparr>tree := reset_tree\<rparr>)"
proof -
  have tw: "tree w0 = replay_tree" by (simp add: w0_def)
  have h1: "collectTouched env0 (tree w0) dirs_abc [''a'', ''b'', ''c''] []
              = Touched [''a.ts'', ''f'', ''c.ts'']" unfolding tw by code_simp
  have h2: "resetTouched env0 [''proj''] [''a.ts'', ''f'', ''c.ts''] (tree w0)
              = (Inr (), reset_tree)" unfolding tw by code_simp
  have h3: "base_apart env0 [''proj''] [''a.ts'', ''f'', ''c.ts'']" by code_simp
  have c1: "currentPathOf env0 [''proj''] ''f'' = [''proj'', ''f'']" by code_simp
  have b1: "basePathOf env0 [''proj''] ''f'' = [''proj'', ''.nanoclaw'', ''base'', ''f'']"
    by code_simp
  have c2: "currentPathOf env0 [''proj''] ''a.ts'' = [''proj'', ''a.ts'']" by code_simp
  have b2: "basePathOf env0 [''proj''] ''a.ts'' = [''proj'', ''.nanoclaw'', ''base'', ''a.ts'']"
    by code_simp
  have v1: "fileAt replay_tree [''proj'', ''.nanoclaw'', ''base'', ''f''] = Some ''line1''"
    by code_simp
  have v2: "fileAt replay_tree [''proj'', ''.nanoclaw'', ''base'', ''a.ts''] = None"
    by code_simp
  have v3: "fileAt replay_tree [''proj'', ''f''] = Some ''drifted''" by code_simp
  have v4: "fileAt replay_tree [''proj'', ''a.ts''] = Some ''stale addition''" by code_simp
  note t = replaySkills_resets_touched_files[OF h1 h2 h3]
  from t have r1: "fileAt reset_tree (currentPathOf env0 [''proj''] ''f'')
                    = fileAt (tree w0) (basePathOf env0 [''proj''] ''f'')" by simp
  from t have r2: "fileAt reset_tree (currentPathOf env0 [''proj''] ''a.ts'')
                    = fileAt (tree w0) (basePathOf env0 [''proj''] ''a.ts'')" by simp
  from t have r3: "replaySkills env0 [''a'', ''b'', ''c''] dirs_abc [''proj''] w0
       = replay_from_base env0 [''a'', ''b'', ''c''] dirs_abc [''proj''] (w0\<lparr>tree := reset_tree\<rparr>)"
    by simp
  from h1 h2 h3 r1 r2 r3 show ?thesis
    unfolding c1 b1 c2 b2 tw v1 v2 v3 v4 by simp
qed

text \<open>
  C1. Let the steps before the loop complete, let every skill before position \<open>i\<close> be
  applied without conflict, and let the application of the skill \<open>nm\<close> at position \<open>i\<close>
  end with the conflicts \<open>cs\<close>. Then \<open>cs\<close> is not empty and \<open>replaySkills\<close> returns at
  once, leaving the tree as that application left it: \<open>success\<close> is false,
  \<open>mergeConflicts\<close> is \<open>cs\<close>, \<open>perSkill\<close> records success for every skill before
  position \<open>i\<close>, failure for \<open>nm\<close>, and has no entry for any other skill, so none for a
  skill that only comes after position \<open>i\<close>.
\<close>

theorem replaySkills_stops_on_conflict:
  assumes collected: "collectTouched env (tree w) skillDirs skills [] = Touched files"
    and reset: "resetTouched env projectRoot files (tree w) = (Inr (), t1)"
    and loaded: "loadResolutions env skills projectRoot (skillDirs (last skills)) t1
                   = (Inr b, t2)"
    and position: "skills = pre @ nm # post"
    and before: "replay_loop env projectRoot skillDirs pre Map.empty [] no_structured_ops t2
                   = (LoopEnded ps [] ops, t3)"
    and conflict: "apply_skill env projectRoot (skillDirs nm) t3
                     = (Inr (SkillConflicts cs), t4)"
  shows "cs \<noteq> []
       \<and> (\<exists>r. replaySkills env skills skillDirs projectRoot w = (Inr r, w\<lparr>tree := t4\<rparr>)
            \<and> \<not> success r
            \<and> mergeConflicts r = Some cs
            \<and> (\<forall>s\<in>set pre. s \<noteq> nm \<longrightarrow> perSkill r s = Some \<lparr> ok = True, err = None \<rparr>)
            \<and> perSkill r nm = Some \<lparr> ok = False,
                 err = Some (''Merge conflicts: '' @ join_with '', '' cs) \<rparr>
            \<and> (\<forall>s. s \<notin> set pre \<and> s \<noteq> nm \<longrightarrow> perSkill r s = None))"
proof -
  from apply_skill_conflicts_nonempty[OF conflict] have ne: "cs \<noteq> []" .
  let ?r = "\<lparr> success = False,
              perSkill = ps(nm \<mapsto> \<lparr> ok = False,
                 err = Some (''Merge conflicts: '' @ join_with '', '' cs) \<rparr>),
              mergeConflicts = Some cs,
              error = Some (''Unresolved merge conflicts: '' @ join_with '', '' cs) \<rparr>"
  from replay_loop_prefix[OF before, where rest = "nm # post"]
  have loop: "replay_loop env projectRoot skillDirs (pre @ nm # post) Map.empty []
                no_structured_ops t2
              = replay_loop env projectRoot skillDirs (nm # post) ps [] ops t3"
    and ps: "ps = (\<lambda>s. if s \<in> set pre then Some \<lparr> ok = True, err = None \<rparr> else None)"
    by blast+
  from conflict have "replay_loop env projectRoot skillDirs (nm # post) ps [] ops t3
      = (LoopEnded (ps(nm \<mapsto> \<lparr> ok = False,
                 err = Some (''Merge conflicts: '' @ join_with '', '' cs) \<rparr>)) cs ops, t4)"
    by simp
  with loop position have whole:
    "replay_loop env projectRoot skillDirs skills Map.empty [] no_structured_ops t2
      = (LoopEnded (ps(nm \<mapsto> \<lparr> ok = False,
                 err = Some (''Merge conflicts: '' @ join_with '', '' cs) \<rparr>)) cs ops, t4)"
    by simp
  from position have nonempty: "skills \<noteq> []" by simp
  from loaded nonempty have
    l': "loadResolutions env skills projectRoot
           (if skills \<noteq> [] then skillDirs (last skills) else None)
           (tree (w\<lparr>tree := t1\<rparr>)) = (Inr b, t2)" by simp
  have e1: "replaySkills env skills skillDirs projectRoot w
              = replay_from_base env skills skillDirs projectRoot (w\<lparr>tree := t1\<rparr>)"
    by (rule replaySkills_after_reset[OF collected reset])
  have e2: "replay_from_base env skills skillDirs projectRoot (w\<lparr>tree := t1\<rparr>)
              = finish_replay env projectRoot
                  (LoopEnded (ps(nm \<mapsto> \<lparr> ok = False,
                     err = Some (''Merge conflicts: '' @ join_with '', '' cs) \<rparr>)) cs ops)
                  (w\<lparr>tree := t1\<rparr>\<lparr>tree := t4\<rparr>)"
    by (rule replay_from_base_eq[OF l' whole])
  have e3: "finish_replay env projectRoot
                  (LoopEnded (ps(nm \<mapsto> \<lparr> ok = False,
                     err = Some (''Merge conflicts: '' @ join_with '', '' cs) \<rparr>)) cs ops)
                  (w\<lparr>tree := t4\<rparr>) = (Inr ?r, w\<lparr>tree := t4\<rparr>)"
    using ne by (simp add: finish_replay_def io_return_def)
  have "replaySkills env skills skillDirs projectRoot w = (Inr ?r, w\<lparr>tree := t4\<rparr>)"
    using e1 e2 e3 by simp
  moreover have "\<forall>s\<in>set pre. s \<noteq> nm \<longrightarrow> perSkill ?r s = Some \<lparr> ok = True, err = None \<rparr>"
    by (simp add: ps)
  moreover have "\<forall>s. s \<notin> set pre \<and> s \<noteq> nm \<longrightarrow> perSkill ?r s = None"
    by (simp add: ps)
  ultimately show ?thesis using ne by simp
qed

theorem replaySkills_stops_on_conflict_witness:
  "apply_skill env0 [''proj''] (dirs_abc ''b'') tree_a = (Inr (SkillConflicts [''f'']), tree_ab)
   \<and> (\<exists>r. replaySkills env0 [''a'', ''b'', ''c''] dirs_abc [''proj''] w0
             = (Inr r, w0\<lparr>tree := tree_ab\<rparr>)
          \<and> \<not> success r
          \<and> mergeConflicts r = Some [''f'']
          \<and> perSkill r ''a'' = Some \<lparr> ok = True, err = None \<rparr>
          \<and> perSkill r ''b'' = Some \<lparr> ok = False, err = Some ''Merge conflicts: f'' \<rparr>
          \<and> perSkill r ''c'' = None)"
proof -
  have tw: "tree w0 = replay_tree" by (simp add: w0_def)
  have da: "dirs_abc ''a'' = Some [''proj'', ''pkg-a'']"
    and db: "dirs_abc ''b'' = Some [''proj'', ''pkg-b'']"
    and dc: "dirs_abc ''c'' = Some [''proj'', ''pkg-c'']"
    by (simp_all add: dirs_abc_def)
  have h1: "collectTouched env0 (tree w0) dirs_abc [''a'', ''b'', ''c''] []
              = Touched [''a.ts'', ''f'', ''c.ts'']" unfolding tw by code_simp
  have h2: "resetTouched env0 [''proj''] [''a.ts'', ''f'', ''c.ts''] (tree w0)
              = (Inr (), reset_tree)" unfolding tw by code_simp
  have "loadResolutions env0 [''a'', ''b'', ''c''] [''proj''] (Some [''proj'', ''pkg-c''])
          reset_tree = (Inr False, reset_tree)" by code_simp
  then have h3: "loadResolutions env0 [''a'', ''b'', ''c''] [''proj'']
              (dirs_abc (last [''a'', ''b'', ''c''])) reset_tree = (Inr False, reset_tree)"
    by (simp add: dc)
  have h4: "[''a'', ''b'', ''c''] = [''a''] @ ''b'' # [''c'']" by simp
  have ap_a: "apply_skill env0 [''proj''] (Some [''proj'', ''pkg-a'']) reset_tree
                = (Inr (SkillApplied manifest_a), tree_a)" by code_simp
  have h5: "replay_loop env0 [''proj''] dirs_abc [''a''] Map.empty [] no_structured_ops reset_tree
              = (LoopEnded (Map.empty(''a'' \<mapsto> \<lparr> ok = True, err = None \<rparr>)) []
                   (collect_structured manifest_a no_structured_ops), tree_a)"
    by (simp add: da ap_a)
  have ap_b: "apply_skill env0 [''proj''] (Some [''proj'', ''pkg-b'']) tree_a
                = (Inr (SkillConflicts [''f'']), tree_ab)" by code_simp
  then have h6: "apply_skill env0 [''proj''] (dirs_abc ''b'') tree_a
                = (Inr (SkillConflicts [''f'']), tree_ab)" by (simp add: db)
  from replaySkills_stops_on_conflict[OF h1 h2 h3 h4 h5 h6] obtain r where
    r: "replaySkills env0 [''a'', ''b'', ''c''] dirs_abc [''proj''] w0
          = (Inr r, w0\<lparr>tree := tree_ab\<rparr>)"
    "\<not> success r" "mergeConflicts r = Some [''f'']"
    "\<forall>s\<in>set [''a'']. s \<noteq> ''b'' \<longrightarrow> perSkill r s = Some \<lparr> ok = True, err = None \<rparr>"
    "perSkill r ''b'' = Some \<lparr> ok = False,
       err = Some (''Merge conflicts: '' @ join_with '', '' [''f'']) \<rparr>"
    "\<forall>s. s \<notin> set [''a''] \<and> s \<noteq> ''b'' \<longrightarrow> perSkill r s = None"
    by blast
  from r(4) have pa: "perSkill r ''a'' = Some \<lparr> ok = True, err = None \<rparr>" by simp
  from r(5) have pb: "perSkill r ''b'' = Some \<lparr> ok = False, err = Some ''Merge conflicts: f'' \<rparr>"
    by simp
  from r(6) have pc: "perSkill r ''c'' = None" by simp
  from r(1,2,3) pa pb pc h6 show ?thesis by blast
qed

lemma emit_call:
  assumes "fst (m (tree w)) = Inr ()"
  shows "io_then (emit ev) (on_tree m) w
           = (Inr (), w\<lparr>tree := snd (m (tree w)), trace := trace w @ [ev]\<rparr>)"
  using assms
  by (cases "m (tree w)") (simp add: io_then_def io_bind_def emit_def on_tree_def)

lemma swallow_call:
  "swallow (io_then (emit ev) (on_tree m)) w
     = (Inr (), w\<lparr>tree := snd (m (tree w)), trace := trace w @ [ev]\<rparr>)"
  by (cases "m (tree w)"; cases "fst (m (tree w))")
     (simp_all add: swallow_def io_then_def io_bind_def emit_def on_tree_def)

lemma quiet_return: "quiet_step (io_return ()) []"
  by (simp add: quiet_step_def io_return_def)

lemma quiet_then:
  assumes "quiet_step m evs" and "quiet_step k evs'"
  shows "quiet_step (io_then m k) (evs @ evs')"
  unfolding quiet_step_def
proof
  fix w
  from assms(1) obtain w1 where 1: "m w = (Inr (), w1)" "state_doc w1 = state_doc w"
    "trace w1 = trace w @ evs" unfolding quiet_step_def by blast
  from assms(2) obtain w2 where 2: "k w1 = (Inr (), w2)" "state_doc w2 = state_doc w1"
    "trace w2 = trace w1 @ evs'" unfolding quiet_step_def by blast
  from 1 2 have "io_then m k w = (Inr (), w2)" by (simp add: io_then_def io_bind_def)
  with 1 2 show "\<exists>w'. io_then m k w = (Inr (), w') \<and> state_doc w' = state_doc w
                   \<and> trace w' = trace w @ evs @ evs'" by simp
qed

lemma quiet_emit_call:
  assumes "\<forall>t. fst (m t) = Inr ()"
  shows "quiet_step (io_then (emit ev) (on_tree m)) [ev]"
  unfolding quiet_step_def using assms by (simp add: emit_call)

lemma quiet_swallow: "quiet_step (swallow (io_then (emit ev) (on_tree m))) [ev]"
  unfolding quiet_step_def by (simp add: swallow_call)

lemma apply_structured_quiet:
  assumes "\<forall>p d t. fst (mergeNpmDependencies env p d t) = Inr ()"
    and "\<forall>p xs t. fst (mergeEnvAdditions env p xs t) = Inr ()"
    and "\<forall>p svcs t. fst (mergeDockerComposeServices env p svcs t) = Inr ()"
  shows "quiet_step (apply_structured env projectRoot ops) (structured_calls projectRoot ops)"
proof -
  have 1: "quiet_step (if hasNpmDeps ops then
                (let pkgPath = path_join projectRoot ''package.json'' in
                 io_then (emit (MergeNpmDependencies pkgPath (allNpmDeps ops)))
                         (on_tree (mergeNpmDependencies env pkgPath (allNpmDeps ops))))
              else io_return ())
            (if hasNpmDeps ops
             then [MergeNpmDependencies (path_join projectRoot ''package.json'') (allNpmDeps ops)]
             else [])"
    using assms(1) by (simp add: Let_def quiet_emit_call quiet_return)
  have 2: "quiet_step (if allEnvAdditions ops \<noteq> [] then
                (let envPath = path_join projectRoot ''.env.example'' in
                 io_then (emit (MergeEnvAdditions envPath (allEnvAdditions ops)))
                         (on_tree (mergeEnvAdditions env envPath (allEnvAdditions ops))))
              else io_return ())
            (if allEnvAdditions ops \<noteq> []
             then [MergeEnvAdditions (path_join projectRoot ''.env.example'') (allEnvAdditions ops)]
             else [])"
    using assms(2) by (simp add: Let_def quiet_emit_call quiet_return)
  have 3: "quiet_step (if allDockerServices ops \<noteq> [] then
                (let composePath = path_join projectRoot ''docker-compose.yml'' in
                 io_then (emit (MergeDockerComposeServices composePath (allDockerServices ops)))
                         (on_tree (mergeDockerComposeServices env composePath
                                     (allDockerServices ops))))
              else io_return ())
            (if allDockerServices ops \<noteq> []
             then [MergeDockerComposeServices (path_join projectRoot ''docker-compose.yml'')
                     (allDockerServices ops)]
             else [])"
    using assms(3) by (simp add: Let_def quiet_emit_call quiet_return)
  have 4: "quiet_step (if hasNpmDeps ops then
                swallow (io_then (emit RunNpmInstall) (on_tree (runNpmInstall env)))
              else io_return ())
            (if hasNpmDeps ops then [RunNpmInstall] else [])"
    by (simp add: quiet_swallow quiet_return)
  from quiet_then[OF 1 quiet_then[OF 2 quiet_then[OF 3 4]]]
  show ?thesis unfolding apply_structured_def structured_calls_def .
qed

text \<open>
  C7. Let the steps before the loop complete and the loop end with the conflict list
  \<open>cs\<close>. Where \<open>cs\<close> is not empty, \<open>replaySkills\<close> returns the failure with the world
  changed in its tree only: no merge of npm dependencies, env additions or
  docker-compose services and no install has been called. Where \<open>cs\<close> is empty and the
  three merges complete, \<open>replaySkills\<close> returns \<open>success = true\<close> after the calls of
  \<open>structured_calls\<close>, whatever \<open>runNpmInstall\<close> does: nothing is assumed of it, so
  also when it throws.
\<close>

theorem replaySkills_structured_ops:
  assumes collected: "collectTouched env (tree w) skillDirs skills [] = Touched files"
    and reset: "resetTouched env projectRoot files (tree w) = (Inr (), t1)"
    and loaded: "loadResolutions env skills projectRoot
                   (if skills \<noteq> [] then skillDirs (last skills) else None) t1 = (Inr b, t2)"
    and looped: "replay_loop env projectRoot skillDirs skills Map.empty [] no_structured_ops t2
                   = (LoopEnded ps cs ops, t3)"
  shows "(cs \<noteq> [] \<longrightarrow>
            replaySkills env skills skillDirs projectRoot w =
              (Inr \<lparr> success = False, perSkill = ps, mergeConflicts = Some cs,
                     error = Some (''Unresolved merge conflicts: '' @ join_with '', '' cs) \<rparr>,
               w\<lparr>tree := t3\<rparr>))
       \<and> (cs = []
            \<and> (\<forall>p d t. fst (mergeNpmDependencies env p d t) = Inr ())
            \<and> (\<forall>p xs t. fst (mergeEnvAdditions env p xs t) = Inr ())
            \<and> (\<forall>p svcs t. fst (mergeDockerComposeServices env p svcs t) = Inr ())
          \<longrightarrow> (\<exists>w'. replaySkills env skills skillDirs projectRoot w =
                       (Inr \<lparr> success = True, perSkill = ps, mergeConflicts = None,
                              error = None \<rparr>, w')
                   \<and> state_doc w' = state_doc w
                   \<and> trace w' = trace w @ structured_calls projectRoot ops))"
proof -
  from loaded have
    l': "loadResolutions env skills projectRoot
           (if skills \<noteq> [] then skillDirs (last skills) else None)
           (tree (w\<lparr>tree := t1\<rparr>)) = (Inr b, t2)" by simp
  have e: "replaySkills env skills skillDirs projectRoot w
             = finish_replay env projectRoot (LoopEnded ps cs ops) (w\<lparr>tree := t3\<rparr>)"
    using replaySkills_after_reset[OF collected reset] replay_from_base_eq[OF l' looped]
    by simp
  have a: "replaySkills env skills skillDirs projectRoot w =
              (Inr \<lparr> success = False, perSkill = ps, mergeConflicts = Some cs,
                     error = Some (''Unresolved merge conflicts: '' @ join_with '', '' cs) \<rparr>,
               w\<lparr>tree := t3\<rparr>)" if "cs \<noteq> []"
    using that by (simp add: e finish_replay_def io_return_def)
  have b: "\<exists>w'. replaySkills env skills skillDirs projectRoot w =
                       (Inr \<lparr> success = True, perSkill = ps, mergeConflicts = None,
                              error = None \<rparr>, w')
                   \<and> state_doc w' = state_doc w
                   \<and> trace w' = trace w @ structured_calls projectRoot ops"
    if "cs = []" and m: "\<forall>p d t. fst (mergeNpmDependencies env p d t) = Inr ()"
      "\<forall>p xs t. fst (mergeEnvAdditions env p xs t) = Inr ()"
      "\<forall>p svcs t. fst (mergeDockerComposeServices env p svcs t) = Inr ()"
  proof -
    from apply_structured_quiet[OF m, of projectRoot ops] obtain w' where
      w': "apply_structured env projectRoot ops (w\<lparr>tree := t3\<rparr>) = (Inr (), w')"
      "state_doc w' = state_doc (w\<lparr>tree := t3\<rparr>)"
      "trace w' = trace (w\<lparr>tree := t3\<rparr>) @ structured_calls projectRoot ops"
      unfolding quiet_step_def by blast
    from w'(1) \<open>cs = []\<close> have "replaySkills env skills skillDirs projectRoot w =
                       (Inr \<lparr> success = True, perSkill = ps, mergeConflicts = None,
                              error = None \<rparr>, w')"
      by (simp add: e finish_replay_def io_then_def io_bind_def io_return_def)
    with w'(2,3) show ?thesis by simp
  qed
  from a b show ?thesis by blast
qed

theorem replaySkills_structured_ops_witness:
  "fst (runNpmInstall env0 tree_ac) = Inl ''npm ERR!''
   \<and> (\<exists>w'. replaySkills env0 [''a'', ''c''] dirs_abc [''proj''] w0 =
              (Inr \<lparr> success = True,
                     perSkill = [''a'' \<mapsto> \<lparr> ok = True, err = None \<rparr>,
                                 ''c'' \<mapsto> \<lparr> ok = True, err = None \<rparr>],
                     mergeConflicts = None, error = None \<rparr>, w')
          \<and> state_doc w' = state_doc w0
          \<and> trace w' = [MergeNpmDependencies [''proj'', ''package.json''] [(''lodash'', ''4'')],
                         RunNpmInstall])
   \<and> replaySkills env0 [''a'', ''b'', ''c''] dirs_abc [''proj''] w0 =
        (Inr \<lparr> success = False,
               perSkill = [''a'' \<mapsto> \<lparr> ok = True, err = None \<rparr>,
                           ''b'' \<mapsto> \<lparr> ok = False, err = Some ''Merge conflicts: f'' \<rparr>],
               mergeConflicts = Some [''f''],
               error = Some ''Unresolved merge conflicts: f'' \<rparr>, w0\<lparr>tree := tree_ab\<rparr>)"
proof -
  have tw: "tree w0 = replay_tree" and tr: "trace w0 = []" by (simp_all add: w0_def)
  have da: "dirs_abc ''a'' = Some [''proj'', ''pkg-a'']"
    and db: "dirs_abc ''b'' = Some [''proj'', ''pkg-b'']"
    and dc: "dirs_abc ''c'' = Some [''proj'', ''pkg-c'']"
    by (simp_all add: dirs_abc_def)
  have npm: "fst (runNpmInstall env0 tree_ac) = Inl ''npm ERR!''"
    by (simp add: env0_def io_throw_def)
  have m1: "\<forall>p d t. fst (mergeNpmDependencies env0 p d t) = Inr ()"
    and m2: "\<forall>p xs t. fst (mergeEnvAdditions env0 p xs t) = Inr ()"
    and m3: "\<forall>p svcs t. fst (mergeDockerComposeServices env0 p svcs t) = Inr ()"
    by (simp_all add: env0_def io_return_def)
  have ap_a: "apply_skill env0 [''proj''] (Some [''proj'', ''pkg-a'']) reset_tree
                = (Inr (SkillApplied manifest_a), tree_a)" by code_simp
  have ap_b: "apply_skill env0 [''proj''] (Some [''proj'', ''pkg-b'']) tree_a
                = (Inr (SkillConflicts [''f'']), tree_ab)" by code_simp
  have ap_c: "apply_skill env0 [''proj''] (Some [''proj'', ''pkg-c'']) tree_a
                = (Inr (SkillApplied manifest_c), tree_ac)" by code_simp

  have c1: "collectTouched env0 (tree w0) dirs_abc [''a'', ''c''] []
              = Touched [''a.ts'', ''f'', ''c.ts'']" unfolding tw by code_simp
  have r1: "resetTouched env0 [''proj''] [''a.ts'', ''f'', ''c.ts''] (tree w0)
              = (Inr (), reset_tree)" unfolding tw by code_simp
  have "loadResolutions env0 [''a'', ''c''] [''proj''] (Some [''proj'', ''pkg-c''])
          reset_tree = (Inr False, reset_tree)" by code_simp
  then have l1: "loadResolutions env0 [''a'', ''c''] [''proj'']
              (if [''a'', ''c''] \<noteq> [] then dirs_abc (last [''a'', ''c'']) else None) reset_tree
              = (Inr False, reset_tree)" by (simp add: dc)
  have p1: "replay_loop env0 [''proj''] dirs_abc [''a'', ''c''] Map.empty [] no_structured_ops
              reset_tree
            = (LoopEnded [''a'' \<mapsto> \<lparr> ok = True, err = None \<rparr>,
                          ''c'' \<mapsto> \<lparr> ok = True, err = None \<rparr>] []
                 (collect_structured manifest_c (collect_structured manifest_a no_structured_ops)),
               tree_ac)"
    by (simp add: da dc ap_a ap_c)
  have calls: "structured_calls [''proj'']
                 (collect_structured manifest_c (collect_structured manifest_a no_structured_ops))
               = [MergeNpmDependencies [''proj'', ''package.json''] [(''lodash'', ''4'')],
                  RunNpmInstall]" by code_simp
  note ok = replaySkills_structured_ops[OF c1 r1 l1 p1, THEN conjunct2, rule_format,
      OF conjI[OF refl conjI[OF m1 conjI[OF m2 m3]]]]

  have c2: "collectTouched env0 (tree w0) dirs_abc [''a'', ''b'', ''c''] []
              = Touched [''a.ts'', ''f'', ''c.ts'']" unfolding tw by code_simp
  have "loadResolutions env0 [''a'', ''b'', ''c''] [''proj''] (Some [''proj'', ''pkg-c''])
          reset_tree = (Inr False, reset_tree)" by code_simp
  then have l2: "loadResolutions env0 [''a'', ''b'', ''c''] [''proj'']
              (if [''a'', ''b'', ''c''] \<noteq> [] then dirs_abc (last [''a'', ''b'', ''c'']) else None)
              reset_tree = (Inr False, reset_tree)" by (simp add: dc)
  have p2: "replay_loop env0 [''proj''] dirs_abc [''a'', ''b'', ''c''] Map.empty []
              no_structured_ops reset_tree
            = (LoopEnded [''a'' \<mapsto> \<lparr> ok = True, err = None \<rparr>,
                          ''b'' \<mapsto> \<lparr> ok = False,
                             err = Some (''Merge conflicts: '' @ join_with '', '' [''f'']) \<rparr>]
                 [''f''] (collect_structured manifest_a no_structured_ops), tree_ab)"
    by (simp add: da db ap_a ap_b)
  have ne: "[''f''] \<noteq> ([] :: string list)" by simp
  note bad = replaySkills_structured_ops[OF c2 r1 l2 p2, THEN conjunct1, rule_format, OF ne]
  from ok obtain w' where
    w': "replaySkills env0 [''a'', ''c''] dirs_abc [''proj''] w0 =
              (Inr \<lparr> success = True,
                     perSkill = [''a'' \<mapsto> \<lparr> ok = True, err = None \<rparr>,
                                 ''c'' \<mapsto> \<lparr> ok = True, err = None \<rparr>],
                     mergeConflicts = None, error = None \<rparr>, w')"
    "state_doc w' = state_doc w0"
    "trace w' = trace w0 @ structured_calls [''proj'']
       (collect_structured manifest_c (collect_structured manifest_a no_structured_ops))"
    by blast
  from w'(3) have t': "trace w' = [MergeNpmDependencies [''proj'', ''package.json'']
                          [(''lodash'', ''4'')], RunNpmInstall]"
    unfolding calls tr by simp
  from bad have bad': "replaySkills env0 [''a'', ''b'', ''c''] dirs_abc [''proj''] w0 =
        (Inr \<lparr> success = False,
               perSkill = [''a'' \<mapsto> \<lparr> ok = True, err = None \<rparr>,
                           ''b'' \<mapsto> \<lparr> ok = False, err = Some ''Merge conflicts: f'' \<rparr>],
               mergeConflicts = Some [''f''],
               error = Some ''Unresolved merge conflicts: f'' \<rparr>, w0\<lparr>tree := tree_ab\<rparr>)"
    by simp
  from npm w'(1,2) t' bad' show ?thesis by blast
qed

text \<open>
  C8. For every skill list, with \<open>key\<close> its sorted, \<open>+\<close>-joined key: where the shipped
  directory \<open>.gemini/resolutions/key\<close> exists, \<open>findResolutionDir\<close> returns it, whether
  or not the local directory \<open>.nanoclaw/resolutions/key\<close> exists too; the local
  directory is returned only where the shipped one does not exist; and where neither
  exists the result is null.
\<close>

theorem findResolutionDir_priority:
  "(let key = resolutionKey skills;
        shipped = path_join (path_join projectRoot SHIPPED_RESOLUTIONS_DIR) key;
        local = path_join (path_join projectRoot RESOLUTIONS_DIR) key
    in (existsSync t shipped \<longrightarrow> findResolutionDir t skills projectRoot = Some shipped)
     \<and> (\<not> existsSync t shipped \<and> existsSync t local
          \<longrightarrow> findResolutionDir t skills projectRoot = Some local)
     \<and> (\<not> existsSync t shipped \<and> \<not> existsSync t local
          \<longrightarrow> findResolutionDir t skills projectRoot = None))"
  by (simp add: findResolutionDir_def Let_def)

theorem findResolutionDir_priority_witness:
  "existsSync t_both [''proj'', ''.gemini'', ''resolutions'', ''a+b'']
   \<and> existsSync t_both [''proj'', ''.nanoclaw'', ''resolutions'', ''a+b'']
   \<and> findResolutionDir t_both [''b'', ''a''] [''proj'']
       = Some [''proj'', ''.gemini'', ''resolutions'', ''a+b'']"
  using findResolutionDir_priority [of "[''b'', ''a'']" "[''proj'']" t_both]
  by (simp add: Let_def resolutionKey_def sort_strings_def unit_rank_def path_join_def
      push_segment_def SHIPPED_RESOLUTIONS_DIR_def RESOLUTIONS_DIR_def existsSync_def
      t_both_def)

section \<open>Properties of uninstall.ts\<close>

text \<open>
  C4. For every state in which \<open>rebased_at\<close> is set (truthy, as the code tests it)
  and for every skill name, applied or not, \<open>uninstallSkill\<close> returns
  \<open>success = false\<close> with the error message that contains \<open>after rebase\<close>, and the
  world it leaves is the world it started in: no lock taken, no backup created, no file
  and no State written (the trace, the tree and the State document are unchanged).
\<close>

theorem uninstallSkill_after_rebase:
  assumes "truthy (rebased_at (state_doc w))"
  shows "uninstallSkill env skillName projectRoot w =
           (\<lparr> u_success = False, u_skill = skillName, u_error = Some rebase_message,
              customPatchWarning = None, replayResults = None \<rparr>, w)
       \<and> sublist ''after rebase'' rebase_message"
proof -
  have "rebase_message = ''Cannot uninstall individual skills '' @ ''after rebase''
          @ ''. The base includes all skill modifications. To remove a skill, start from a clean core and re-apply the skills you want.''"
    by (simp add: rebase_message_def)
  then have "sublist ''after rebase'' rebase_message"
    unfolding sublist_def by blast
  with assms show ?thesis by (simp add: uninstallSkill_def failed_def Let_def)
qed

theorem uninstallSkill_after_rebase_witness:
  "truthy (rebased_at (state_doc (w0\<lparr>state_doc := state_rebased\<rparr>)))
   \<and> uninstallSkill env0 ''telegram'' [''proj''] (w0\<lparr>state_doc := state_rebased\<rparr>) =
       (\<lparr> u_success = False, u_skill = ''telegram'', u_error = Some rebase_message,
          customPatchWarning = None, replayResults = None \<rparr>, w0\<lparr>state_doc := state_rebased\<rparr>)
   \<and> uninstallSkill env0 ''no-such-skill'' [''proj''] (w0\<lparr>state_doc := state_rebased\<rparr>) =
       (\<lparr> u_success = False, u_skill = ''no-such-skill'', u_error = Some rebase_message,
          customPatchWarning = None, replayResults = None \<rparr>, w0\<lparr>state_doc := state_rebased\<rparr>)"
proof -
  have h: "truthy (rebased_at (state_doc (w0\<lparr>state_doc := state_rebased\<rparr>)))"
    by (simp add: state_rebased_def truthy_def)
  from uninstallSkill_after_rebase[OF h, of env0 "''telegram''" "[''proj'']"]
    uninstallSkill_after_rebase[OF h, of env0 "''no-such-skill''" "[''proj'']"] h
  show ?thesis by blast
qed

text \<open>
  C5. What the code does when the named skill is applied and carries a custom patch
  (and the system was not rebased): every call returns \<open>success = false\<close> with the
  warning, and leaves the world as it was, before the lock is taken.
  \<open>uninstallSkill\<close> takes the skill name only, so no call proceeds past the warning.
\<close>

theorem uninstallSkill_custom_patch_always_blocks:
  assumes "\<not> truthy (rebased_at (state_doc w))"
    and "find (\<lambda>s. name s = skillName) (applied_skills (state_doc w)) = Some skillEntry"
    and "truthy (custom_patch skillEntry)"
  shows "uninstallSkill env skillName projectRoot w =
           (\<lparr> u_success = False, u_skill = skillName, u_error = None,
              customPatchWarning =
                Some (custom_patch_message skillName (custom_patch_description skillEntry)),
              replayResults = None \<rparr>, w)"
  using assms by (simp add: uninstallSkill_def Let_def)

theorem uninstallSkill_custom_patch_always_blocks_witness:
  "uninstallSkill env0 ''telegram'' [''proj''] (w0\<lparr>state_doc := state_patched\<rparr>) =
     (\<lparr> u_success = False, u_skill = ''telegram'', u_error = None,
        customPatchWarning = Some (''Skill '' @ [CHR 0x22] @ ''telegram'' @ [CHR 0x22]
          @ '' has a custom patch (My tweak). Uninstalling will lose these customizations. Re-run with confirmation to proceed.''),
        replayResults = None \<rparr>, w0\<lparr>state_doc := state_patched\<rparr>)"
proof -
  let ?w = "w0\<lparr>state_doc := state_patched\<rparr>"
  let ?entry = "\<lparr> name = ''telegram'', version = ''1.0.0'',
         applied_at = ''2025-12-01T00:00:00.000Z'', file_hashes = [],
         custom_patch = Some ''.nanoclaw/custom/001.patch'',
         custom_patch_description = Some ''My tweak'', outcomes_test = None \<rparr>"
  have h1: "\<not> truthy (rebased_at (state_doc ?w))" by code_simp
  have h2: "find (\<lambda>s. name s = ''telegram'') (applied_skills (state_doc ?w)) = Some ?entry"
    by code_simp
  have h3: "truthy (custom_patch ?entry)" by code_simp
  have msg: "custom_patch_message ''telegram'' (custom_patch_description ?entry)
             = ''Skill '' @ [CHR 0x22] @ ''telegram'' @ [CHR 0x22]
          @ '' has a custom patch (My tweak). Uninstalling will lose these customizations. Re-run with confirmation to proceed.''"
    by (simp add: custom_patch_message_def)
  from uninstallSkill_custom_patch_always_blocks[OF h1 h2 h3, of env0 "[''proj'']"]
  show ?thesis unfolding msg .
qed

subsection \<open>The calls an uninstall records\<close>

lemma so_on_tree: "structured_only (on_tree m)"
  unfolding structured_only_def
  by (auto simp: on_tree_def split: prod.splits)

lemma so_return: "structured_only (io_return x)"
  unfolding structured_only_def by (simp add: io_return_def)

lemma so_read: "structured_only (io_read f)"
  unfolding structured_only_def by (auto simp: io_read_def split: sum.splits)

lemma so_emit: "is_structured ev \<Longrightarrow> structured_only (emit ev)"
  unfolding structured_only_def by (simp add: emit_def)

lemma so_bind:
  assumes "structured_only m" and "\<And>a. structured_only (f a)"
  shows "structured_only (io_bind m f)"
  unfolding structured_only_def
proof (intro allI impI)
  fix w r w' assume run: "io_bind m f w = (r, w')"
  obtain r1 w1 where m: "m w = (r1, w1)" by (cases "m w") auto
  from assms(1) m obtain evs1 where 1: "state_doc w1 = state_doc w"
    "trace w1 = trace w @ evs1" "list_all is_structured evs1"
    unfolding structured_only_def by blast
  show "state_doc w' = state_doc w
        \<and> (\<exists>evs. trace w' = trace w @ evs \<and> list_all is_structured evs)"
  proof (cases r1)
    case (Inl e)
    with run m have "w' = w1" by (simp add: io_bind_def)
    with 1 show ?thesis by blast
  next
    case (Inr a)
    with run m have "f a w1 = (r, w')" by (simp add: io_bind_def)
    with assms(2)[of a] obtain evs2 where 2: "state_doc w' = state_doc w1"
      "trace w' = trace w1 @ evs2" "list_all is_structured evs2"
      unfolding structured_only_def by blast
    from 1 2 have "trace w' = trace w @ (evs1 @ evs2)" "list_all is_structured (evs1 @ evs2)"
      by simp_all
    with 1 2 show ?thesis by metis
  qed
qed

lemma so_then:
  assumes "structured_only m" and "structured_only k"
  shows "structured_only (io_then m k)"
  unfolding io_then_def using assms by (intro so_bind) simp_all

lemma so_swallow:
  assumes "structured_only m"
  shows "structured_only (swallow m)"
  using assms unfolding structured_only_def swallow_def
  by (auto split: prod.splits)

lemma so_apply_structured: "structured_only (apply_structured env projectRoot ops)"
  unfolding apply_structured_def Let_def
  by (intro so_then) (simp_all add: so_then so_swallow so_emit so_on_tree so_return)

lemma so_finish_replay: "structured_only (finish_replay env projectRoot ended)"
proof (cases ended)
  case (LoopReturned r)
  then show ?thesis by (simp add: finish_replay_def so_return)
next
  case (LoopEnded ps cs ops)
  then show ?thesis
    by (simp add: finish_replay_def so_return so_then so_apply_structured)
qed

lemma so_replay_from_base:
  "structured_only (replay_from_base env skills skillDirs projectRoot)"
  unfolding replay_from_base_def
  by (intro so_then so_bind so_on_tree so_finish_replay)

lemma so_replaySkills: "structured_only (replaySkills env skills skillDirs projectRoot)"
  unfolding structured_only_def
proof (intro allI impI)
  fix w r w' assume run: "replaySkills env skills skillDirs projectRoot w = (r, w')"
  show "state_doc w' = state_doc w
        \<and> (\<exists>evs. trace w' = trace w @ evs \<and> list_all is_structured evs)"
  proof (cases "collectTouched env (tree w) skillDirs skills []")
    case (Touched files)
    with run have "io_then (on_tree (resetTouched env projectRoot files))
                     (replay_from_base env skills skillDirs projectRoot) w = (r, w')"
      by (simp add: replaySkills_def)
    with so_then[OF so_on_tree so_replay_from_base] show ?thesis
      unfolding structured_only_def by blast
  next
    case (MissingDir nm)
    with run have "w' = w" by (simp add: replaySkills_def)
    then show ?thesis by simp
  next
    case (ManifestThrew e)
    with run have "w' = w" by (simp add: replaySkills_def)
    then show ?thesis by simp
  qed
qed

lemma ts_bind:
  assumes "structured_only m" and "\<And>a. try_shape (f a)"
  shows "try_shape (io_bind m f)"
  unfolding try_shape_def
proof (intro allI impI)
  fix w res w' assume run: "io_bind m f w = (res, w')"
  obtain r1 w1 where m: "m w = (r1, w1)" by (cases "m w") auto
  from assms(1) m obtain evs1 where 1: "state_doc w1 = state_doc w"
    "trace w1 = trace w @ evs1" "list_all is_structured evs1"
    unfolding structured_only_def by blast
  show "\<exists>mid. list_all is_structured mid
           \<and> (case res of
                Inl e \<Rightarrow> trace w' = trace w @ mid \<and> state_doc w' = state_doc w
              | Inr r \<Rightarrow>
                  if u_success r
                  then trace w' = trace w @ mid @ [WriteState (state_doc w'), ClearBackup]
                  else trace w' = trace w @ mid @ [RestoreBackup, ClearBackup]
                     \<and> state_doc w' = state_doc w)"
  proof (cases r1)
    case (Inl e)
    with run m have "w' = w1" "res = Inl e" by (simp_all add: io_bind_def)
    with 1 show ?thesis by auto
  next
    case (Inr a)
    with run m have "f a w1 = (res, w')" by (simp add: io_bind_def)
    with assms(2)[of a] obtain mid2 where 2: "list_all is_structured mid2"
      "case res of
         Inl e \<Rightarrow> trace w' = trace w1 @ mid2 \<and> state_doc w' = state_doc w1
       | Inr r \<Rightarrow>
           if u_success r
           then trace w' = trace w1 @ mid2 @ [WriteState (state_doc w'), ClearBackup]
           else trace w' = trace w1 @ mid2 @ [RestoreBackup, ClearBackup]
              \<and> state_doc w' = state_doc w1"
      unfolding try_shape_def by blast
    from 1(3) 2(1) have s: "list_all is_structured (evs1 @ mid2)" by simp
    from 2(2) 1(1,2) have
      "case res of
         Inl e \<Rightarrow> trace w' = trace w @ (evs1 @ mid2) \<and> state_doc w' = state_doc w
       | Inr r \<Rightarrow>
           if u_success r
           then trace w' = trace w @ (evs1 @ mid2) @ [WriteState (state_doc w'), ClearBackup]
           else trace w' = trace w @ (evs1 @ mid2) @ [RestoreBackup, ClearBackup]
              \<and> state_doc w' = state_doc w"
      by (cases res) (auto split: if_splits)
    with s show ?thesis by blast
  qed
qed

lemma ts_then:
  assumes "structured_only m" and "try_shape k"
  shows "try_shape (io_then m k)"
  unfolding io_then_def using assms by (intro ts_bind) simp_all

lemma rollback_run:
  "rollback env w = (Inr (), w\<lparr>tree := clearBackup env (restoreBackup env (tree w)),
                               trace := trace w @ [RestoreBackup, ClearBackup]\<rparr>)"
  by (simp add: rollback_def io_then_def io_bind_def do_restoreBackup_def do_clearBackup_def)

lemma ts_rollback:
  assumes "\<not> u_success r"
  shows "try_shape (io_then (rollback env) (io_return r))"
  unfolding try_shape_def
proof (intro allI impI)
  fix w res w' assume "io_then (rollback env) (io_return r) w = (res, w')"
  then have "res = Inr r" "trace w' = trace w @ [RestoreBackup, ClearBackup]"
    "state_doc w' = state_doc w"
    by (auto simp: io_then_def io_bind_def io_return_def rollback_run)
  with assms show "\<exists>mid. list_all is_structured mid
           \<and> (case res of
                Inl e \<Rightarrow> trace w' = trace w @ mid \<and> state_doc w' = state_doc w
              | Inr r \<Rightarrow>
                  if u_success r
                  then trace w' = trace w @ mid @ [WriteState (state_doc w'), ClearBackup]
                  else trace w' = trace w @ mid @ [RestoreBackup, ClearBackup]
                     \<and> state_doc w' = state_doc w)"
    by (intro exI[of _ "[]"]) simp
qed

lemma ts_commit_tail:
  "try_shape (io_then (writeState st')
               (io_then (do_clearBackup env)
                  (io_return \<lparr> u_success = True, u_skill = skillName, u_error = None,
                     customPatchWarning = None, replayResults = rr \<rparr>)))"
  unfolding try_shape_def
proof (intro allI impI)
  fix w res w'
  assume "io_then (writeState st')
               (io_then (do_clearBackup env)
                  (io_return \<lparr> u_success = True, u_skill = skillName, u_error = None,
                     customPatchWarning = None, replayResults = rr \<rparr>)) w = (res, w')"
  then have "res = Inr \<lparr> u_success = True, u_skill = skillName, u_error = None,
                     customPatchWarning = None, replayResults = rr \<rparr>"
    "trace w' = trace w @ [WriteState st', ClearBackup]" "state_doc w' = st'"
    by (auto simp: io_then_def io_bind_def io_return_def writeState_def do_clearBackup_def)
  then show "\<exists>mid. list_all is_structured mid
           \<and> (case res of
                Inl e \<Rightarrow> trace w' = trace w @ mid \<and> state_doc w' = state_doc w
              | Inr r \<Rightarrow>
                  if u_success r
                  then trace w' = trace w @ mid @ [WriteState (state_doc w'), ClearBackup]
                  else trace w' = trace w @ mid @ [RestoreBackup, ClearBackup]
                     \<and> state_doc w' = state_doc w)"
    by (intro exI[of _ "[]"]) simp
qed

lemma ts_commit: "try_shape (commit_uninstall env skillName projectRoot st results)"
  unfolding commit_uninstall_def
  by (intro ts_bind so_read ts_commit_tail)

lemma ts_verify: "try_shape (verify_uninstall env skillName projectRoot st)"
  unfolding verify_uninstall_def Let_def
  by (intro ts_then ts_bind so_on_tree) (simp add: ts_rollback ts_commit)

lemma ts_replay_remaining:
  "try_shape (replay_remaining env skillName projectRoot st skillEntry skillDirs)"
  unfolding replay_remaining_def Let_def
  by (intro ts_then ts_bind so_on_tree so_replaySkills)
     (simp add: ts_rollback ts_verify failed_def)


lemma ts_locate:
  "try_shape
     (io_bind (io_read (\<lambda>w. locate_skill_dirs env projectRoot remainingSkills Map.empty (tree w)))
        (\<lambda>loc. case loc of
           NotFound nm \<Rightarrow>
             io_then (rollback env)
               (io_return (failed skillName
                  (''Cannot find skill package for '' @ [CHR 0x22] @ nm @ [CHR 0x22]
                   @ '' in .gemini/skills/. All remaining skills must be available for replay.'')))
         | AllLocated skillDirs \<Rightarrow>
             replay_remaining env skillName projectRoot st skillEntry skillDirs))"
proof (intro ts_bind so_read)
  fix loc :: located
  show "try_shape (case loc of
           NotFound nm \<Rightarrow>
             io_then (rollback env)
               (io_return (failed skillName
                  (''Cannot find skill package for '' @ [CHR 0x22] @ nm @ [CHR 0x22]
                   @ '' in .gemini/skills/. All remaining skills must be available for replay.'')))
         | AllLocated skillDirs \<Rightarrow>
             replay_remaining env skillName projectRoot st skillEntry skillDirs)"
    by (cases loc) (simp_all add: ts_rollback ts_replay_remaining failed_def)
qed

lemma createBackup_then:
  "io_then (do_createBackup env files) k w =
     k (w\<lparr>tree := createBackup env files (tree w), trace := trace w @ [CreateBackup files]\<rparr>)"
  by (simp add: io_then_def io_bind_def do_createBackup_def)

lemma uninstall_try_run:
  assumes "uninstall_try env skillName projectRoot st skillEntry w = (res, w')"
  shows "\<exists>mid. list_all is_structured mid
           \<and> (case res of
                Inl e \<Rightarrow> trace w' = trace w @ [CreateBackup (map (path_join projectRoot) (touched_by_state st))] @ mid
                       \<and> state_doc w' = state_doc w
              | Inr r \<Rightarrow>
                  if u_success r
                  then trace w' = trace w @ [CreateBackup (map (path_join projectRoot) (touched_by_state st))] @ mid
                                  @ [WriteState (state_doc w'), ClearBackup]
                  else trace w' = trace w @ [CreateBackup (map (path_join projectRoot) (touched_by_state st))] @ mid
                                  @ [RestoreBackup, ClearBackup]
                     \<and> state_doc w' = state_doc w)"
proof -
  let ?files = "map (path_join projectRoot) (touched_by_state st)"
  let ?w1 = "w\<lparr>tree := createBackup env ?files (tree w), trace := trace w @ [CreateBackup ?files]\<rparr>"
  let ?tail = "io_bind (io_read (\<lambda>w. locate_skill_dirs env projectRoot
                     (map name (filter (\<lambda>s. name s \<noteq> skillName) (applied_skills st))) Map.empty (tree w)))
        (\<lambda>loc. case loc of
           NotFound nm \<Rightarrow>
             io_then (rollback env)
               (io_return (failed skillName
                  (''Cannot find skill package for '' @ [CHR 0x22] @ nm @ [CHR 0x22]
                   @ '' in .gemini/skills/. All remaining skills must be available for replay.'')))
         | AllLocated skillDirs \<Rightarrow>
             replay_remaining env skillName projectRoot st skillEntry skillDirs)"
  have "uninstall_try env skillName projectRoot st skillEntry w = ?tail ?w1"
    unfolding uninstall_try_def Let_def by (rule createBackup_then)
  with assms have run: "?tail ?w1 = (res, w')" by simp
  from ts_locate[of env projectRoot _ skillName st skillEntry, unfolded try_shape_def, rule_format, OF run]
  obtain mid where mid: "list_all is_structured mid"
    "case res of
       Inl e \<Rightarrow> trace w' = trace ?w1 @ mid \<and> state_doc w' = state_doc ?w1
     | Inr r \<Rightarrow>
         if u_success r
         then trace w' = trace ?w1 @ mid @ [WriteState (state_doc w'), ClearBackup]
         else trace w' = trace ?w1 @ mid @ [RestoreBackup, ClearBackup]
            \<and> state_doc w' = state_doc ?w1"
    by blast
  from mid(2) have
    "case res of
                Inl e \<Rightarrow> trace w' = trace w @ [CreateBackup ?files] @ mid
                       \<and> state_doc w' = state_doc w
              | Inr r \<Rightarrow>
                  if u_success r
                  then trace w' = trace w @ [CreateBackup ?files] @ mid
                                  @ [WriteState (state_doc w'), ClearBackup]
                  else trace w' = trace w @ [CreateBackup ?files] @ mid
                                  @ [RestoreBackup, ClearBackup]
                     \<and> state_doc w' = state_doc w"
    by (cases res) (auto split: if_splits)
  with mid(1) show ?thesis by blast
qed

lemma uninstallSkill_shape:
  assumes not_rebased: "\<not> truthy (rebased_at (state_doc w))"
    and applied: "find (\<lambda>s. name s = skillName) (applied_skills (state_doc w)) = Some skillEntry"
    and no_patch: "\<not> truthy (custom_patch skillEntry)"
    and run: "uninstallSkill env skillName projectRoot w = (r, w')"
  shows "\<exists>mid. list_all is_structured mid
           \<and> trace w' = trace w
                 @ [AcquireLock,
                    CreateBackup (map (path_join projectRoot) (touched_by_state (state_doc w)))]
                 @ mid
                 @ (if u_success r then [WriteState (state_doc w'), ClearBackup, ReleaseLock]
                    else [RestoreBackup, ClearBackup, ReleaseLock])
           \<and> (\<not> u_success r \<longrightarrow> state_doc w' = state_doc w)"
proof -
  let ?st = "state_doc w"
  let ?files = "map (path_join projectRoot) (touched_by_state ?st)"
  let ?w0 = "w\<lparr>trace := trace w @ [AcquireLock]\<rparr>"
  obtain res w1 where attempt: "uninstall_try env skillName projectRoot ?st skillEntry ?w0 = (res, w1)"
    by (cases "uninstall_try env skillName projectRoot ?st skillEntry ?w0") auto
  then have locked: "io_then acquireLock (uninstall_try env skillName projectRoot ?st skillEntry) w
                       = (res, w1)"
    by (simp add: io_then_def io_bind_def acquireLock_def emit_def)
  from uninstall_try_run[OF attempt] obtain mid where mid: "list_all is_structured mid"
    "case res of
                Inl e \<Rightarrow> trace w1 = trace ?w0 @ [CreateBackup ?files] @ mid
                       \<and> state_doc w1 = state_doc ?w0
              | Inr r \<Rightarrow>
                  if u_success r
                  then trace w1 = trace ?w0 @ [CreateBackup ?files] @ mid
                                  @ [WriteState (state_doc w1), ClearBackup]
                  else trace w1 = trace ?w0 @ [CreateBackup ?files] @ mid
                                  @ [RestoreBackup, ClearBackup]
                     \<and> state_doc w1 = state_doc ?w0"
    by blast
  show ?thesis
  proof (cases res)
    case (Inr result)
    with run not_rebased applied no_patch locked
    have r: "r = result" "w' = releaseLock w1"
      by (simp_all add: uninstallSkill_def Let_def)
    from mid(2) Inr r have
      "trace w' = trace w @ [AcquireLock, CreateBackup ?files] @ mid
                 @ (if u_success r then [WriteState (state_doc w'), ClearBackup, ReleaseLock]
                    else [RestoreBackup, ClearBackup, ReleaseLock])"
      "\<not> u_success r \<longrightarrow> state_doc w' = state_doc w"
      by (auto simp: releaseLock_def split: if_splits)
    with mid(1) show ?thesis by blast
  next
    case (Inl e)
    with run not_rebased applied no_patch locked
    have r: "r = failed skillName e"
      "w' = releaseLock (w1\<lparr>tree := clearBackup env (restoreBackup env (tree w1)),
                               trace := trace w1 @ [RestoreBackup, ClearBackup]\<rparr>)"
      by (simp_all add: uninstallSkill_def Let_def rollback_run)
    from mid(2) Inl r have
      "trace w' = trace w @ [AcquireLock, CreateBackup ?files] @ mid
                 @ (if u_success r then [WriteState (state_doc w'), ClearBackup, ReleaseLock]
                    else [RestoreBackup, ClearBackup, ReleaseLock])"
      "\<not> u_success r \<longrightarrow> state_doc w' = state_doc w"
      by (auto simp: releaseLock_def failed_def)
    with mid(1) show ?thesis by blast
  qed
qed

lemma set_insert_index: "set (insert_index kv xs) = insert kv (set xs)"
  by (induction xs) auto

lemma set_foldr_insert_index: "set (foldr insert_index xs []) = set xs"
  by (induction xs) (auto simp: set_insert_index)

lemma set_object_entries: "set (object_entries obj) = set obj"
  by (auto simp: object_entries_def set_foldr_insert_index)

lemma reapply_custom_Inr: "\<exists>t'. reapply_custom env projectRoot mods t = (Inr (), t')"
proof (induction mods arbitrary: t)
  case Nil
  then show ?case by simp
next
  case (Cons m mods)
  have "\<exists>t1. (if existsSync t (path_join projectRoot (patch_file m))
      then swallow (gitApply3way env (path_join projectRoot (patch_file m)) projectRoot)
      else io_return ()) t = (Inr (), t1)"
    by (simp add: swallow_def io_return_def split: prod.splits)
  then obtain t1 where
    "(if existsSync t (path_join projectRoot (patch_file m))
      then swallow (gitApply3way env (path_join projectRoot (patch_file m)) projectRoot)
      else io_return ()) t = (Inr (), t1)" by blast
  with Cons.IH[of t1] show ?case
    by (auto simp: Let_def io_then_def io_bind_def)
qed

lemma run_skill_tests_append:
  "run_skill_tests env projectRoot skillName (xs @ ys) res t =
     (case run_skill_tests env projectRoot skillName xs res t of
        (res1, t1) \<Rightarrow> run_skill_tests env projectRoot skillName ys res1 t1)"
  by (induction xs arbitrary: res t) (auto split: prod.splits sum.splits)

lemma run_skill_tests_keeps:
  assumes "\<forall>s'\<in>set post. name s' \<noteq> k"
    and "run_skill_tests env projectRoot skillName post res t = (res', t')"
  shows "map_of res' k = map_of res k"
  using assms
proof (induction post arbitrary: res t)
  case Nil
  then show ?case by simp
next
  case (Cons s post)
  from Cons.prems(1) have ne: "name s \<noteq> k" and rest: "\<forall>s'\<in>set post. name s' \<noteq> k" by auto
  show ?case
  proof (cases "name s = skillName \<or> \<not> truthy (outcomes_test s)")
    case True
    with Cons.prems(2) have "run_skill_tests env projectRoot skillName post res t = (res', t')"
      by (auto split: if_splits)
    from Cons.IH[OF rest this] show ?thesis .
  next
    case False
    obtain x t1 where ex: "execTest env (the (outcomes_test s)) projectRoot t = (x, t1)"
      by (cases "execTest env (the (outcomes_test s)) projectRoot t") auto
    from False Cons.prems(2) ex obtain b where
      "run_skill_tests env projectRoot skillName post (AList.update (name s) b res) t1 = (res', t')"
      by (cases x) auto
    from Cons.IH[OF rest this] ne show ?thesis by (simp add: update_conv')
  qed
qed

lemma run_skill_tests_failure:
  assumes "skills = pre @ s # post" and "name s \<noteq> skillName" and "truthy (outcomes_test s)"
    and "\<forall>s'\<in>set post. name s' \<noteq> name s"
    and "run_skill_tests env projectRoot skillName pre res0 t = (res1, t5)"
    and "execTest env (the (outcomes_test s)) projectRoot t5 = (Inl e, t6)"
    and "run_skill_tests env projectRoot skillName skills res0 t = (results, t7)"
  shows "(name s, False) \<in> set results"
proof -
  from assms(1,2,3,5,6,7) have
    "run_skill_tests env projectRoot skillName post (AList.update (name s) False res1) t6
       = (results, t7)"
    by (simp add: run_skill_tests_append)
  from run_skill_tests_keeps[OF assms(4) this]
  have "map_of results (name s) = Some False" by (simp add: update_conv')
  then show ?thesis by (rule map_of_SomeD)
qed

lemma commit_run:
  "commit_uninstall env skillName projectRoot st results v =
     (case refresh_skills env projectRoot (tree v)
             (filter (\<lambda>s. name s \<noteq> skillName) (applied_skills st)) of
        Inl e \<Rightarrow> (Inl e, v)
      | Inr refreshed \<Rightarrow>
          (Inr \<lparr> u_success = True, u_skill = skillName, u_error = None,
                 customPatchWarning = None,
                 replayResults =
                   (if object_keys results \<noteq> [] then Some results
                    else None) \<rparr>,
           v\<lparr>tree := clearBackup env (tree v),
             state_doc := st\<lparr>applied_skills := refreshed\<rparr>,
             trace := trace v @ [WriteState (st\<lparr>applied_skills := refreshed\<rparr>), ClearBackup]\<rparr>))"
  by (simp add: commit_uninstall_def io_bind_def io_read_def io_then_def io_return_def
      writeState_def do_clearBackup_def split: sum.splits)

lemma verify_run:
  assumes "(case custom_modifications st of
              None \<Rightarrow> io_return ()
            | Some mods \<Rightarrow> reapply_custom env projectRoot mods) (tree w3) = (x, t4)"
    and "run_skill_tests env projectRoot skillName (applied_skills st) [] t4 = (results, t7)"
  shows "verify_uninstall env skillName projectRoot st w3 =
     (if filter (\<lambda>r. \<not> snd r) (object_entries results) \<noteq> [] then
        (Inr \<lparr> u_success = False, u_skill = skillName,
               u_error = Some (''Tests failed after uninstall: ''
                               @ join_with '', ''
                                   (map fst (filter (\<lambda>r. \<not> snd r) (object_entries results)))),
               customPatchWarning = None,
               replayResults = Some results \<rparr>,
         w3\<lparr>tree := clearBackup env (restoreBackup env t7),
            trace := trace w3 @ [RestoreBackup, ClearBackup]\<rparr>)
      else commit_uninstall env skillName projectRoot st results (w3\<lparr>tree := t7\<rparr>))"
proof -
  have x: "x = Inr ()"
  proof (cases "custom_modifications st")
    case None
    with assms(1) show ?thesis by (simp add: io_return_def)
  next
    case (Some mods)
    with assms(1) reapply_custom_Inr[of env projectRoot mods "tree w3"] show ?thesis by auto
  qed
  with assms show ?thesis
    by (simp add: verify_uninstall_def Let_def io_then_def io_bind_def on_tree_def
        io_return_def rollback_run)
qed

lemma replay_remaining_run:
  "replay_remaining env skillName projectRoot st skillEntry dirs w1 =
     (case reset_exclusive env projectRoot
             (concat (map (\<lambda>s. object_keys (file_hashes s))
                        (filter (\<lambda>s. name s \<noteq> skillName) (applied_skills st))))
             (object_keys (file_hashes skillEntry)) (tree w1) of
        (Inl e, t2) \<Rightarrow> (Inl e, w1\<lparr>tree := t2\<rparr>)
      | (Inr u, t2) \<Rightarrow>
          (case replaySkills env
                  (map name (filter (\<lambda>s. name s \<noteq> skillName) (applied_skills st)))
                  dirs projectRoot (w1\<lparr>tree := t2\<rparr>) of
             (Inl e, w3) \<Rightarrow> (Inl e, w3)
           | (Inr rr, w3) \<Rightarrow>
               if \<not> success rr then
                 (Inr (failed skillName
                    (''Replay failed: ''
                     @ (case error rr of None \<Rightarrow> ''undefined'' | Some e \<Rightarrow> e))),
                  w3\<lparr>tree := clearBackup env (restoreBackup env (tree w3)),
                     trace := trace w3 @ [RestoreBackup, ClearBackup]\<rparr>)
               else verify_uninstall env skillName projectRoot st w3))"
  by (simp add: replay_remaining_def Let_def io_then_def io_bind_def on_tree_def
      io_return_def rollback_run split: prod.splits sum.splits)

lemma uninstallSkill_run:
  assumes "\<not> truthy (rebased_at (state_doc w))"
    and "find (\<lambda>s. name s = skillName) (applied_skills (state_doc w)) = Some skillEntry"
    and "\<not> truthy (custom_patch skillEntry)"
  shows "uninstallSkill env skillName projectRoot w =
     (case (case locate_skill_dirs env projectRoot
                   (map name (filter (\<lambda>s. name s \<noteq> skillName) (applied_skills (state_doc w))))
                   Map.empty
                   (createBackup env (map (path_join projectRoot) (touched_by_state (state_doc w)))
                      (tree w)) of
              Inl e \<Rightarrow> (Inl e, w\<lparr>tree := createBackup env
                             (map (path_join projectRoot) (touched_by_state (state_doc w))) (tree w),
                           trace := trace w @ [AcquireLock, CreateBackup
                             (map (path_join projectRoot) (touched_by_state (state_doc w)))]\<rparr>)
            | Inr (NotFound nm) \<Rightarrow>
                (Inr (failed skillName
                  (''Cannot find skill package for '' @ [CHR 0x22] @ nm @ [CHR 0x22]
                   @ '' in .gemini/skills/. All remaining skills must be available for replay.'')),
                 w\<lparr>tree := clearBackup env (restoreBackup env (createBackup env
                             (map (path_join projectRoot) (touched_by_state (state_doc w))) (tree w))),
                    trace := trace w @ [AcquireLock, CreateBackup
                             (map (path_join projectRoot) (touched_by_state (state_doc w))),
                             RestoreBackup, ClearBackup]\<rparr>)
            | Inr (AllLocated dirs) \<Rightarrow>
                replay_remaining env skillName projectRoot (state_doc w) skillEntry dirs
                  (w\<lparr>tree := createBackup env
                             (map (path_join projectRoot) (touched_by_state (state_doc w))) (tree w),
                     trace := trace w @ [AcquireLock, CreateBackup
                             (map (path_join projectRoot) (touched_by_state (state_doc w)))]\<rparr>)) of
        (Inr result, v) \<Rightarrow> (result, releaseLock v)
      | (Inl e, v) \<Rightarrow> (failed skillName e, restored env v))"
  using assms
  by (simp add: uninstallSkill_def Let_def uninstall_try_def io_then_def io_bind_def
      io_read_def io_return_def acquireLock_def emit_def do_createBackup_def rollback_run
      restored_def releaseLock_def
      split: sum.splits located.splits prod.splits)

text \<open>
  C3. Take a call of \<open>uninstallSkill\<close> that gets as far as the backup: the system was
  not rebased, the skill is applied and carries no custom patch; \<open>w1\<close> is the world
  once the lock is taken and the backup of the files the State names is created. Then
  every way the call can fail returns a failure result from the world \<open>restored\<close>
  (\<open>restoreBackup\<close>, \<open>clearBackup\<close>, release of the lock):
  the search for a remaining skill's package throws or finds none; the reset of the
  removed skill's own files throws; \<open>replaySkills\<close> rejects, or resolves with
  \<open>success = false\<close>; the test command of a remaining skill fails at its turn (no later
  skill of the same name overwriting its entry), or more generally some test is recorded
  as failed; the refresh of the hashes throws. Only where all of that went through is
  the result a success, from the world in which \<open>writeState\<close> was called with the
  remaining skills and their refreshed hashes, then \<open>clearBackup\<close> and the release.
  In every case the calls recorded after the backup are structured merges and installs
  followed by those three calls, so no failure path has a \<open>writeState\<close>, and on a
  failure the State document is the one the call started with.
\<close>

theorem uninstallSkill_restores_on_failure:
  assumes not_rebased: "\<not> truthy (rebased_at (state_doc w))"
    and applied: "find (\<lambda>s. name s = skillName) (applied_skills (state_doc w)) = Some skillEntry"
    and no_patch: "\<not> truthy (custom_patch skillEntry)"
    and st: "st = state_doc w"
    and remaining: "remaining = filter (\<lambda>s. name s \<noteq> skillName) (applied_skills st)"
    and files: "files = map (path_join projectRoot) (touched_by_state st)"
    and w1: "w1 = w\<lparr>tree := createBackup env files (tree w),
                      trace := trace w @ [AcquireLock, CreateBackup files]\<rparr>"
  shows
   "(\<forall>e. locate_skill_dirs env projectRoot (map name remaining) Map.empty (tree w1) = Inl e \<longrightarrow>
        uninstallSkill env skillName projectRoot w = (failed skillName e, restored env w1))
  \<and> (\<forall>nm. locate_skill_dirs env projectRoot (map name remaining) Map.empty (tree w1)
           = Inr (NotFound nm) \<longrightarrow>
        uninstallSkill env skillName projectRoot w =
          (failed skillName
             (''Cannot find skill package for '' @ [CHR 0x22] @ nm @ [CHR 0x22]
              @ '' in .gemini/skills/. All remaining skills must be available for replay.''),
           restored env w1))
  \<and> (\<forall>dirs. locate_skill_dirs env projectRoot (map name remaining) Map.empty (tree w1)
           = Inr (AllLocated dirs) \<longrightarrow>
       (\<forall>e t2. reset_exclusive env projectRoot
                  (concat (map (\<lambda>s. object_keys (file_hashes s)) remaining))
                  (object_keys (file_hashes skillEntry)) (tree w1) = (Inl e, t2) \<longrightarrow>
          uninstallSkill env skillName projectRoot w
            = (failed skillName e, restored env (w1\<lparr>tree := t2\<rparr>)))
     \<and> (\<forall>t2. reset_exclusive env projectRoot
                  (concat (map (\<lambda>s. object_keys (file_hashes s)) remaining))
                  (object_keys (file_hashes skillEntry)) (tree w1) = (Inr (), t2) \<longrightarrow>
         (\<forall>e w3. replaySkills env (map name remaining) dirs projectRoot (w1\<lparr>tree := t2\<rparr>)
                   = (Inl e, w3) \<longrightarrow>
            uninstallSkill env skillName projectRoot w = (failed skillName e, restored env w3))
       \<and> (\<forall>rr w3. replaySkills env (map name remaining) dirs projectRoot (w1\<lparr>tree := t2\<rparr>)
                   = (Inr rr, w3) \<longrightarrow>
           (\<not> success rr \<longrightarrow>
              uninstallSkill env skillName projectRoot w =
                (failed skillName
                   (''Replay failed: ''
                    @ (case error rr of None \<Rightarrow> ''undefined'' | Some e \<Rightarrow> e)),
                 restored env w3))
         \<and> (success rr \<longrightarrow>
             (\<forall>x t4 results t7.
                (case custom_modifications st of
                   None \<Rightarrow> io_return ()
                 | Some mods \<Rightarrow> reapply_custom env projectRoot mods) (tree w3) = (x, t4)
              \<and> run_skill_tests env projectRoot skillName (applied_skills st) [] t4
                  = (results, t7) \<longrightarrow>
                (\<forall>pre s post res1 t5 e t6.
                   applied_skills st = pre @ s # post
                 \<and> name s \<noteq> skillName \<and> truthy (outcomes_test s)
                 \<and> (\<forall>s'\<in>set post. name s' \<noteq> name s)
                 \<and> run_skill_tests env projectRoot skillName pre [] t4 = (res1, t5)
                 \<and> execTest env (the (outcomes_test s)) projectRoot t5 = (Inl e, t6) \<longrightarrow>
                   (name s, False) \<in> set results
                 \<and> uninstallSkill env skillName projectRoot w =
                     (\<lparr> u_success = False, u_skill = skillName,
                        u_error = Some (''Tests failed after uninstall: ''
                          @ join_with '', ''
                              (map fst (filter (\<lambda>r. \<not> snd r) (object_entries results)))),
                        customPatchWarning = None,
                        replayResults = Some results \<rparr>,
                      restored env (w3\<lparr>tree := t7\<rparr>)))
              \<and> (filter (\<lambda>r. \<not> snd r) (object_entries results) \<noteq> [] \<longrightarrow>
                   uninstallSkill env skillName projectRoot w =
                     (\<lparr> u_success = False, u_skill = skillName,
                        u_error = Some (''Tests failed after uninstall: ''
                          @ join_with '', ''
                              (map fst (filter (\<lambda>r. \<not> snd r) (object_entries results)))),
                        customPatchWarning = None,
                        replayResults = Some results \<rparr>,
                      restored env (w3\<lparr>tree := t7\<rparr>)))
              \<and> (filter (\<lambda>r. \<not> snd r) (object_entries results) = [] \<longrightarrow>
                   (\<forall>e. refresh_skills env projectRoot t7 remaining = Inl e \<longrightarrow>
                      uninstallSkill env skillName projectRoot w
                        = (failed skillName e, restored env (w3\<lparr>tree := t7\<rparr>)))
                 \<and> (\<forall>refreshed. refresh_skills env projectRoot t7 remaining = Inr refreshed \<longrightarrow>
                      uninstallSkill env skillName projectRoot w =
                        (\<lparr> u_success = True, u_skill = skillName, u_error = None,
                           customPatchWarning = None,
                           replayResults =
                             (if object_keys results \<noteq> [] then Some results
                              else None) \<rparr>,
                         w3\<lparr>tree := clearBackup env t7,
                            state_doc := st\<lparr>applied_skills := refreshed\<rparr>,
                            trace := trace w3
                              @ [WriteState (st\<lparr>applied_skills := refreshed\<rparr>),
                                 ClearBackup, ReleaseLock]\<rparr>))))))))
  \<and> (\<forall>r w'. uninstallSkill env skillName projectRoot w = (r, w') \<longrightarrow>
        (\<exists>mid. list_all is_structured mid
           \<and> trace w' = trace w1 @ mid
                 @ (if u_success r then [WriteState (state_doc w'), ClearBackup, ReleaseLock]
                    else [RestoreBackup, ClearBackup, ReleaseLock]))
      \<and> (\<not> u_success r \<longrightarrow> state_doc w' = state_doc w))"
proof -
  note run = uninstallSkill_run[OF not_rebased applied no_patch, of env projectRoot]
  note defs = st remaining files w1
  have tests_failed:
    "uninstallSkill env skillName projectRoot w =
       (\<lparr> u_success = False, u_skill = skillName,
          u_error = Some (''Tests failed after uninstall: ''
            @ join_with '', '' (map fst (filter (\<lambda>r. \<not> snd r) (object_entries results)))),
          customPatchWarning = None,
          replayResults = Some results \<rparr>,
        restored env (w3\<lparr>tree := t7\<rparr>))"
    if "locate_skill_dirs env projectRoot (map name remaining) Map.empty (tree w1)
          = Inr (AllLocated dirs)"
      and "reset_exclusive env projectRoot
             (concat (map (\<lambda>s. object_keys (file_hashes s)) remaining))
             (object_keys (file_hashes skillEntry)) (tree w1) = (Inr (), t2)"
      and "replaySkills env (map name remaining) dirs projectRoot (w1\<lparr>tree := t2\<rparr>)
             = (Inr rr, w3)"
      and "success rr"
      and c: "(case custom_modifications st of
                None \<Rightarrow> io_return ()
              | Some mods \<Rightarrow> reapply_custom env projectRoot mods) (tree w3) = (x, t4)"
      and r: "run_skill_tests env projectRoot skillName (applied_skills st) [] t4 = (results, t7)"
      and "filter (\<lambda>r. \<not> snd r) (object_entries results) \<noteq> []"
    for dirs t2 rr w3 x t4 results t7
    using that(1,2,3,4,7) verify_run[OF c r]
    by (simp add: run defs replay_remaining_run restored_def releaseLock_def)
  show ?thesis
    apply (intro conjI allI impI)
    subgoal by (simp add: run defs)
    subgoal by (simp add: run defs releaseLock_def restored_def)
    subgoal by (simp add: run defs replay_remaining_run)
    subgoal by (simp add: run defs replay_remaining_run)
    subgoal by (simp add: run defs replay_remaining_run restored_def releaseLock_def)
    subgoal for dirs t2 rr w3 x t4 results t7 pre s post res1 t5 e t6
      using run_skill_tests_failure[of "applied_skills st" pre s post skillName env projectRoot
          "[]" t4 res1 t5 e t6 results t7]
      by simp
    subgoal premises p for dirs t2 rr w3 x t4 results t7 pre s post res1 t5 e t6
    proof -
      from p(5,6) run_skill_tests_failure[of "applied_skills st" pre s post skillName env
          projectRoot "[]" t4 res1 t5 e t6 results t7]
      have "(name s, False) \<in> set results" by simp
      then have "(name s, False) \<in> set (filter (\<lambda>r. \<not> snd r) (object_entries results))"
        by (simp add: set_object_entries)
      then have ne: "filter (\<lambda>r. \<not> snd r) (object_entries results) \<noteq> []"
        by (metis empty_iff empty_set)
      from p(5) have c: "(case custom_modifications st of
                None \<Rightarrow> io_return ()
              | Some mods \<Rightarrow> reapply_custom env projectRoot mods) (tree w3) = (x, t4)"
        and r: "run_skill_tests env projectRoot skillName (applied_skills st) [] t4
                  = (results, t7)" by simp_all
      from tests_failed[OF p(1,2,3,4) c r ne] show ?thesis .
    qed
    subgoal premises p for dirs t2 rr w3 x t4 results t7
    proof -
      from p(5) have c: "(case custom_modifications st of
                None \<Rightarrow> io_return ()
              | Some mods \<Rightarrow> reapply_custom env projectRoot mods) (tree w3) = (x, t4)"
        and r: "run_skill_tests env projectRoot skillName (applied_skills st) [] t4
                  = (results, t7)" by simp_all
      from tests_failed[OF p(1,2,3,4) c r p(6)] show ?thesis .
    qed
    subgoal premises p for dirs t2 rr w3 x t4 results t7 e
    proof -
      from p(5) have c: "(case custom_modifications st of
                None \<Rightarrow> io_return ()
              | Some mods \<Rightarrow> reapply_custom env projectRoot mods) (tree w3) = (x, t4)"
        and r: "run_skill_tests env projectRoot skillName (applied_skills st) [] t4
                  = (results, t7)" by simp_all
      from p(1,2,3,4,6,7) verify_run[OF c r] show ?thesis
        by (simp add: run defs replay_remaining_run commit_run)
    qed
    subgoal premises p for dirs t2 rr w3 x t4 results t7 refreshed
    proof -
      from p(5) have c: "(case custom_modifications st of
                None \<Rightarrow> io_return ()
              | Some mods \<Rightarrow> reapply_custom env projectRoot mods) (tree w3) = (x, t4)"
        and r: "run_skill_tests env projectRoot skillName (applied_skills st) [] t4
                  = (results, t7)" by simp_all
      from p(1,2,3,4,6,7) verify_run[OF c r] show ?thesis
        by (simp add: run defs replay_remaining_run commit_run releaseLock_def)
    qed
    subgoal premises p for r w'
      using uninstallSkill_shape[OF not_rebased applied no_patch p]
      by (auto simp: defs)
    subgoal premises p for r w'
      using uninstallSkill_shape[OF not_rebased applied no_patch p(1)] p(2)
      by auto
    done
qed

theorem uninstallSkill_restores_on_failure_witness:
  "(uninstallSkill (restoring replay_tree) ''a'' [''proj''] (w0\<lparr>state_doc := state_ab\<rparr>) =
     (failed ''a'' (''Cannot find skill package for '' @ [CHR 0x22] @ ''b'' @ [CHR 0x22]
                   @ '' in .gemini/skills/. All remaining skills must be available for replay.''),
      \<lparr> tree = replay_tree, state_doc = state_ab,
        trace = [AcquireLock, CreateBackup [[''proj'', ''f''], [''proj'', ''a.ts'']],
                 RestoreBackup, ClearBackup, ReleaseLock] \<rparr>))
   \<and> (uninstallSkill (restoring skills_tree) ''c'' [''proj''] (w_skills state_abc) =
     (failed ''c'' ''Replay failed: Unresolved merge conflicts: f'',
      \<lparr> tree = skills_tree, state_doc = state_abc,
        trace = [AcquireLock,
                 CreateBackup [[''proj'', ''f''], [''proj'', ''a.ts''], [''proj'', ''c.ts'']],
                 RestoreBackup, ClearBackup, ReleaseLock] \<rparr>))
   \<and> (uninstallSkill (restoring skills_tree) ''a'' [''proj''] (w_skills (state_ac ''false'')) =
     (\<lparr> u_success = False, u_skill = ''a'',
        u_error = Some ''Tests failed after uninstall: c'',
        customPatchWarning = None, replayResults = Some [(''c'', False)] \<rparr>,
      \<lparr> tree = skills_tree, state_doc = state_ac ''false'',
        trace = [AcquireLock,
                 CreateBackup [[''proj'', ''f''], [''proj'', ''a.ts''], [''proj'', ''c.ts'']],
                 RestoreBackup, ClearBackup, ReleaseLock] \<rparr>))
   \<and> (uninstallSkill (restoring skills_tree) ''a'' [''proj''] (w_skills (state_ac ''npm test'')) =
     (\<lparr> u_success = True, u_skill = ''a'', u_error = None,
        customPatchWarning = None, replayResults = Some [(''c'', True)] \<rparr>,
      \<lparr> tree = skills_proj [(''f'', File ''line1'')] [(''c.ts'', File ''code of c'')],
        state_doc = state0\<lparr>applied_skills :=
                      [applied0 ''c'' [(''c.ts'', ''#code of c'')] (Some ''npm test'')]\<rparr>,
        trace = [AcquireLock,
                 CreateBackup [[''proj'', ''f''], [''proj'', ''a.ts''], [''proj'', ''c.ts'']],
                 WriteState (state0\<lparr>applied_skills :=
                      [applied0 ''c'' [(''c.ts'', ''#code of c'')] (Some ''npm test'')]\<rparr>),
                 ClearBackup, ReleaseLock] \<rparr>))"
proof -
  have missing:
    "uninstallSkill (restoring replay_tree) ''a'' [''proj''] (w0\<lparr>state_doc := state_ab\<rparr>) =
     (failed ''a'' (''Cannot find skill package for '' @ [CHR 0x22] @ ''b'' @ [CHR 0x22]
                   @ '' in .gemini/skills/. All remaining skills must be available for replay.''),
      \<lparr> tree = replay_tree, state_doc = state_ab,
        trace = [AcquireLock, CreateBackup [[''proj'', ''f''], [''proj'', ''a.ts'']],
                 RestoreBackup, ClearBackup, ReleaseLock] \<rparr>)"
  proof -
    let ?env = "restoring replay_tree"
    let ?w = "w0\<lparr>state_doc := state_ab\<rparr>"
    let ?a = "applied0 ''a'' [(''f'', ''h1''), (''a.ts'', ''h2'')] None"
    let ?rem = "filter (\<lambda>s. name s \<noteq> ''a'') (applied_skills (state_doc ?w))"
    let ?files = "map (path_join [''proj'']) (touched_by_state (state_doc ?w))"
    let ?w1 = "?w\<lparr>tree := createBackup ?env ?files (tree ?w),
                    trace := trace ?w @ [AcquireLock, CreateBackup ?files]\<rparr>"
    have g1: "\<not> truthy (rebased_at (state_doc ?w))" by code_simp
    have g2: "find (\<lambda>s. name s = ''a'') (applied_skills (state_doc ?w)) = Some ?a"
      by code_simp
    have g3: "\<not> truthy (custom_patch ?a)" by code_simp
    have names: "map name ?rem = [''b'']" by code_simp
    have t1: "tree ?w1 = replay_tree" by code_simp
    have fb: "findSkillDir ?env replay_tree ''b'' [''proj''] = Inr None" by code_simp
    have loc: "locate_skill_dirs ?env [''proj''] (map name ?rem) Map.empty (tree ?w1)
                 = Inr (NotFound ''b'')"
      unfolding names t1 by (simp add: fb)
    have fin: "restored ?env ?w1 =
        \<lparr> tree = replay_tree, state_doc = state_ab,
          trace = [AcquireLock, CreateBackup [[''proj'', ''f''], [''proj'', ''a.ts'']],
                   RestoreBackup, ClearBackup, ReleaseLock] \<rparr>" by code_simp
    note T = uninstallSkill_restores_on_failure[where w = ?w and skillName = "''a''" and env = ?env
        and projectRoot = "[''proj'']", OF g1 g2 g3 refl refl refl refl]
    from T[THEN conjunct2, THEN conjunct1, rule_format, OF loc]
    show ?thesis unfolding fin .
  qed
  have replay:
    "uninstallSkill (restoring skills_tree) ''c'' [''proj''] (w_skills state_abc) =
     (failed ''c'' ''Replay failed: Unresolved merge conflicts: f'',
      \<lparr> tree = skills_tree, state_doc = state_abc,
        trace = [AcquireLock,
                 CreateBackup [[''proj'', ''f''], [''proj'', ''a.ts''], [''proj'', ''c.ts'']],
                 RestoreBackup, ClearBackup, ReleaseLock] \<rparr>)"
  proof -
    let ?env = "restoring skills_tree"
    let ?w = "w_skills state_abc"
    let ?entry = "applied0 ''c'' [(''c.ts'', ''h4'')] None"
    let ?rem = "filter (\<lambda>s. name s \<noteq> ''c'') (applied_skills (state_doc ?w))"
    let ?files = "map (path_join [''proj'']) (touched_by_state (state_doc ?w))"
    let ?w1 = "?w\<lparr>tree := createBackup ?env ?files (tree ?w),
                    trace := trace ?w @ [AcquireLock, CreateBackup ?files]\<rparr>"
    let ?reset = "reset_exclusive ?env [''proj'']
                    (concat (map (\<lambda>s. object_keys (file_hashes s)) ?rem))
                    (object_keys (file_hashes ?entry)) (tree ?w1)"
    let ?replay = "replaySkills ?env (map name ?rem) dirs_ab [''proj''] (?w1\<lparr>tree := snd ?reset\<rparr>)"
    have g1: "\<not> truthy (rebased_at (state_doc ?w))" by code_simp
    have g2: "find (\<lambda>s. name s = ''c'') (applied_skills (state_doc ?w)) = Some ?entry"
      by code_simp
    have g3: "\<not> truthy (custom_patch ?entry)" by code_simp
    have names: "map name ?rem = [''a'', ''b'']" by code_simp
    have t1: "tree ?w1 = skills_tree" by code_simp
    have fa: "findSkillDir ?env skills_tree ''a'' [''proj'']
                = Inr (Some [''proj'', ''.gemini'', ''skills'', ''a''])" by code_simp
    have fb: "findSkillDir ?env skills_tree ''b'' [''proj'']
                = Inr (Some [''proj'', ''.gemini'', ''skills'', ''b''])" by code_simp
    have loc: "locate_skill_dirs ?env [''proj''] (map name ?rem) Map.empty (tree ?w1)
                 = Inr (AllLocated dirs_ab)"
      unfolding names t1 by (simp add: fa fb dirs_ab_def)
    have "fst ?reset = Inr ()" by code_simp
    then have reset: "?reset = (Inr (), snd ?reset)" by (metis prod.collapse)
    have "case ?replay of
            (Inr rr, w3) \<Rightarrow> \<not> success rr \<and> error rr = Some ''Unresolved merge conflicts: f''
          | (Inl e, w3) \<Rightarrow> False" by code_simp
    then obtain rr where replay: "?replay = (Inr rr, snd ?replay)"
      and rr: "\<not> success rr" "error rr = Some ''Unresolved merge conflicts: f''"
      by (cases "?replay"; cases "fst ?replay") auto
    have fin: "restored ?env (snd ?replay) =
        \<lparr> tree = skills_tree, state_doc = state_abc,
          trace = [AcquireLock,
                   CreateBackup [[''proj'', ''f''], [''proj'', ''a.ts''], [''proj'', ''c.ts'']],
                   RestoreBackup, ClearBackup, ReleaseLock] \<rparr>" by code_simp
    note T = uninstallSkill_restores_on_failure[where w = ?w and skillName = "''c''" and env = ?env
        and projectRoot = "[''proj'']", OF g1 g2 g3 refl refl refl refl]
    from T[THEN conjunct2, THEN conjunct2, THEN conjunct1, rule_format, OF loc,
        THEN conjunct2, rule_format, OF reset, THEN conjunct2, rule_format, OF replay,
        THEN conjunct1, rule_format, OF rr(1)]
    show ?thesis unfolding rr(2) fin by simp
  qed
  have tests:
    "uninstallSkill (restoring skills_tree) ''a'' [''proj''] (w_skills (state_ac ''false'')) =
     (\<lparr> u_success = False, u_skill = ''a'',
        u_error = Some ''Tests failed after uninstall: c'',
        customPatchWarning = None, replayResults = Some [(''c'', False)] \<rparr>,
      \<lparr> tree = skills_tree, state_doc = state_ac ''false'',
        trace = [AcquireLock,
                 CreateBackup [[''proj'', ''f''], [''proj'', ''a.ts''], [''proj'', ''c.ts'']],
                 RestoreBackup, ClearBackup, ReleaseLock] \<rparr>)"
  proof -
    let ?env = "restoring skills_tree"
    let ?w = "w_skills (state_ac ''false'')"
    let ?a = "applied0 ''a'' [(''f'', ''h1''), (''a.ts'', ''h2'')] None"
    let ?c = "applied0 ''c'' [(''c.ts'', ''h4'')] (Some ''false'')"
    let ?rem = "filter (\<lambda>s. name s \<noteq> ''a'') (applied_skills (state_doc ?w))"
    let ?files = "map (path_join [''proj'']) (touched_by_state (state_doc ?w))"
    let ?w1 = "?w\<lparr>tree := createBackup ?env ?files (tree ?w),
                    trace := trace ?w @ [AcquireLock, CreateBackup ?files]\<rparr>"
    let ?reset = "reset_exclusive ?env [''proj'']
                    (concat (map (\<lambda>s. object_keys (file_hashes s)) ?rem))
                    (object_keys (file_hashes ?a)) (tree ?w1)"
    let ?replay = "replaySkills ?env (map name ?rem) dirs_only_c [''proj'']
                     (?w1\<lparr>tree := snd ?reset\<rparr>)"
    let ?t3 = "tree (snd ?replay)"
    have g1: "\<not> truthy (rebased_at (state_doc ?w))" by code_simp
    have g2: "find (\<lambda>s. name s = ''a'') (applied_skills (state_doc ?w)) = Some ?a"
      by code_simp
    have g3: "\<not> truthy (custom_patch ?a)" by code_simp
    have names: "map name ?rem = [''c'']" by code_simp
    have t1: "tree ?w1 = skills_tree" by code_simp
    have fc: "findSkillDir ?env skills_tree ''c'' [''proj'']
                = Inr (Some [''proj'', ''.gemini'', ''skills'', ''c''])" by code_simp
    have loc: "locate_skill_dirs ?env [''proj''] (map name ?rem) Map.empty (tree ?w1)
                 = Inr (AllLocated dirs_only_c)"
      unfolding names t1 by (simp add: fc dirs_only_c_def)
    have "fst ?reset = Inr ()" by code_simp
    then have reset: "?reset = (Inr (), snd ?reset)" by (metis prod.collapse)
    have "case ?replay of (Inr rr, w3) \<Rightarrow> success rr | (Inl e, w3) \<Rightarrow> False" by code_simp
    then obtain rr where replay: "?replay = (Inr rr, snd ?replay)" and rr: "success rr"
      by (cases "?replay"; cases "fst ?replay") auto
    have custom: "(case custom_modifications (state_doc ?w) of
                     None \<Rightarrow> io_return ()
                   | Some mods \<Rightarrow> reapply_custom ?env [''proj''] mods) ?t3 = (Inr (), ?t3)"
      by code_simp
    note T = uninstallSkill_restores_on_failure[where w = ?w and skillName = "''a''" and env = ?env
        and projectRoot = "[''proj'']", OF g1 g2 g3 refl refl refl refl]
    note T3 = T[THEN conjunct2, THEN conjunct2, THEN conjunct1, rule_format, OF loc,
        THEN conjunct2, rule_format, OF reset, THEN conjunct2, rule_format, OF replay,
        THEN conjunct2, rule_format, OF rr]
    have tests: "run_skill_tests ?env [''proj''] ''a'' (applied_skills (state_doc ?w)) [] ?t3
                   = ([(''c'', False)], ?t3)" by code_simp
    have split: "applied_skills (state_doc ?w) = [?a] @ ?c # []" by code_simp
    have other: "name ?c \<noteq> ''a''" by code_simp
    have has_test: "truthy (outcomes_test ?c)" by code_simp
    have last: "\<forall>s'\<in>set []. name s' \<noteq> name ?c" by simp
    have before: "run_skill_tests ?env [''proj''] ''a'' [?a] [] ?t3 = ([], ?t3)" by code_simp
    have fails: "execTest ?env (the (outcomes_test ?c)) [''proj''] ?t3 = (Inl ''exit 1'', ?t3)"
      by code_simp
    have msg: "''Tests failed after uninstall: ''
                 @ join_with '', '' (map fst (filter (\<lambda>r. \<not> snd r)
                                       (object_entries [(''c'', False)])))
               = ''Tests failed after uninstall: c''" by code_simp
    have res: "object_entries [(''c'', False)] = [(''c'', False)]" by code_simp
    have fin: "restored ?env ((snd ?replay)\<lparr>tree := ?t3\<rparr>) =
        \<lparr> tree = skills_tree, state_doc = state_ac ''false'',
          trace = [AcquireLock,
                   CreateBackup [[''proj'', ''f''], [''proj'', ''a.ts''], [''proj'', ''c.ts'']],
                   RestoreBackup, ClearBackup, ReleaseLock] \<rparr>" by code_simp
    from T3[rule_format, OF conjI[OF custom tests], THEN conjunct1, rule_format,
        OF conjI[OF split conjI[OF other conjI[OF has_test conjI[OF last conjI[OF before fails]]]]],
        THEN conjunct2]
    show ?thesis unfolding res fin by simp
  qed
  have committed:
    "uninstallSkill (restoring skills_tree) ''a'' [''proj''] (w_skills (state_ac ''npm test'')) =
     (\<lparr> u_success = True, u_skill = ''a'', u_error = None,
        customPatchWarning = None, replayResults = Some [(''c'', True)] \<rparr>,
      \<lparr> tree = skills_proj [(''f'', File ''line1'')] [(''c.ts'', File ''code of c'')],
        state_doc = state0\<lparr>applied_skills :=
                      [applied0 ''c'' [(''c.ts'', ''#code of c'')] (Some ''npm test'')]\<rparr>,
        trace = [AcquireLock,
                 CreateBackup [[''proj'', ''f''], [''proj'', ''a.ts''], [''proj'', ''c.ts'']],
                 WriteState (state0\<lparr>applied_skills :=
                      [applied0 ''c'' [(''c.ts'', ''#code of c'')] (Some ''npm test'')]\<rparr>),
                 ClearBackup, ReleaseLock] \<rparr>)"
  proof -
    let ?env = "restoring skills_tree"
    let ?w = "w_skills (state_ac ''npm test'')"
    let ?a = "applied0 ''a'' [(''f'', ''h1''), (''a.ts'', ''h2'')] None"
    let ?c = "applied0 ''c'' [(''c.ts'', ''h4'')] (Some ''npm test'')"
    let ?rem = "filter (\<lambda>s. name s \<noteq> ''a'') (applied_skills (state_doc ?w))"
    let ?files = "map (path_join [''proj'']) (touched_by_state (state_doc ?w))"
    let ?w1 = "?w\<lparr>tree := createBackup ?env ?files (tree ?w),
                    trace := trace ?w @ [AcquireLock, CreateBackup ?files]\<rparr>"
    let ?reset = "reset_exclusive ?env [''proj'']
                    (concat (map (\<lambda>s. object_keys (file_hashes s)) ?rem))
                    (object_keys (file_hashes ?a)) (tree ?w1)"
    let ?replay = "replaySkills ?env (map name ?rem) dirs_only_c [''proj'']
                     (?w1\<lparr>tree := snd ?reset\<rparr>)"
    let ?t3 = "tree (snd ?replay)"
    have g1: "\<not> truthy (rebased_at (state_doc ?w))" by code_simp
    have g2: "find (\<lambda>s. name s = ''a'') (applied_skills (state_doc ?w)) = Some ?a"
      by code_simp
    have g3: "\<not> truthy (custom_patch ?a)" by code_simp
    have names: "map name ?rem = [''c'']" by code_simp
    have t1: "tree ?w1 = skills_tree" by code_simp
    have fc: "findSkillDir ?env skills_tree ''c'' [''proj'']
                = Inr (Some [''proj'', ''.gemini'', ''skills'', ''c''])" by code_simp
    have loc: "locate_skill_dirs ?env [''proj''] (map name ?rem) Map.empty (tree ?w1)
                 = Inr (AllLocated dirs_only_c)"
      unfolding names t1 by (simp add: fc dirs_only_c_def)
    have "fst ?reset = Inr ()" by code_simp
    then have reset: "?reset = (Inr (), snd ?reset)" by (metis prod.collapse)
    have "case ?replay of (Inr rr, w3) \<Rightarrow> success rr | (Inl e, w3) \<Rightarrow> False" by code_simp
    then obtain rr where replay: "?replay = (Inr rr, snd ?replay)" and rr: "success rr"
      by (cases "?replay"; cases "fst ?replay") auto
    have custom: "(case custom_modifications (state_doc ?w) of
                     None \<Rightarrow> io_return ()
                   | Some mods \<Rightarrow> reapply_custom ?env [''proj''] mods) ?t3 = (Inr (), ?t3)"
      by code_simp
    note T = uninstallSkill_restores_on_failure[where w = ?w and skillName = "''a''" and env = ?env
        and projectRoot = "[''proj'']", OF g1 g2 g3 refl refl refl refl]
    note T3 = T[THEN conjunct2, THEN conjunct2, THEN conjunct1, rule_format, OF loc,
        THEN conjunct2, rule_format, OF reset, THEN conjunct2, rule_format, OF replay,
        THEN conjunct2, rule_format, OF rr]
    have tests: "run_skill_tests ?env [''proj''] ''a'' (applied_skills (state_doc ?w)) [] ?t3
                   = ([(''c'', True)], ?t3)" by code_simp
    have passed: "filter (\<lambda>r. \<not> snd r) (object_entries [(''c'', True)]) = []" by code_simp
    have refresh: "refresh_skills ?env [''proj''] ?t3 ?rem
                     = Inr [applied0 ''c'' [(''c.ts'', ''#code of c'')] (Some ''npm test'')]"
      by code_simp
    have res: "(if object_keys [(''c'', True)] \<noteq> [] then Some [(''c'', True)]
                else None) = Some [(''c'', True)]" by code_simp
    have fin: "(snd ?replay)\<lparr>tree := clearBackup ?env ?t3,
           state_doc := (state_doc ?w)\<lparr>applied_skills :=
                          [applied0 ''c'' [(''c.ts'', ''#code of c'')] (Some ''npm test'')]\<rparr>,
           trace := trace (snd ?replay)
             @ [WriteState ((state_doc ?w)\<lparr>applied_skills :=
                          [applied0 ''c'' [(''c.ts'', ''#code of c'')] (Some ''npm test'')]\<rparr>),
                ClearBackup, ReleaseLock]\<rparr> =
        \<lparr> tree = skills_proj [(''f'', File ''line1'')] [(''c.ts'', File ''code of c'')],
          state_doc = state0\<lparr>applied_skills :=
                        [applied0 ''c'' [(''c.ts'', ''#code of c'')] (Some ''npm test'')]\<rparr>,
          trace = [AcquireLock,
                   CreateBackup [[''proj'', ''f''], [''proj'', ''a.ts''], [''proj'', ''c.ts'']],
                   WriteState (state0\<lparr>applied_skills :=
                        [applied0 ''c'' [(''c.ts'', ''#code of c'')] (Some ''npm test'')]\<rparr>),
                   ClearBackup, ReleaseLock] \<rparr>" by code_simp
    from T3[rule_format, OF conjI[OF custom tests], THEN conjunct2, THEN conjunct2, rule_format,
        OF passed, THEN conjunct2, rule_format, OF refresh]
    show ?thesis unfolding res fin .
  qed
  from missing replay tests committed show ?thesis by (intro conjI)
qed

end
